(* ===== verification/Prelude.thy ===== *)
theory Prelude
  imports Complex_Main "HOL-Library.Word" "HOL-Library.Sublist"
begin

text \<open>
  Shared vocabulary of the development: the machine types of audio data (bytes and
  16-bit samples), the few Python string operations both front ends use on user input
  (\<open>str.lower\<close>, \<open>str.strip\<close>, truthiness of a string), and the collections of
  lemmas the component theories hand to the simplifier.

  Strings are \<open>char list\<close>, that is byte strings. Python's \<open>str.lower\<close> and
  \<open>str.strip\<close> act on Unicode code points; the model gives their effect on the ASCII
  range, which is all that the comparisons of the source (against \<open>'quit'\<close>,
  \<open>'voice'\<close>, \<open>'text'\<close>, \<open>'y'\<close>) can observe for ASCII input.
\<close>

named_theorems py_str_simps "evaluation rules of the modelled Python string operations"
named_theorems world_simps "frame rules of the modelled world updates"

type_synonym byte = "8 word"
type_synonym bytes = "byte list"
type_synonym sample = "16 word"

section \<open>Python string operations on ASCII\<close>

definition py_lower_char :: "char \<Rightarrow> char" where
  "py_lower_char c =
     (let n = (of_char c :: nat) in if 65 \<le> n \<and> n \<le> 90 then char_of (n + 32) else c)"

definition py_lower :: "string \<Rightarrow> string" where
  "py_lower s = map py_lower_char s"

text \<open>
  \<open>str.isspace\<close> on the ASCII range: tab, line feed, vertical tab, form feed, carriage
  return, the four information separators \<open>\x1c\<close>..\<open>\x1f\<close> and space.
\<close>

definition py_is_space :: "char \<Rightarrow> bool" where
  "py_is_space c = (let n = (of_char c :: nat) in (9 \<le> n \<and> n \<le> 13) \<or> (28 \<le> n \<and> n \<le> 32))"

definition py_strip :: "string \<Rightarrow> string" where
  "py_strip s = rev (dropWhile py_is_space (rev (dropWhile py_is_space s)))"

text \<open>A triple-quoted block: its lines, each ended by a line feed.\<close>

definition py_unlines :: "string list \<Rightarrow> string" where
  "py_unlines ls = concat (map (\<lambda>l. l @ [CHR 0x0A]) ls)"

text \<open>Python truthiness of a string: the empty string is false.\<close>

definition py_truthy :: "string \<Rightarrow> bool" where
  "py_truthy s = (s \<noteq> [])"

text \<open>\<open>str(x)\<close> of a value that is a string or \<open>None\<close>, as an f-string prints it.\<close>

definition py_str_opt :: "string option \<Rightarrow> string" where
  "py_str_opt v = (case v of None \<Rightarrow> ''None'' | Some s \<Rightarrow> s)"

text \<open>Python truthiness of the optional string a handler returns.\<close>

definition truthy_opt :: "string option \<Rightarrow> bool" where
  "truthy_opt r = (case r of None \<Rightarrow> False | Some s \<Rightarrow> s \<noteq> [])"

lemma ball_set_dropWhile_self:
  "(\<forall>x \<in> set (dropWhile P xs). P x) \<longleftrightarrow> (\<forall>x \<in> set xs. P x)"
  by (induction xs) auto

lemma py_strip_empty_iff [py_str_simps]:
  "py_strip s = [] \<longleftrightarrow> (\<forall>c \<in> set s. py_is_space c)"
  by (simp add: py_strip_def dropWhile_eq_Nil_conv ball_set_dropWhile_self)

lemma py_lower_length [simp]: "length (py_lower s) = length s"
  by (simp add: py_lower_def)

lemma py_lower_Nil [simp]: "py_lower [] = []"
  by (simp add: py_lower_def)

text \<open>Each line of a triple-quoted block occurs in the block.\<close>

lemma sublist_py_unlines: "l \<in> set ls \<Longrightarrow> sublist l (py_unlines ls)"
proof (induction ls)
  case (Cons a ls)
  have eq: "py_unlines (a # ls) = a @ ([CHR 0x0A] @ py_unlines ls)" by (simp add: py_unlines_def)
  show ?case
  proof (cases "l = a")
    case False
    with Cons have "sublist l (py_unlines ls)" by simp
    moreover have "sublist (py_unlines ls) ((a @ [CHR 0x0A]) @ py_unlines ls)" by (rule sublist_append_leftI)
    ultimately show ?thesis unfolding eq by (simp add: sublist_order.order.trans)
  qed (simp add: eq)
qed simp

lemma py_truthy_iff [py_str_simps]: "py_truthy s \<longleftrightarrow> s \<noteq> []"
  by (simp add: py_truthy_def)

end
