(* ===== verification/Providers.thy ===== *)
theory Providers
  imports Prelude
begin

text \<open>
  The interface between the front ends and the three hosted services (transcription,
  chat completion, speech synthesis). The services are outside the repository: the
  model gives the requests the code builds as data, and a service as an arbitrary
  function from its request to a result or a raised exception, so that every theorem
  about a front end holds for every behaviour of the services.

  The second half states the contract of the conversation pipeline (spec section 4.4)
  abstractly: which service is called, in which order, and what the turn yields. The
  front-end theories prove that their handlers refine it.
\<close>

section \<open>Requests and responses\<close>

text \<open>
  An exception raised by a client library call: \<open>requests.exceptions.Timeout\<close>, which
  only \<open>app_elevenlabs.py\<close> tells apart, and every other exception.
\<close>

datatype exc = Timeout | OtherError

datatype role = System | User | Assistant

record chat_msg =
  msg_role :: role
  msg_content :: string

text \<open>
  A chat-completion request as \<open>chat.completions.create\<close> receives it. The sampling
  temperature is absent (the service default) in \<open>app.py\<close> and \<open>0.4\<close> in
  \<open>app_elevenlabs.py\<close>.
\<close>

record chat_req =
  req_model :: string
  req_messages :: "chat_msg list"
  req_temperature :: "rat option"

text \<open>
  An HTTP response of \<open>requests\<close>: the status, the body as the chunks that
  \<open>iter_content\<close> yields (\<open>content\<close> is their concatenation), and \<open>text\<close>.
\<close>

record http_resp =
  status_code :: nat
  body_chunks :: "bytes list"
  resp_text :: string

definition resp_content :: "http_resp \<Rightarrow> bytes" where
  "resp_content r = concat (body_chunks r)"

section \<open>The abstract conversation pipeline\<close>

text \<open>
  One turn of the pipeline: an utterance is text or recorded audio; a service call is
  one of the three kinds; a turn fails with one of the two failures of the spec. A
  service is given here as a partial function (\<open>None\<close> for an error), and an empty
  transcript counts as a failed transcription.
\<close>

datatype 'a utterance = TextUtt string | AudioUtt 'a

datatype 'a call = CallTranscribe 'a | CallGenerate string | CallSynthesize string

datatype failure = TranscriptionFailure | GenerationFailure

fun pipeline_reply ::
  "(string \<Rightarrow> string option) \<Rightarrow> string \<Rightarrow> (failure + string) \<times> 'a call list"
where
  "pipeline_reply gen t =
     (case gen t of
        None \<Rightarrow> (Inl GenerationFailure, [CallGenerate t])
      | Some r \<Rightarrow> (Inr r, [CallGenerate t]))"

fun pipeline ::
  "('a \<Rightarrow> string option) \<Rightarrow> (string \<Rightarrow> string option) \<Rightarrow> 'a utterance \<Rightarrow> (failure + string) \<times> 'a call list"
where
  "pipeline stt gen (TextUtt t) = pipeline_reply gen t"
| "pipeline stt gen (AudioUtt a) =
     (case stt a of
        None \<Rightarrow> (Inl TranscriptionFailure, [CallTranscribe a])
      | Some t \<Rightarrow>
          if t = [] then (Inl TranscriptionFailure, [CallTranscribe a])
          else (case pipeline_reply gen t of (res, cs) \<Rightarrow> (res, CallTranscribe a # cs)))"

text \<open>
  A spoken turn goes on to synthesis: speech is requested for the reply, and only for a
  reply that exists.
\<close>

definition spoken_turn ::
  "('a \<Rightarrow> string option) \<Rightarrow> (string \<Rightarrow> string option) \<Rightarrow> 'a utterance \<Rightarrow> (failure + string) \<times> 'a call list"
where
  "spoken_turn stt gen u =
     (case pipeline stt gen u of
        (Inr r, cs) \<Rightarrow> (Inr r, cs @ [CallSynthesize r])
      | (Inl f, cs) \<Rightarrow> (Inl f, cs))"

text \<open>The ordering guarantees of spec section 5, read off the abstract pipeline.\<close>

lemma pipeline_no_generate_after_failed_transcription [simp]:
  "stt a = None \<Longrightarrow> pipeline stt gen (AudioUtt a) = (Inl TranscriptionFailure, [CallTranscribe a])"
  by simp

lemma spoken_turn_synthesizes_reply:
  "spoken_turn stt gen u = (res, cs) \<Longrightarrow> CallSynthesize r \<in> set cs \<Longrightarrow> res = Inr r"
  by (cases u) (auto simp: spoken_turn_def split: option.splits if_splits sum.splits prod.splits)

end
