(* ===== verification/Audio.thy ===== *)
theory Audio
  imports Prelude
begin

text \<open>
  Audio data of \<open>app.py\<close>: the capture parameters of \<open>VoiceChatBot.__init__\<close>
  (mono, 44100 Hz, \<open>paInt16\<close>, 1024 frames per buffer), the bytes a
  \<open>stream.read(self.chunk)\<close> returns (16-bit signed samples, little-endian), and the
  container that \<open>record_audio\<close> writes with the \<open>wave\<close> module. The microphone is a
  stream of samples indexed by their position in time.
\<close>

section \<open>Capture parameters\<close>

definition CHANNELS :: nat where "CHANNELS = 1"
definition RATE :: nat where "RATE = 44100"
definition CHUNK :: nat where "CHUNK = 1024"

text \<open>\<open>self.audio.get_sample_size(pyaudio.paInt16)\<close> is two bytes.\<close>

definition SAMPLE_WIDTH :: nat where "SAMPLE_WIDTH = 2"

lemmas capture_params = CHANNELS_def RATE_def CHUNK_def SAMPLE_WIDTH_def

section \<open>16-bit little-endian PCM\<close>

definition le16 :: "sample \<Rightarrow> bytes" where
  "le16 x = [ucast x, ucast (drop_bit 8 x)]"

definition of_le16 :: "byte \<Rightarrow> byte \<Rightarrow> sample" where
  "of_le16 lo hi = or (ucast lo) (push_bit 8 (ucast hi))"

definition pcm_encode :: "sample list \<Rightarrow> bytes" where
  "pcm_encode xs = concat (map le16 xs)"

fun pcm_decode :: "bytes \<Rightarrow> sample list" where
  "pcm_decode (lo # hi # rest) = of_le16 lo hi # pcm_decode rest"
| "pcm_decode _ = []"

section \<open>Reading the microphone\<close>

text \<open>
  \<open>stream.read(self.chunk)\<close> blocks until \<open>CHUNK\<close> frames are there and returns them
  encoded; the chunk read at sample position \<open>p\<close> holds samples \<open>p\<close> to
  \<open>p + CHUNK - 1\<close> of the microphone.
\<close>

definition read_chunk :: "(nat \<Rightarrow> sample) \<Rightarrow> nat \<Rightarrow> bytes" where
  "read_chunk mic p = pcm_encode (map mic [p..<p + CHUNK])"

text \<open>The \<open>i\<close>-th chunk of a recording that starts at sample position \<open>p\<close>.\<close>

definition chunk_at :: "(nat \<Rightarrow> sample) \<Rightarrow> nat \<Rightarrow> nat \<Rightarrow> bytes" where
  "chunk_at mic p i = read_chunk mic (p + i * CHUNK)"

section \<open>The WAV container\<close>

text \<open>
  The header fields \<open>record_audio\<close> sets (\<open>setnchannels\<close>, \<open>setsampwidth\<close>,
  \<open>setframerate\<close>) and the data it writes (\<open>b''.join(self.frames)\<close>).
\<close>

record wav =
  wav_channels :: nat
  wav_sampwidth :: nat
  wav_rate :: nat
  wav_data :: bytes

definition write_wav :: "bytes list \<Rightarrow> wav" where
  "write_wav frames =
     \<lparr>wav_channels = CHANNELS, wav_sampwidth = SAMPLE_WIDTH, wav_rate = RATE,
      wav_data = concat frames\<rparr>"

section \<open>Lemmas\<close>

lemma length_le16 [simp]: "length (le16 x) = 2"
  by (simp add: le16_def)

lemma of_le16_le16: "of_le16 (ucast x) (ucast (drop_bit 8 x)) = x"
  unfolding of_le16_def
  by (rule bit_word_eqI) (auto simp: bit_simps)

lemma le16_of_le16: "le16 (of_le16 lo hi) = [lo, hi]"
proof -
  have "ucast (of_le16 lo hi) = lo" and "ucast (drop_bit 8 (of_le16 lo hi)) = hi"
    unfolding of_le16_def
    by (rule bit_word_eqI; auto simp: bit_simps dest: bit_imp_le_length)+
  then show ?thesis by (simp add: le16_def)
qed

lemma length_pcm_encode [simp]: "length (pcm_encode xs) = 2 * length xs"
  by (induction xs) (simp_all add: pcm_encode_def)

lemma pcm_encode_Cons [simp]: "pcm_encode (x # xs) = le16 x @ pcm_encode xs"
  by (simp add: pcm_encode_def)

lemma pcm_encode_Nil [simp]: "pcm_encode [] = []"
  by (simp add: pcm_encode_def)

lemma length_read_chunk [simp]: "length (read_chunk mic p) = 2 * CHUNK"
  by (simp add: read_chunk_def)

lemma length_chunk_at [simp]: "length (chunk_at mic p i) = 2 * CHUNK"
  by (simp add: chunk_at_def)

lemma length_concat_chunks:
  "length (concat (map (chunk_at mic p) is)) = length is * (CHUNK * CHANNELS * SAMPLE_WIDTH)"
  by (induction "is") (simp_all add: capture_params)

section \<open>Round trips of the sample encoding\<close>

lemma pcm_roundtrip: "pcm_decode (pcm_encode xs) = xs"
  by (induction xs) (simp_all add: le16_def of_le16_le16)

lemma pcm_roundtrip_bytes: "even (length bs) \<Longrightarrow> pcm_encode (pcm_decode bs) = bs"
proof (induction bs rule: pcm_decode.induct)
  case (1 lo hi rest)
  then show ?case by (simp add: le16_of_le16)
qed simp_all

lemma pcm_encode_append: "pcm_encode (xs @ ys) = pcm_encode xs @ pcm_encode ys"
  by (simp add: pcm_encode_def)

lemma concat_chunks_pcm:
  "concat (map (chunk_at mic p) [0..<k]) = pcm_encode (map mic [p..<p + k * CHUNK])"
proof (induction k)
  case 0
  then show ?case by simp
next
  case (Suc k)
  have eq: "p + Suc k * CHUNK = p + k * CHUNK + CHUNK" by simp
  have "[p..<p + Suc k * CHUNK] = [p..<p + k * CHUNK] @ [p + k * CHUNK..<p + k * CHUNK + CHUNK]"
    unfolding eq by (rule upt_add_eq_append) simp
  with Suc show ?case by (simp add: chunk_at_def read_chunk_def pcm_encode_append)
qed

text \<open>
  Decoding the data of the container written from \<open>k\<close> chunks read from sample
  position \<open>p\<close> gives back the \<open>k * CHUNK\<close> samples from \<open>p\<close> on, in order.
\<close>

lemma captured_chunks_roundtrip:
  "pcm_decode (wav_data (write_wav (map (chunk_at mic p) [0..<k]))) = map mic [p..<p + k * CHUNK]"
  by (simp add: write_wav_def concat_chunks_pcm pcm_roundtrip)

end
