(* ===== verification/Capture.thy ===== *)
theory Capture
  imports Prelude
begin

text \<open>
  The recording lifecycle of \<open>VoiceChatBot.record_audio\<close> (\<open>app.py\<close>) as two
  interleaved threads sharing the flag \<open>self.recording\<close> and the list
  \<open>self.frames\<close>. The capture thread runs
  \<^verbatim>\<open>
      while self.recording:
          data = stream.read(self.chunk)
          self.frames.append(data)
  \<close>
  and the foreground waits for Enter (\<open>input()\<close>), clears the flag and joins the
  thread. Each Python statement is one atomic step (the interpreter lock makes the
  flag read and the list append atomic); which thread moves next is left open, so the
  steps form a relation. \<open>stream.read\<close> may raise (an input overflow), which ends the
  capture thread with the frames it has. The stream is a function from the number of
  chunks read so far to the chunk.
\<close>

datatype 'b tpc = TCheck | TRead | TAppend 'b | TExited

datatype fpc = FWaitEnter | FStopped | FJoined

record 'b cap_state =
  flag :: bool
  buf :: "'b list"
  tpc :: "'b tpc"
  fpc :: fpc
  reads :: nat

text \<open>
  The state right after \<open>record_thread.start()\<close>: \<open>self.recording\<close> was set by
  \<open>voice_chat_mode\<close>, \<open>self.frames\<close> was emptied by \<open>record_audio\<close>.
\<close>

definition cap_init :: "'b cap_state" where
  "cap_init = \<lparr>flag = True, buf = [], tpc = TCheck, fpc = FWaitEnter, reads = 0\<rparr>"

inductive cap_step :: "(nat \<Rightarrow> 'b) \<Rightarrow> 'b cap_state \<Rightarrow> 'b cap_state \<Rightarrow> bool"
  for src :: "nat \<Rightarrow> 'b" where
  check_on: "tpc s = TCheck \<Longrightarrow> flag s \<Longrightarrow> cap_step src s (s\<lparr>tpc := TRead\<rparr>)"
| check_off: "tpc s = TCheck \<Longrightarrow> \<not> flag s \<Longrightarrow> cap_step src s (s\<lparr>tpc := TExited\<rparr>)"
| read: "tpc s = TRead \<Longrightarrow>
    cap_step src s (s\<lparr>tpc := TAppend (src (reads s)), reads := Suc (reads s)\<rparr>)"
| read_error: "tpc s = TRead \<Longrightarrow> cap_step src s (s\<lparr>tpc := TExited\<rparr>)"
| append: "tpc s = TAppend d \<Longrightarrow> cap_step src s (s\<lparr>buf := buf s @ [d], tpc := TCheck\<rparr>)"
| enter: "fpc s = FWaitEnter \<Longrightarrow> cap_step src s (s\<lparr>flag := False, fpc := FStopped\<rparr>)"
| join: "fpc s = FStopped \<Longrightarrow> tpc s = TExited \<Longrightarrow> cap_step src s (s\<lparr>fpc := FJoined\<rparr>)"

inductive cap_reach :: "(nat \<Rightarrow> 'b) \<Rightarrow> 'b cap_state \<Rightarrow> bool" for src :: "nat \<Rightarrow> 'b" where
  start: "cap_reach src cap_init"
| step: "cap_reach src s \<Longrightarrow> cap_step src s t \<Longrightarrow> cap_reach src t"

text \<open>
  The steps of a recording in which \<open>stream.read\<close> returns: every step but the one
  of \<open>read_error\<close>, so that the thread can only leave its loop through the flag.
\<close>

definition cap_step_ok :: "(nat \<Rightarrow> 'b) \<Rightarrow> 'b cap_state \<Rightarrow> 'b cap_state \<Rightarrow> bool" where
  "cap_step_ok src s t \<longleftrightarrow> cap_step src s t \<and> \<not> (tpc s = TRead \<and> tpc t = TExited)"

text \<open>
  The functional model of a finished recording, which \<open>Terminal\<close> uses: the first
  \<open>k\<close> chunks of the stream, in order.
\<close>

definition captured :: "(nat \<Rightarrow> 'b) \<Rightarrow> nat \<Rightarrow> 'b list" where
  "captured src k = map src [0..<k]"

section \<open>Invariant\<close>

text \<open>
  What the two threads keep true between them: the buffer is the stream's prefix, the
  read counter is one ahead while a chunk is in flight, the flag is up exactly while
  the foreground waits for Enter, and a joined foreground has an exited thread.
\<close>

definition in_flight :: "'b tpc \<Rightarrow> nat" where
  "in_flight p = (case p of TRead \<Rightarrow> 1 | TAppend _ \<Rightarrow> 1 | _ \<Rightarrow> 0)"

definition cap_inv :: "(nat \<Rightarrow> 'b) \<Rightarrow> 'b cap_state \<Rightarrow> bool" where
  "cap_inv src s \<longleftrightarrow>
     buf s = captured src (length (buf s))
   \<and> reads s = length (buf s) + (case tpc s of TAppend _ \<Rightarrow> 1 | _ \<Rightarrow> 0)
   \<and> (\<forall>d. tpc s = TAppend d \<longrightarrow> d = src (length (buf s)))
   \<and> (flag s \<longleftrightarrow> fpc s = FWaitEnter)
   \<and> (fpc s = FJoined \<longrightarrow> tpc s = TExited)"

inductive_cases cap_stepE: "cap_step src s t"

lemma captured_Suc: "captured src (Suc k) = captured src k @ [src k]"
  by (simp add: captured_def)

lemma length_captured [simp]: "length (captured src k) = k"
  by (simp add: captured_def)

lemma cap_inv_init: "cap_inv src cap_init"
  by (simp add: cap_inv_def cap_init_def captured_def)

lemma cap_step_inv: "cap_step src s t \<Longrightarrow> cap_inv src s \<Longrightarrow> cap_inv src t"
proof (induction rule: cap_step.induct)
  case (append s d)
  then show ?case by (simp add: cap_inv_def captured_Suc)
qed (auto simp: cap_inv_def)

lemma cap_reach_inv: "cap_reach src s \<Longrightarrow> cap_inv src s"
  by (induction rule: cap_reach.induct) (auto intro: cap_inv_init cap_step_inv)

section \<open>Steps after the stop signal\<close>

text \<open>
  Once the foreground has cleared the flag, the thread can still finish the chunk it
  is reading: a rank that every step lowers, and the count of frames plus the chunk
  in flight, which no step raises.
\<close>

definition tpc_rank :: "'b tpc \<Rightarrow> nat" where
  "tpc_rank p = (case p of TRead \<Rightarrow> 3 | TAppend _ \<Rightarrow> 2 | TCheck \<Rightarrow> 1 | TExited \<Rightarrow> 0)"

definition fpc_rank :: "fpc \<Rightarrow> nat" where
  "fpc_rank p = (case p of FWaitEnter \<Rightarrow> 2 | FStopped \<Rightarrow> 1 | FJoined \<Rightarrow> 0)"

definition cap_rank :: "'b cap_state \<Rightarrow> nat" where
  "cap_rank s = tpc_rank (tpc s) + fpc_rank (fpc s)"

lemma cap_step_stopped:
  "cap_step src s t \<Longrightarrow> \<not> flag s \<Longrightarrow>
     \<not> flag t \<and> cap_rank t < cap_rank s
   \<and> length (buf t) + in_flight (tpc t) \<le> length (buf s) + in_flight (tpc s)"
  by (induction rule: cap_step.induct)
     (auto simp: cap_rank_def tpc_rank_def fpc_rank_def in_flight_def split: fpc.splits)

lemma in_flight_le_1: "in_flight p \<le> 1"
  by (simp add: in_flight_def split: tpc.splits)

lemma cap_steps_stopped:
  "(cap_step src)\<^sup>*\<^sup>* s t \<Longrightarrow> \<not> flag s \<Longrightarrow>
     \<not> flag t \<and> length (buf t) + in_flight (tpc t) \<le> length (buf s) + in_flight (tpc s)"
  by (induction rule: rtranclp_induct) (fastforce dest: cap_step_stopped)+

lemma cap_pow_stopped:
  "(cap_step src ^^ n) s t \<Longrightarrow> \<not> flag s \<Longrightarrow> n + cap_rank t \<le> cap_rank s"
proof (induction n arbitrary: s)
  case 0
  then show ?case by simp
next
  case (Suc n)
  from Suc.prems(1) obtain u where su: "cap_step src s u" and ut: "(cap_step src ^^ n) u t"
    by (blast dest: relpowp_Suc_D2)
  from cap_step_stopped [OF su Suc.prems(2)] have "\<not> flag u" "cap_rank u < cap_rank s"
    by auto
  with Suc.IH [OF ut] show ?case by simp
qed

lemma cap_rank_le: "cap_rank s \<le> 5"
  by (simp add: cap_rank_def tpc_rank_def fpc_rank_def split: tpc.splits fpc.splits)

section \<open>Runs that finish a recording\<close>

text \<open>A run that records \<open>k\<close> chunks while the flag is up.\<close>

definition cap_loop :: "(nat \<Rightarrow> 'b) \<Rightarrow> nat \<Rightarrow> 'b cap_state" where
  "cap_loop src k = cap_init\<lparr>buf := captured src k, reads := k\<rparr>"

lemma cap_reach_loop: "cap_reach src (cap_loop src k)"
proof (induction k)
  case 0
  have "cap_loop src 0 = cap_init"
    by (simp add: cap_loop_def cap_init_def captured_def)
  then show ?case by (simp add: cap_reach.start)
next
  case (Suc k)
  let ?s = "cap_loop src k"
  have 1: "cap_step src ?s (?s\<lparr>tpc := TRead\<rparr>)"
    by (rule check_on) (simp_all add: cap_loop_def cap_init_def)
  have 2: "cap_step src (?s\<lparr>tpc := TRead\<rparr>) (?s\<lparr>tpc := TAppend (src k), reads := Suc k\<rparr>)"
    using read [of "?s\<lparr>tpc := TRead\<rparr>" src] by (simp add: cap_loop_def)
  have 3: "cap_step src (?s\<lparr>tpc := TAppend (src k), reads := Suc k\<rparr>) (cap_loop src (Suc k))"
    using append [of "?s\<lparr>tpc := TAppend (src k), reads := Suc k\<rparr>" "src k" src]
    by (simp add: cap_loop_def cap_init_def captured_Suc)
  from Suc 1 2 3 show ?case by (blast intro: cap_reach.step)
qed

definition cap_done :: "(nat \<Rightarrow> 'b) \<Rightarrow> nat \<Rightarrow> 'b cap_state" where
  "cap_done src k =
     cap_init\<lparr>buf := captured src k, reads := k, flag := False, tpc := TExited, fpc := FJoined\<rparr>"

lemma cap_reach_done: "cap_reach src (cap_done src k)"
proof -
  let ?s = "cap_loop src k"
  let ?t = "?s\<lparr>flag := False, fpc := FStopped\<rparr>"
  let ?u = "?t\<lparr>tpc := TExited\<rparr>"
  have 1: "cap_step src ?s ?t"
    by (rule enter) (simp add: cap_loop_def cap_init_def)
  have 2: "cap_step src ?t ?u"
    by (rule check_off) (simp_all add: cap_loop_def cap_init_def)
  have 3: "cap_step src ?u (?u\<lparr>fpc := FJoined\<rparr>)"
    by (rule join) simp_all
  have "?u\<lparr>fpc := FJoined\<rparr> = cap_done src k"
    by (simp add: cap_loop_def cap_done_def cap_init_def)
  with cap_reach_loop 1 2 3 show ?thesis by (metis cap_reach.step)
qed

lemma cap_done_sel [simp]:
  "fpc (cap_done src k) = FJoined" "flag (cap_done src k) = False"
  "tpc (cap_done src k) = TExited" "buf (cap_done src k) = captured src k"
  by (simp_all add: cap_done_def)

lemma cap_joined_final: "cap_inv src s \<Longrightarrow> fpc s = FJoined \<Longrightarrow> \<not> cap_step src s t"
  by (auto simp: cap_inv_def elim: cap_stepE)

lemma cap_step_okI: "cap_step src s t \<Longrightarrow> tpc s \<noteq> TRead \<or> tpc t \<noteq> TExited \<Longrightarrow> cap_step_ok src s t"
  by (simp add: cap_step_ok_def)

lemma cap_thread_exits:
  assumes "\<not> flag s"
  shows "\<exists>t. (cap_step_ok src)\<^sup>*\<^sup>* s t \<and> tpc t = TExited \<and> fpc t = fpc s"
proof -
  have from_append: "\<exists>t. (cap_step_ok src)\<^sup>*\<^sup>* a t \<and> tpc t = TExited \<and> fpc t = fpc a"
    if a: "tpc a = TAppend d" "\<not> flag a" for a d
  proof -
    let ?b = "a\<lparr>buf := buf a @ [d], tpc := TCheck\<rparr>"
    have "cap_step_ok src a ?b" using a by (intro cap_step_okI append) simp_all
    moreover have "cap_step_ok src ?b (?b\<lparr>tpc := TExited\<rparr>)"
      using a by (intro cap_step_okI check_off) simp_all
    ultimately show ?thesis by (intro exI [of _ "?b\<lparr>tpc := TExited\<rparr>"]) auto
  qed
  show ?thesis
  proof (cases "tpc s")
    case TCheck
    with assms have "cap_step_ok src s (s\<lparr>tpc := TExited\<rparr>)" by (intro cap_step_okI check_off) simp_all
    then show ?thesis by (intro exI [of _ "s\<lparr>tpc := TExited\<rparr>"]) auto
  next
    case TRead
    let ?a = "s\<lparr>tpc := TAppend (src (reads s)), reads := Suc (reads s)\<rparr>"
    have "cap_step_ok src s ?a" using TRead by (intro cap_step_okI read) simp_all
    moreover obtain t where "(cap_step_ok src)\<^sup>*\<^sup>* ?a t" "tpc t = TExited" "fpc t = fpc s"
      using from_append [of ?a "src (reads s)"] assms by auto
    ultimately show ?thesis by (blast intro: converse_rtranclp_into_rtranclp)
  next
    case (TAppend d)
    then show ?thesis using from_append [of s d] assms by simp
  next
    case TExited
    then show ?thesis by blast
  qed
qed

lemma cap_stopped_joins:
  assumes "\<not> flag s" and "fpc s = FStopped"
  shows "\<exists>t. (cap_step_ok src)\<^sup>*\<^sup>* s t \<and> fpc t = FJoined"
proof -
  obtain t where st: "(cap_step_ok src)\<^sup>*\<^sup>* s t" and t: "tpc t = TExited" "fpc t = FStopped"
    using cap_thread_exits [OF assms(1)] assms(2) by force
  from t have "cap_step_ok src t (t\<lparr>fpc := FJoined\<rparr>)" by (intro cap_step_okI join) simp_all
  with st have "(cap_step_ok src)\<^sup>*\<^sup>* s (t\<lparr>fpc := FJoined\<rparr>)" by auto
  then show ?thesis by (intro exI [of _ "t\<lparr>fpc := FJoined\<rparr>"]) auto
qed

lemma cap_steps_to_joined:
  assumes "cap_inv src s"
  shows "\<exists>t. (cap_step_ok src)\<^sup>*\<^sup>* s t \<and> fpc t = FJoined"
proof (cases "fpc s")
  case FWaitEnter
  let ?t = "s\<lparr>flag := False, fpc := FStopped\<rparr>"
  have "cap_step_ok src s ?t" using FWaitEnter by (intro cap_step_okI enter) simp_all
  moreover obtain u where "(cap_step_ok src)\<^sup>*\<^sup>* ?t u" "fpc u = FJoined"
    using cap_stopped_joins [of ?t src] by auto
  ultimately show ?thesis by (blast intro: converse_rtranclp_into_rtranclp)
next
  case FStopped
  with assms have "\<not> flag s" by (simp add: cap_inv_def)
  from this FStopped show ?thesis by (rule cap_stopped_joins)
next
  case FJoined
  then show ?thesis by blast
qed

section \<open>Properties of the recording lifecycle\<close>

text \<open>
  C11: once \<open>record_thread.join()\<close> has returned, nothing changes the recorded frames
  any more: a joined state has no successor, so every run from it stays in it.
\<close>

theorem capture_frames_stable_after_join:
  assumes "cap_reach src s" and "fpc s = FJoined" and "(cap_step src)\<^sup>*\<^sup>* s t"
  shows "t = s"
proof -
  from assms(1) have inv: "cap_inv src s" by (rule cap_reach_inv)
  from assms(3) show ?thesis
    by (cases rule: converse_rtranclpE) (use cap_joined_final [OF inv assms(2)] in auto)
qed

theorem capture_frames_stable_after_join_witness:
  "cap_reach id (cap_done id 2) \<and> fpc (cap_done id (2::nat)) = FJoined
   \<and> (cap_step id)\<^sup>*\<^sup>* (cap_done id 2) (cap_done id 2) \<and> cap_done id 2 = cap_done id 2"
  using capture_frames_stable_after_join [OF cap_reach_done, of id 2 "cap_done id 2"]
  by (simp add: cap_reach_done)

text \<open>
  After the foreground clears \<open>self.recording\<close>, the capture thread appends at most
  one more frame: the chunk whose \<open>stream.read\<close> it had already begun.
\<close>

lemma capture_at_most_one_frame_after_stop:
  assumes "\<not> flag s" and "(cap_step src)\<^sup>*\<^sup>* s t"
  shows "length (buf t) \<le> Suc (length (buf s))"
proof -
  from cap_steps_stopped [OF assms(2,1)]
  have "length (buf t) + in_flight (tpc t) \<le> length (buf s) + in_flight (tpc s)" by simp
  with in_flight_le_1 [of "tpc s"] show ?thesis by linarith
qed

text \<open>
  The stop is not immediate: there is a reachable state in which the flag is already
  cleared and the next step of the capture thread still appends a frame.
\<close>

lemma capture_appends_after_stop:
  "\<exists>s t. cap_reach src s \<and> \<not> flag s \<and> cap_step src s t \<and> length (buf t) = Suc (length (buf s))"
proof -
  let ?s1 = "cap_init\<lparr>tpc := TRead\<rparr> :: 'b cap_state"
  let ?s2 = "?s1\<lparr>flag := False, fpc := FStopped\<rparr>"
  let ?s3 = "?s2\<lparr>tpc := TAppend (src 0), reads := 1\<rparr>"
  have r1: "cap_reach src ?s1"
    by (rule cap_reach.step [OF cap_reach.start]) (rule check_on, simp_all add: cap_init_def)
  have r2: "cap_reach src ?s2"
    by (rule cap_reach.step [OF r1]) (rule enter, simp add: cap_init_def)
  have "cap_step src ?s2 ?s3"
    using read [of ?s2 src] by (simp add: cap_init_def)
  then have r3: "cap_reach src ?s3" by (rule cap_reach.step [OF r2])
  have "cap_step src ?s3 (?s3\<lparr>buf := buf ?s3 @ [src 0], tpc := TCheck\<rparr>)"
    by (rule append) simp
  with r3 show ?thesis by (intro exI) (auto simp: cap_init_def)
qed

text \<open>
  C12: after the foreground clears \<open>self.recording\<close>, the capture thread appends at
  most one more frame (the chunk whose \<open>stream.read\<close> it had already begun), and
  the bound is reached: some reachable state with the flag cleared still appends one.
\<close>

theorem capture_one_frame_after_stop:
  "(\<not> flag s \<and> (cap_step src)\<^sup>*\<^sup>* s t \<longrightarrow> length (buf t) \<le> Suc (length (buf s)))
   \<and> (\<exists>s' t'. cap_reach src s' \<and> \<not> flag s' \<and> cap_step src s' t' \<and> length (buf t') = Suc (length (buf s')))"
  using capture_at_most_one_frame_after_stop [of s src t] capture_appends_after_stop [of src] by blast

theorem capture_one_frame_after_stop_witness:
  "\<not> flag (cap_done id (3::nat)) \<and> (cap_step id)\<^sup>*\<^sup>* (cap_done id 3) (cap_done id 3)
   \<and> length (buf (cap_done id (3::nat))) \<le> Suc (length (buf (cap_done id (3::nat))))"
  using capture_one_frame_after_stop [where s = "cap_done id 3" and src = id and t = "cap_done id 3"]
  by simp

text \<open>
  C13: the capture loop ends after the stop signal: from a state with the flag cleared
  no run is longer than five steps (check, read, append, check, join).
\<close>

theorem capture_stops_within_five_steps:
  assumes "\<not> flag s" and "(cap_step src ^^ n) s t"
  shows "n \<le> 5"
  using cap_pow_stopped [OF assms(2,1)] cap_rank_le [of s] by linarith

theorem capture_stops_within_five_steps_witness:
  "\<not> flag (cap_done id (1::nat)) \<and> (cap_step id ^^ 0) (cap_done id 1) (cap_done id (1::nat))
   \<and> (0::nat) \<le> 5"
  using capture_stops_within_five_steps
          [where s = "cap_done id 1" and src = id and n = 0 and t = "cap_done id 1"]
  by simp

text \<open>
  C14: the foreground never waits forever, and not only because the stream can fail:
  from every reachable state of a recording some run in which every
  \<open>stream.read\<close> returns reaches the state after \<open>record_thread.join()\<close>. Enter
  clears the flag, the thread sees it at its next check and leaves the loop.
\<close>

theorem capture_join_reachable:
  assumes "cap_reach src s"
  shows "\<exists>t. (cap_step_ok src)\<^sup>*\<^sup>* s t \<and> fpc t = FJoined"
  using assms by (intro cap_steps_to_joined cap_reach_inv)

theorem capture_join_reachable_witness:
  "cap_reach (id :: nat \<Rightarrow> nat) cap_init
   \<and> (\<exists>t. (cap_step_ok (id :: nat \<Rightarrow> nat))\<^sup>*\<^sup>* cap_init t \<and> fpc t = FJoined)"
  using capture_join_reachable [OF cap_reach.start, of id] cap_reach.start by blast

text \<open>
  C10: refinement of the concurrent capture by the functional model: the buffers the
  interleaved threads can have at the join are exactly the prefixes of the microphone
  stream, \<open>captured src k\<close> for some chunk count \<open>k\<close>.
\<close>

theorem capture_refines_captured:
  "{buf s | s. cap_reach src s \<and> fpc s = FJoined} = range (captured src)"
proof
  show "{buf s | s. cap_reach src s \<and> fpc s = FJoined} \<subseteq> range (captured src)"
    by (auto dest!: cap_reach_inv simp: cap_inv_def)
next
  show "range (captured src) \<subseteq> {buf s | s. cap_reach src s \<and> fpc s = FJoined}"
  proof
    fix x assume "x \<in> range (captured src)"
    then obtain k where "x = captured src k" by blast
    moreover have "cap_reach src (cap_done src k)" by (rule cap_reach_done)
    ultimately show "x \<in> {buf s | s. cap_reach src s \<and> fpc s = FJoined}"
      by (metis (mono_tags, lifting) cap_done_sel(1,4) mem_Collect_eq)
  qed
qed

end
