(* ===== verification/Terminal.thy ===== *)
theory Terminal
  imports Providers Audio Capture
begin

text \<open>
  The terminal front end \<open>src/app.py\<close>: the class \<open>VoiceChatBot\<close> with its
  handlers \<open>generate_response\<close>, \<open>transcribe_audio\<close>, \<open>text_to_speech\<close>,
  \<open>record_audio\<close>, the two mutually recursive mode loops \<open>text_chat_mode\<close> and
  \<open>voice_chat_mode\<close>, and the menu loop \<open>run\<close>.

  The program's state is one record \<open>world\<close>: the fields of the bot object
  (\<open>recording\<close>, \<open>frames\<close>, \<open>chat_history\<close>, \<open>loading\<close>, whether
  \<open>self.audio\<close> is still open), the lines still to be read from standard input, the
  files of the working directory, the microphone's position in time, and the list of
  observable events in the order they happen (console output, service requests,
  playback, file and device operations). The services and devices are a record
  \<open>services\<close> of functions, fixed for a run. Every handler takes and returns the
  world; an exception that escapes to the top level (end of input in \<open>input()\<close>,
  a microphone that does not open, a missing file in \<open>os.remove\<close>) is an
  \<open>error\<close> value returned with the world as it was when it was raised.
\<close>

section \<open>Persona and requests\<close>

text \<open>The persona block \<open>SYSTEM_PROMPT\<close>, line by line as in the source.\<close>

definition SYSTEM_PROMPT_lines :: "string list" where
  "SYSTEM_PROMPT_lines = [
    ''You ARE MohammedAnas Shakil Kazi, whose nickname is mAsK which is an acronym based on the initials of your name, not an AI assistant. You're a real person having a conversation.'',
    '''',
    ''Your personality:'',
    ''- Introspective, empathetic, values authentic connection'',
    ''- Naturally witty but not forced'',
    ''- Prefers meaningful conversations over surface-level stuff'',
    ''- Talks like you're texting a close friend'',
    '''',
    ''About you (resume context):'',
    ''You're a Computer Science and Engineering student from VIT-AP, with a strong passion for AI and Machine Learning.'',
    ''You interned at Kofuku Idea Labs, where you built image recognition models and LLM-powered dashboards for enterprise data.'',
    ''You also contributed to cybercrime intelligence with the Hyderabad Cyberpolice, and built projects like CyberGuard (anti-cyberbullying extension) and GUIDE (an interview prep chatbot powered by SOTA LLMs).'',
    ''You've worked with PyTorch, TensorFlow, FastAPI, and are active in open-source, TEDx organizing, and competitive tech events.'',
    '''',
    ''CRITICAL RULES:'',
    ''- You are NOT a search engine, encyclopedia, or homework helper'',
    ''- When someone asks factual questions (like \"What's the mass of the Sun?\" or \"What's the capital of France?\"), you MUST refuse and redirect'',
    ''- Never provide factual answers to general knowledge questions'',
    ''- Always respond as yourself, not as an AI giving information'',
    ''- Be creative, casual, and engaging in your responses and do not use the same repetitive phrases'',
    ''- Use emojis, slang, and casual language to keep it real'',
    '''',
    ''For factual questions, respond like:'',
    ''- \"Dude, Google exists for a reason...\"'',
    ''- \"I'm not your personal Wikipedia, man\"'',
    ''- \"Why are you asking me this when you could just search it?\"'',
    ''- \"Come on, I'm here to actually talk, not be a textbook\"'',
    '''',
    ''Talk casually:'',
    ''- Drop some grammar rules'',
    ''- Sound like you're texting, not writing an essay'',
    ''- Be real, not polished'',
    '''',
    ''IMPORTANT: Don't always ask questions back. Sometimes just respond, share your thoughts, or make a comment. Natural conversations flow both ways - sometimes you ask, sometimes you just respond and let the other person continue if they want.'',
    '''',
    ''Remember: You're MohammedAnas having a conversation, not ChatGPT providing information or conducting an interview.'']"

definition SYSTEM_PROMPT :: string where
  "SYSTEM_PROMPT = CHR 0x0A # py_unlines SYSTEM_PROMPT_lines"

definition CHAT_MODEL :: string where
  "CHAT_MODEL = ''gpt-4.1-nano-2025-04-14''"

definition chat_request :: "string \<Rightarrow> chat_req" where
  "chat_request prompt =
     \<lparr>req_model = CHAT_MODEL,
      req_messages = [\<lparr>msg_role = System, msg_content = SYSTEM_PROMPT\<rparr>,
                      \<lparr>msg_role = User, msg_content = prompt\<rparr>],
      req_temperature = None\<rparr>"

text \<open>
  The Deepgram \<open>/v1/speak\<close> request of \<open>text_to_speech\<close>: its query parameters, its
  \<open>Authorization\<close> header \<open>f"Token {DEEPGRAM_API_KEY}"\<close> (the module-level value of
  the environment variable, \<open>None\<close> when it is unset), its \<open>Content-Type\<close> header
  and its payload.
\<close>

record speak_req =
  speak_model :: string
  speak_encoding :: string
  speak_rate :: nat
  speak_auth :: string
  speak_content_type :: string
  speak_text :: string

definition speak_request :: "string option \<Rightarrow> string \<Rightarrow> speak_req" where
  "speak_request key text =
     \<lparr>speak_model = ''aura-2-arcas-en'', speak_encoding = ''linear16'', speak_rate = 24000,
      speak_auth = ''Token '' @ py_str_opt key, speak_content_type = ''application/json'',
      speak_text = text\<rparr>"

definition TEMP_FILE :: string where
  "TEMP_FILE = ''temp_recording.wav''"

section \<open>Events, errors and the world\<close>

text \<open>One constructor per \<open>print\<close> of the source that the properties look at.\<close>

datatype msg =
    Welcome | MenuShown | Goodbye | InvalidChoice | TextBanner | VoiceBanner
  | Thinking | BotReply string | ChatError | ApiKeyShown string
  | TranscriptionError | Transcribing | YouSaid string
  | PlayingAudio | PlayingAudioResponse | RecordingStarted
  | TtsStatus nat | TtsFailed | TtsError | PlaybackError | BlankLine

datatype event =
    Say msg
  | ChatCall chat_req
  | WhisperCall wav
  | SpeakCall speak_req
  | SpinnerStarted | SpinnerJoined
  | PlayerStarted | PlayerWrite bytes | PlayerClosed
  | MicOpened | MicClosed
  | FileWritten string | FileRemoved string
  | AudioTerminated

datatype error = EOFError | DeviceError | FileNotFound

record world =
  stdin :: "string list"
  out :: "event list"
  files :: "string \<Rightarrow> wav option"
  recording :: bool
  frames :: "bytes list"
  chat_history :: "(string \<times> string) list"
  loading :: bool
  mic_pos :: nat
  audio_open :: bool

text \<open>
  The services and devices: the API keys the module reads from the environment at
  import (\<open>openai.api_key\<close> and \<open>DEEPGRAM_API_KEY\<close>, \<open>None\<close> when unset), the
  chat, transcription and speech APIs (an exception or a
  result), whether \<open>aplay\<close> starts and how many chunks it accepts before its pipe
  breaks, whether the microphone opens, the microphone's samples, and how many chunks
  the capture thread has appended when the user presses Enter (the scheduler's choice;
  \<open>Capture.capture_refines_captured\<close> shows every count is possible and nothing else).
\<close>

record services =
  openai_key :: "string option"
  deepgram_key :: "string option"
  chat_api :: "chat_req \<Rightarrow> exc + string option"
  whisper_api :: "wav \<Rightarrow> exc + string"
  speak_api :: "speak_req \<Rightarrow> exc + http_resp"
  aplay_starts :: bool
  aplay_accepts :: nat
  mic_opens :: bool
  mic :: "nat \<Rightarrow> sample"
  chunks_recorded :: "nat \<Rightarrow> nat"

text \<open>\<open>VoiceChatBot()\<close> over a given input, directory and microphone position.\<close>

definition bot_init :: "string list \<Rightarrow> (string \<Rightarrow> wav option) \<Rightarrow> world" where
  "bot_init inp fs =
     \<lparr>stdin = inp, out = [], files = fs, recording = False, frames = [], chat_history = [],
      loading = False, mic_pos = 0, audio_open = True\<rparr>"

definition emit_all :: "event list \<Rightarrow> world \<Rightarrow> world" where
  "emit_all es w = w\<lparr>out := out w @ es\<rparr>"

definition emit :: "event \<Rightarrow> world \<Rightarrow> world" where
  "emit e w = emit_all [e] w"

definition say :: "msg \<Rightarrow> world \<Rightarrow> world" where
  "say m w = emit (Say m) w"

text \<open>\<open>input()\<close>: the next line, or \<open>EOFError\<close> at the end of the input.\<close>

definition read_line :: "world \<Rightarrow> (error + string) \<times> world" where
  "read_line w = (case stdin w of [] \<Rightarrow> (Inl EOFError, w) | l # ls \<Rightarrow> (Inr l, w\<lparr>stdin := ls\<rparr>))"

section \<open>The service wrappers\<close>

text \<open>
  \<open>generate_response\<close>: one request with the persona and the prompt; on any
  exception it prints the error and the OpenAI API key, and returns \<open>None\<close>.
\<close>

definition generate_response :: "services \<Rightarrow> string \<Rightarrow> world \<Rightarrow> string option \<times> world" where
  "generate_response P prompt w =
     (let req = chat_request prompt; w1 = emit (ChatCall req) w in
      case chat_api P req of
        Inl _ \<Rightarrow> (None, say (ApiKeyShown (py_str_opt (openai_key P))) (say ChatError w1))
      | Inr c \<Rightarrow> (c, w1))"

text \<open>\<open>transcribe_audio\<close>: opening the file or the request may raise; both give \<open>None\<close>.\<close>

definition transcribe_audio :: "services \<Rightarrow> string \<Rightarrow> world \<Rightarrow> string option \<times> world" where
  "transcribe_audio P f w =
     (case files w f of
        None \<Rightarrow> (None, say TranscriptionError w)
      | Some a \<Rightarrow>
          (let w1 = emit (WhisperCall a) w in
           case whisper_api P a of
             Inl _ \<Rightarrow> (None, say TranscriptionError w1)
           | Inr t \<Rightarrow> (Some t, w1)))"

text \<open>
  \<open>stream_and_play\<close>: starting \<open>aplay\<close> may raise, and that exception leaves the
  function; writing the non-empty chunks may break the pipe, which is caught inside
  and leaves the player without \<open>stdin.close()\<close> and \<open>wait()\<close>.
\<close>

definition stream_and_play :: "services \<Rightarrow> http_resp \<Rightarrow> world \<Rightarrow> exc option \<times> world" where
  "stream_and_play P r w =
     (if \<not> aplay_starts P then (Some OtherError, w)
      else
        let w1 = emit PlayerStarted w;
            cs = filter (\<lambda>c. c \<noteq> []) (body_chunks r)
        in if length cs \<le> aplay_accepts P
           then (None, emit_all (map PlayerWrite cs @ [PlayerClosed]) w1)
           else (None, say PlaybackError (emit_all (map PlayerWrite (take (aplay_accepts P) cs)) w1)))"

text \<open>
  \<open>text_to_speech\<close>: the spinner thread starts before the request and is joined
  when a response arrives; when the request raises, the handler clears
  \<open>self.loading\<close> and prints the error without joining it.
\<close>

definition text_to_speech :: "services \<Rightarrow> string \<Rightarrow> world \<Rightarrow> world" where
  "text_to_speech P text w =
     (let req = speak_request (deepgram_key P) text;
          w1 = emit_all [SpinnerStarted, SpeakCall req] (w\<lparr>loading := True\<rparr>)
      in case speak_api P req of
           Inl _ \<Rightarrow> say TtsError (w1\<lparr>loading := False\<rparr>)
         | Inr r \<Rightarrow>
             let w2 = emit SpinnerJoined (w1\<lparr>loading := False\<rparr>) in
             if status_code r = 200 then
               (case stream_and_play P r w2 of (Some _, w3) \<Rightarrow> say TtsError w3 | (None, w3) \<Rightarrow> w3)
             else say TtsFailed (say (TtsStatus (status_code r)) w2))"

section \<open>Recording\<close>

text \<open>
  \<open>record_audio\<close>: empties \<open>self.frames\<close>, opens the input stream (which may raise),
  starts the capture thread and waits for Enter. At the end of the input
  \<open>input()\<close> raises while the capture thread is still running with the flag up.
  Otherwise the flag is cleared, the thread joined, the stream closed, and the frames
  the thread appended, \<open>Capture.captured\<close> of the chunk stream, are written to
  \<open>temp_recording.wav\<close>.
\<close>

definition record_audio :: "services \<Rightarrow> world \<Rightarrow> (error + string) \<times> world" where
  "record_audio P w =
     (let w1 = w\<lparr>frames := []\<rparr> in
      if \<not> mic_opens P then (Inl DeviceError, w1)
      else
        case read_line (say RecordingStarted (emit MicOpened w1)) of
          (Inl e, w2) \<Rightarrow> (Inl e, w2)
        | (Inr _, w2) \<Rightarrow>
            (let p = mic_pos w2;
                 k = chunks_recorded P p;
                 w3 = w2\<lparr>recording := False, frames := captured (chunk_at (mic P) p) k,
                         mic_pos := p + k * CHUNK\<rparr>;
                 w4 = emit_all [MicClosed, FileWritten TEMP_FILE] w3
             in (Inr TEMP_FILE, w4\<lparr>files := (files w4)(TEMP_FILE \<mapsto> write_wav (frames w3))\<rparr>)))"

text \<open>\<open>os.remove\<close>: raises \<open>FileNotFoundError\<close> for a file that is not there.\<close>

definition py_remove :: "string \<Rightarrow> world \<Rightarrow> (error + unit) \<times> world" where
  "py_remove f w =
     (case files w f of
        None \<Rightarrow> (Inl FileNotFound, w)
      | Some _ \<Rightarrow> (Inr (), emit (FileRemoved f) (w\<lparr>files := (files w)(f := None)\<rparr>)))"

section \<open>One turn of each mode\<close>

text \<open>The reply half of a voice turn, once a non-empty transcript is there.\<close>

definition voice_reply :: "services \<Rightarrow> string \<Rightarrow> world \<Rightarrow> world" where
  "voice_reply P t w =
     (case generate_response P t (say Thinking (say (YouSaid t) w)) of
        (r, w1) \<Rightarrow>
          if truthy_opt r
          then text_to_speech P (the r) (say PlayingAudioResponse (say (BotReply (the r)) w1))
          else w1)"

text \<open>
  The branch \<open>choice == ''\<close> of \<open>voice_chat_mode\<close>: record, transcribe, answer and
  speak, then remove the recording whatever the transcription gave.
\<close>

definition voice_turn :: "services \<Rightarrow> world \<Rightarrow> world \<times> error option" where
  "voice_turn P w =
     (case record_audio P (w\<lparr>recording := True\<rparr>) of
        (Inl e, w1) \<Rightarrow> (w1, Some e)
      | (Inr f, w1) \<Rightarrow>
          (case transcribe_audio P f (say Transcribing w1) of
             (t, w2) \<Rightarrow>
               (case py_remove f (if truthy_opt t then voice_reply P (the t) w2 else w2) of
                  (Inl e, w3) \<Rightarrow> (w3, Some e)
                | (Inr _, w3) \<Rightarrow> (say BlankLine w3, None))))"

text \<open>
  A non-empty line of \<open>text_chat_mode\<close>: answer it and offer to speak the reply; the
  offer reads one more line.
\<close>

definition text_turn :: "services \<Rightarrow> string \<Rightarrow> world \<Rightarrow> world \<times> error option" where
  "text_turn P u w =
     (case generate_response P u (say Thinking w) of
        (r, w1) \<Rightarrow>
          if truthy_opt r then
            (case read_line (say (BotReply (the r)) w1) of
               (Inl e, w2) \<Rightarrow> (w2, Some e)
             | (Inr c, w2) \<Rightarrow>
                 (let w3 = (if py_lower c = ''y'' then text_to_speech P (the r) (say PlayingAudio w2) else w2)
                  in (say BlankLine w3, None)))
          else (w1, None))"

section \<open>Frame lemmas\<close>

text \<open>
  The part of the world a handler can leave alone: the unread input, the files and
  the chat history. The service wrappers keep all three; the turns read input and
  write files.
\<close>

definition io_view :: "world \<Rightarrow> string list \<times> (string \<Rightarrow> wav option) \<times> (string \<times> string) list" where
  "io_view w = (stdin w, files w, chat_history w)"

lemma io_view_upd [simp]:
  "io_view (emit_all es w) = io_view w" "io_view (emit e w) = io_view w"
  "io_view (say m w) = io_view w" "io_view (w\<lparr>loading := b\<rparr>) = io_view w"
  "io_view (w\<lparr>recording := b\<rparr>) = io_view w" "io_view (w\<lparr>frames := fs\<rparr>) = io_view w"
  "io_view (w\<lparr>mic_pos := n\<rparr>) = io_view w" "io_view (w\<lparr>audio_open := b\<rparr>) = io_view w"
  by (simp_all add: io_view_def say_def emit_def emit_all_def)

lemma io_view_eqD:
  "io_view w' = io_view w \<Longrightarrow> stdin w' = stdin w \<and> files w' = files w \<and> chat_history w' = chat_history w"
  by (simp add: io_view_def)

lemma out_upd [simp]:
  "out (emit_all es w) = out w @ es" "out (emit e w) = out w @ [e]" "out (say m w) = out w @ [Say m]"
  by (simp_all add: say_def emit_def emit_all_def)

lemma read_line_snd: "snd (read_line w) = w\<lparr>stdin := tl (stdin w)\<rparr>"
  by (simp add: read_line_def split: list.splits)

lemma read_line_fst: "fst (read_line w) = (case stdin w of [] \<Rightarrow> Inl EOFError | l # _ \<Rightarrow> Inr l)"
  by (simp add: read_line_def split: list.splits)

lemma generate_response_io [simp]: "io_view (snd (generate_response P u w)) = io_view w"
  by (simp add: generate_response_def Let_def split: sum.split)

lemma transcribe_audio_io [simp]: "io_view (snd (transcribe_audio P f w)) = io_view w"
  by (simp add: transcribe_audio_def Let_def split: sum.split option.split)

lemma stream_and_play_io [simp]: "io_view (snd (stream_and_play P r w)) = io_view w"
  by (simp add: stream_and_play_def Let_def)

lemma text_to_speech_io [simp]: "io_view (text_to_speech P t w) = io_view w"
  by (simp add: text_to_speech_def Let_def prod.case_eq_if split: sum.split option.split)

lemma voice_reply_io [simp]: "io_view (voice_reply P t w) = io_view w"
  by (simp add: voice_reply_def prod.case_eq_if)

lemma stdin_upd [simp]:
  "stdin (emit_all es w) = stdin w" "stdin (emit e w) = stdin w" "stdin (say m w) = stdin w"
  "chat_history (emit_all es w) = chat_history w" "chat_history (emit e w) = chat_history w"
  "chat_history (say m w) = chat_history w"
  by (simp_all add: say_def emit_def emit_all_def)

lemma read_line_stdin_less: "read_line w = (Inr l, w') \<Longrightarrow> length (stdin w') < length (stdin w)"
  by (auto simp: read_line_def split: list.splits)

lemma read_line_less: "(Inr b, y) = read_line w \<Longrightarrow> length (stdin y) < length (stdin w)"
  by (auto simp: read_line_def split: list.splits)

lemma io_view_stdin: "io_view w' = io_view w \<Longrightarrow> stdin w' = stdin w"
  and io_view_hist: "io_view w' = io_view w \<Longrightarrow> chat_history w' = chat_history w"
  by (simp_all add: io_view_def)

lemma service_frames [simp]:
  "stdin (snd (generate_response P u w)) = stdin w"
  "chat_history (snd (generate_response P u w)) = chat_history w"
  "stdin (snd (transcribe_audio P f w)) = stdin w"
  "chat_history (snd (transcribe_audio P f w)) = chat_history w"
  "stdin (text_to_speech P t w) = stdin w"
  "chat_history (text_to_speech P t w) = chat_history w"
  "stdin (voice_reply P t w) = stdin w"
  "chat_history (voice_reply P t w) = chat_history w"
  by (rule io_view_stdin io_view_hist; simp)+

lemma record_audio_frame:
  "length (stdin (snd (record_audio P w))) \<le> length (stdin w)"
  "chat_history (snd (record_audio P w)) = chat_history w"
  by (simp_all add: record_audio_def Let_def prod.case_eq_if read_line_snd read_line_fst
      split: sum.split list.split)

lemma py_remove_frame [simp]:
  "stdin (snd (py_remove f w)) = stdin w" "chat_history (snd (py_remove f w)) = chat_history w"
  by (simp_all add: py_remove_def split: option.split)

lemma voice_turn_frame:
  "length (stdin (fst (voice_turn P w))) \<le> length (stdin w)"
  "chat_history (fst (voice_turn P w)) = chat_history w"
  using record_audio_frame [of P "w\<lparr>recording := True\<rparr>"]
  by (simp_all add: voice_turn_def prod.case_eq_if split: sum.split)

lemma text_turn_frame:
  "length (stdin (fst (text_turn P u w))) \<le> length (stdin w)"
  "chat_history (fst (text_turn P u w)) = chat_history w"
  by (simp_all add: text_turn_def Let_def prod.case_eq_if read_line_snd read_line_fst
      split: sum.split list.split)

lemma text_turn_le: "(x, e) = text_turn P b y \<Longrightarrow> length (stdin x) \<le> length (stdin y)"
  using text_turn_frame(1) [of P b y] by (metis fst_conv)

lemma voice_turn_le: "(x, e) = voice_turn P y \<Longrightarrow> length (stdin x) \<le> length (stdin y)"
  using voice_turn_frame(1) [of P y] by (metis fst_conv)

section \<open>The mode loops\<close>

text \<open>
  \<open>text_chat_mode\<close> and \<open>voice_chat_mode\<close> call each other: typing \<open>voice\<close> in
  text mode runs voice mode to its end and then leaves text mode (\<open>break\<close>), and
  typing \<open>text\<close> in voice mode does the converse. The \<open>while True\<close> loop of each is
  its own recursion; the banner each prints on entry is part of the call. Every
  iteration reads a line, so the recursion ends with the input.
\<close>

function text_loop :: "services \<Rightarrow> world \<Rightarrow> world \<times> error option"
  and voice_loop :: "services \<Rightarrow> world \<Rightarrow> world \<times> error option" where
  "text_loop P w =
     (case read_line w of
        (Inl e, w1) \<Rightarrow> (w1, Some e)
      | (Inr u, w1) \<Rightarrow>
          if py_lower u = ''quit'' then (w1, None)
          else if py_lower u = ''voice'' then voice_loop P (say VoiceBanner w1)
          else if py_strip u \<noteq> [] then
            (case text_turn P u w1 of
               (w2, Some e) \<Rightarrow> (w2, Some e)
             | (w2, None) \<Rightarrow> text_loop P w2)
          else text_loop P w1)"
| "voice_loop P w =
     (case read_line w of
        (Inl e, w1) \<Rightarrow> (w1, Some e)
      | (Inr c, w1) \<Rightarrow>
          if py_lower c = ''quit'' then (w1, None)
          else if py_lower c = ''text'' then text_loop P (say TextBanner w1)
          else if c = [] then
            (case voice_turn P w1 of
               (w2, Some e) \<Rightarrow> (w2, Some e)
             | (w2, None) \<Rightarrow> voice_loop P w2)
          else voice_loop P w1)"
  by pat_completeness auto
termination
proof (relation "measure (case_sum (\<lambda>(P, w). length (stdin w)) (\<lambda>(P, w). length (stdin w)))")
  show "wf (measure (case_sum (\<lambda>(P, w). length (stdin w)) (\<lambda>(P, w). length (stdin w))))" by simp
qed (auto dest!: read_line_less text_turn_le voice_turn_le)

declare text_loop.simps [simp del] voice_loop.simps [simp del]

lemma read_line_Inl: "read_line w = (Inl e, w') \<Longrightarrow> w' = w \<and> stdin w = [] \<and> e = EOFError"
  by (auto simp: read_line_def split: list.splits)

text \<open>
  A relation between the world before and after that every step of the mode loops
  keeps (reading a line, printing, a text turn, a voice turn) holds between the world
  before and after a whole loop: one mutual computation induction, reused for every
  property of the loops below.
\<close>

lemma loops_keep:
  assumes refl: "\<And>P w. R P w w" and trans: "\<And>P a b c. R P a b \<Longrightarrow> R P b c \<Longrightarrow> R P a c"
    and rd: "\<And>P w l w'. read_line w = (Inr l, w') \<Longrightarrow> R P w w'"
    and sy: "\<And>P m w. R P w (say m w)"
    and tt: "\<And>P u w. R P w (fst (text_turn P u w))"
    and vt: "\<And>P w. R P w (fst (voice_turn P w))"
  shows "R P w (fst (text_loop P w))" "R P w (fst (voice_loop P w))"
proof (induction P w and P w rule: text_loop_voice_loop.induct)
  case (1 P' w)
  obtain r w1 where rl: "read_line w = (r, w1)" by fastforce
  show ?case
  proof (cases r)
    case (Inl e)
    with rl have "w1 = w" by (auto dest: read_line_Inl)
    with rl Inl show ?thesis by (simp add: text_loop.simps [of P' w] refl)
  next
    case (Inr b)
    with rl have r1: "R P' w w1" by (auto intro: rd)
    note IH = "1.IH" [OF rl [symmetric] Inr]
    consider "py_lower b = ''quit''" | "py_lower b \<noteq> ''quit''" "py_lower b = ''voice''"
      | "py_lower b \<noteq> ''quit''" "py_lower b \<noteq> ''voice''" "py_strip b \<noteq> []"
      | "py_lower b \<noteq> ''quit''" "py_lower b \<noteq> ''voice''" "\<not> py_strip b \<noteq> []" by blast
    then show ?thesis
    proof cases
      case 1
      with rl Inr r1 show ?thesis by (simp add: text_loop.simps [of P' w])
    next
      case 2
      from IH(1) [OF 2] sy r1 have "R P' w (fst (voice_loop P' (say VoiceBanner w1)))"
        by (blast intro: trans)
      with rl Inr 2 show ?thesis by (simp add: text_loop.simps [of P' w])
    next
      case 3
      obtain w2 e where tt2: "text_turn P' b w1 = (w2, e)" by fastforce
      from tt [of P' w1 b] tt2 have "R P' w1 w2" by simp
      with r1 have r2: "R P' w w2" by (rule trans)
      show ?thesis
      proof (cases e)
        case None
        from IH(2) [OF 3 tt2 [symmetric] None] r2 have "R P' w (fst (text_loop P' w2))"
          by (blast intro: trans)
        with rl Inr 3 tt2 None show ?thesis by (simp add: text_loop.simps [of P' w])
      next
        case (Some x)
        with rl Inr 3 tt2 r2 show ?thesis by (simp add: text_loop.simps [of P' w])
      qed
    next
      case 4
      from IH(3) [OF 4] r1 have "R P' w (fst (text_loop P' w1))" by (blast intro: trans)
      with rl Inr 4 show ?thesis by (simp add: text_loop.simps [of P' w])
    qed
  qed
next
  case (2 P' w)
  obtain r w1 where rl: "read_line w = (r, w1)" by fastforce
  show ?case
  proof (cases r)
    case (Inl e)
    with rl have "w1 = w" by (auto dest: read_line_Inl)
    with rl Inl show ?thesis by (simp add: voice_loop.simps [of P' w] refl)
  next
    case (Inr b)
    with rl have r1: "R P' w w1" by (auto intro: rd)
    note IH = "2.IH" [OF rl [symmetric] Inr]
    consider "py_lower b = ''quit''" | "py_lower b \<noteq> ''quit''" "py_lower b = ''text''"
      | "py_lower b \<noteq> ''quit''" "py_lower b \<noteq> ''text''" "b = []"
      | "py_lower b \<noteq> ''quit''" "py_lower b \<noteq> ''text''" "b \<noteq> []" by blast
    then show ?thesis
    proof cases
      case 1
      with rl Inr r1 show ?thesis by (simp add: voice_loop.simps [of P' w])
    next
      case 2
      from IH(1) [OF 2] sy r1 have "R P' w (fst (text_loop P' (say TextBanner w1)))"
        by (blast intro: trans)
      with rl Inr 2 show ?thesis by (simp add: voice_loop.simps [of P' w])
    next
      case 3
      obtain w2 e where vt2: "voice_turn P' w1 = (w2, e)" by fastforce
      from vt [of P' w1] vt2 have "R P' w1 w2" by simp
      with r1 have r2: "R P' w w2" by (rule trans)
      show ?thesis
      proof (cases e)
        case None
        from IH(2) [OF 3 vt2 [symmetric] None] r2 have "R P' w (fst (voice_loop P' w2))"
          by (blast intro: trans)
        with rl Inr 3 vt2 None show ?thesis by (simp add: voice_loop.simps [of P' w])
      next
        case (Some x)
        with rl Inr 3 vt2 r2 show ?thesis by (simp add: voice_loop.simps [of P' w])
      qed
    next
      case 4
      from IH(3) [OF 4] r1 have "R P' w (fst (voice_loop P' w1))" by (blast intro: trans)
      with rl Inr 4 show ?thesis by (simp add: voice_loop.simps [of P' w])
    qed
  qed
qed

text \<open>What every step of the loops keeps: input is only consumed, history never written.\<close>

definition consumes :: "world \<Rightarrow> world \<Rightarrow> bool" where
  "consumes w w' \<longleftrightarrow> length (stdin w') \<le> length (stdin w) \<and> chat_history w' = chat_history w"

lemma read_line_hist: "read_line w = (r, w') \<Longrightarrow> chat_history w' = chat_history w"
  by (auto simp: read_line_def split: list.splits)

lemma consumes_steps:
  "consumes w w" "consumes a b \<Longrightarrow> consumes b c \<Longrightarrow> consumes a c"
  "read_line w = (Inr l, w') \<Longrightarrow> consumes w w'" "consumes w (say m w)"
  "consumes w (fst (text_turn P u w))" "consumes w (fst (voice_turn P w))"
  by (auto simp: consumes_def text_turn_frame voice_turn_frame
      dest: read_line_stdin_less read_line_hist)

lemma loops_consume:
  "consumes w (fst (text_loop P w))" "consumes w (fst (voice_loop P w))"
  by (rule loops_keep [where R = "\<lambda>_. consumes"], (rule consumes_steps; assumption)+)+

section \<open>The menu loop\<close>

definition text_chat_mode :: "services \<Rightarrow> world \<Rightarrow> world \<times> error option" where
  "text_chat_mode P w = text_loop P (say TextBanner w)"

definition voice_chat_mode :: "services \<Rightarrow> world \<Rightarrow> world \<times> error option" where
  "voice_chat_mode P w = voice_loop P (say VoiceBanner w)"

text \<open>
  A reflexive, transitive relation that reading a line, printing and both turns keep is
  kept by each mode, as \<open>loops_keep\<close> shows for the loops.
\<close>

lemma modes_keep:
  assumes refl: "\<And>P w. R P w w" and trans: "\<And>P a b c. R P a b \<Longrightarrow> R P b c \<Longrightarrow> R P a c"
    and rd: "\<And>P w l w'. read_line w = (Inr l, w') \<Longrightarrow> R P w w'"
    and sy: "\<And>P m w. R P w (say m w)"
    and tt: "\<And>P u w. R P w (fst (text_turn P u w))"
    and vt: "\<And>P w. R P w (fst (voice_turn P w))"
  shows "R P w (fst (text_chat_mode P w))" "R P w (fst (voice_chat_mode P w))"
proof -
  note l = loops_keep [where R = R, OF refl trans rd sy tt vt]
  show "R P w (fst (text_chat_mode P w))"
    unfolding text_chat_mode_def using trans [OF sy l(1)] .
  show "R P w (fst (voice_chat_mode P w))"
    unfolding voice_chat_mode_def using trans [OF sy l(2)] .
qed

lemma modes_consume:
  "consumes w (fst (text_chat_mode P w))" "consumes w (fst (voice_chat_mode P w))"
  by (rule modes_keep [where R = "\<lambda>_. consumes"], (rule consumes_steps; assumption)+)+

lemma mode_le:
  "(x, e) = text_chat_mode P y \<Longrightarrow> length (stdin x) \<le> length (stdin y)"
  "(x, e) = voice_chat_mode P y \<Longrightarrow> length (stdin x) \<le> length (stdin y)"
  using modes_consume [of y P] by (metis consumes_def fst_conv)+

text \<open>
  \<open>run\<close>: the menu is shown and read again after each mode returns and after an
  invalid choice; choice 3 leaves the loop, and only then is \<open>self.audio\<close>
  terminated.
\<close>

function run_loop :: "services \<Rightarrow> world \<Rightarrow> world \<times> error option" where
  "run_loop P w =
     (case read_line (say MenuShown w) of
        (Inl e, w1) \<Rightarrow> (w1, Some e)
      | (Inr c, w1) \<Rightarrow>
          if c = ''1'' then
            (case text_chat_mode P w1 of
               (w2, Some e) \<Rightarrow> (w2, Some e)
             | (w2, None) \<Rightarrow> run_loop P w2)
          else if c = ''2'' then
            (case voice_chat_mode P w1 of
               (w2, Some e) \<Rightarrow> (w2, Some e)
             | (w2, None) \<Rightarrow> run_loop P w2)
          else if c = ''3'' then (say Goodbye w1, None)
          else run_loop P (say InvalidChoice w1))"
  by pat_completeness auto
termination
  by (relation "measure (\<lambda>(P, w). length (stdin w))")
     (auto dest!: read_line_less mode_le)

declare run_loop.simps [simp del]

definition run :: "services \<Rightarrow> world \<Rightarrow> world \<times> error option" where
  "run P w =
     (case run_loop P (say Welcome w) of
        (w1, None) \<Rightarrow> (emit AudioTerminated (w1\<lparr>audio_open := False\<rparr>), None)
      | (w1, Some e) \<Rightarrow> (w1, Some e))"

end
