(* ===== verification/TerminalProps.thy ===== *)
theory TerminalProps
  imports Terminal
begin

text \<open>
  Properties of the terminal front end \<open>src/app.py\<close> modelled in \<open>Terminal\<close>: the
  service calls a turn makes against the abstract pipeline of \<open>Providers\<close>, the
  requests and the history of a whole session, the cleanup of the recording, the
  error paths, and the mode commands. Every property holds for all services.
\<close>

section \<open>Projections of the event log\<close>

text \<open>The service calls of a run, as calls of the abstract pipeline.\<close>

fun calls_of :: "event list \<Rightarrow> wav call list" where
  "calls_of [] = []"
| "calls_of (WhisperCall a # es) = CallTranscribe a # calls_of es"
| "calls_of (ChatCall q # es) = CallGenerate (msg_content (last (req_messages q))) # calls_of es"
| "calls_of (SpeakCall r # es) = CallSynthesize (speak_text r) # calls_of es"
| "calls_of (_ # es) = calls_of es"

text \<open>The chat-completion requests of a run.\<close>

fun chat_reqs :: "event list \<Rightarrow> chat_req list" where
  "chat_reqs [] = []"
| "chat_reqs (ChatCall q # es) = q # chat_reqs es"
| "chat_reqs (_ # es) = chat_reqs es"

lemma calls_of_append [simp]: "calls_of (xs @ ys) = calls_of xs @ calls_of ys"
  by (induction xs rule: calls_of.induct) simp_all

lemma chat_reqs_append [simp]: "chat_reqs (xs @ ys) = chat_reqs xs @ chat_reqs ys"
  by (induction xs rule: chat_reqs.induct) simp_all

lemma projections_PlayerWrite [simp]:
  "calls_of (map PlayerWrite cs) = []" "chat_reqs (map PlayerWrite cs) = []"
  by (induction cs) simp_all

lemma chat_request_user [simp]: "msg_content (last (req_messages (chat_request u))) = u"
  by (simp add: chat_request_def)

lemma generate_response_out:
  "calls_of (out (snd (generate_response P u w))) = calls_of (out w) @ [CallGenerate u]"
  "chat_reqs (out (snd (generate_response P u w))) = chat_reqs (out w) @ [chat_request u]"
  by (simp_all add: generate_response_def Let_def split: sum.split)

lemma stream_and_play_out:
  "calls_of (out (snd (stream_and_play P r w))) = calls_of (out w)"
  "chat_reqs (out (snd (stream_and_play P r w))) = chat_reqs (out w)"
  by (simp_all add: stream_and_play_def Let_def)

lemma text_to_speech_out:
  "calls_of (out (text_to_speech P t w)) = calls_of (out w) @ [CallSynthesize t]"
  "chat_reqs (out (text_to_speech P t w)) = chat_reqs (out w)"
  by (simp_all add: text_to_speech_def Let_def prod.case_eq_if speak_request_def stream_and_play_out
      split: sum.split option.split)

lemma transcribe_audio_out:
  "files w f = Some a \<Longrightarrow> calls_of (out (snd (transcribe_audio P f w))) = calls_of (out w) @ [CallTranscribe a]"
  "chat_reqs (out (snd (transcribe_audio P f w))) = chat_reqs (out w)"
  by (simp_all add: transcribe_audio_def Let_def split: sum.split option.split)

lemma files_upd [simp]:
  "files (emit_all es w) = files w" "files (emit e w) = files w" "files (say m w) = files w"
  by (simp_all add: say_def emit_def emit_all_def)

text \<open>The container a recording writes, given the services and the world before it.\<close>

definition recording_of :: "services \<Rightarrow> world \<Rightarrow> wav" where
  "recording_of P w =
     write_wav (captured (chunk_at (mic P) (mic_pos w)) (chunks_recorded P (mic_pos w)))"

lemma record_audio_ok:
  assumes "mic_opens P" and "stdin w = l # ls"
  shows "\<exists>w1. record_audio P w = (Inr TEMP_FILE, w1)
     \<and> files w1 = (files w)(TEMP_FILE \<mapsto> recording_of P w)
     \<and> stdin w1 = ls \<and> chat_history w1 = chat_history w \<and> \<not> recording w1
     \<and> out w1 = out w @ [MicOpened, Say RecordingStarted, MicClosed, FileWritten TEMP_FILE]"
  using assms
  by (simp add: record_audio_def Let_def read_line_def recording_of_def say_def emit_def emit_all_def)

text \<open>The services as the partial functions of the abstract pipeline.\<close>

definition stt_of :: "services \<Rightarrow> wav \<Rightarrow> string option" where
  "stt_of P a = (case whisper_api P a of Inl _ \<Rightarrow> None | Inr t \<Rightarrow> Some t)"

definition gen_of :: "services \<Rightarrow> string \<Rightarrow> string option" where
  "gen_of P u =
     (case chat_api P (chat_request u) of Inr (Some r) \<Rightarrow> if r \<noteq> [] then Some r else None | _ \<Rightarrow> None)"

lemma generate_response_fst: "truthy_opt (fst (generate_response P u w)) \<longleftrightarrow> gen_of P u \<noteq> None"
  and generate_response_the: "gen_of P u = Some r \<Longrightarrow> the (fst (generate_response P u w)) = r"
  by (auto simp: generate_response_def gen_of_def truthy_opt_def Let_def split: sum.splits option.splits if_splits)

lemma voice_reply_out:
  "calls_of (out (voice_reply P t w)) = calls_of (out w) @ snd (spoken_turn (stt_of P) (gen_of P) (TextUtt t))"
  by (cases "gen_of P t")
     (auto simp: voice_reply_def prod.case_eq_if spoken_turn_def generate_response_out text_to_speech_out
        generate_response_fst generate_response_the)

text \<open>
  C1: a voice turn refines the abstract spoken turn of the pipeline: the service
  calls it makes, in order, are those of \<open>spoken_turn\<close> on the recording, whatever
  the services answer. In particular a failed or empty transcription is followed by no
  generation request, and a failed or empty reply by no speech request.
\<close>

theorem voice_turn_refines_pipeline:
  assumes "mic_opens P" and "stdin w \<noteq> []"
  shows "calls_of (out (fst (voice_turn P w)))
       = calls_of (out w) @ snd (spoken_turn (stt_of P) (gen_of P) (AudioUtt (recording_of P w)))"
proof -
  obtain l ls where inp: "stdin w = l # ls" using assms(2) by (cases "stdin w") auto
  then have "stdin (w\<lparr>recording := True\<rparr>) = l # ls" by simp
  from record_audio_ok [OF assms(1) this] obtain w1 where
    ra: "record_audio P (w\<lparr>recording := True\<rparr>) = (Inr TEMP_FILE, w1)"
    and f1: "files w1 = (files w)(TEMP_FILE \<mapsto> recording_of P (w\<lparr>recording := True\<rparr>))"
    and o1: "out w1 = out w @ [MicOpened, Say RecordingStarted, MicClosed, FileWritten TEMP_FILE]"
    by auto
  have rec: "recording_of P (w\<lparr>recording := True\<rparr>) = recording_of P w"
    by (simp add: recording_of_def)
  let ?a = "recording_of P w"
  let ?w2 = "snd (transcribe_audio P TEMP_FILE (say Transcribing w1))"
  have t2: "calls_of (out ?w2) = calls_of (out w) @ [CallTranscribe ?a]"
    using f1 o1 rec by (simp add: transcribe_audio_out)
  have fst2: "fst (transcribe_audio P TEMP_FILE (say Transcribing w1)) = stt_of P ?a"
    using f1 rec by (simp add: transcribe_audio_def stt_of_def Let_def split: sum.split)
  have files2: "files ?w2 TEMP_FILE = Some ?a"
    using f1 rec by (metis io_view_eqD transcribe_audio_io io_view_upd(3) fun_upd_same)
  show ?thesis
  proof (cases "stt_of P ?a")
    case None
    with ra t2 fst2 files2 show ?thesis
      by (simp add: voice_turn_def prod.case_eq_if py_remove_def spoken_turn_def truthy_opt_def)
  next
    case (Some t)
    have files3: "files (voice_reply P t ?w2) TEMP_FILE = Some ?a"
      using files2 by (metis io_view_eqD voice_reply_io)
    show ?thesis
    proof (cases "t = []")
      case True
      with Some ra t2 fst2 files2 show ?thesis
        by (simp add: voice_turn_def prod.case_eq_if py_remove_def spoken_turn_def truthy_opt_def)
    next
      case False
      have "snd (spoken_turn (stt_of P) (gen_of P) (AudioUtt ?a))
          = CallTranscribe ?a # snd (spoken_turn (stt_of P) (gen_of P) (TextUtt t))"
        using Some False by (simp add: spoken_turn_def split: prod.split sum.split option.split)
      with Some False ra t2 fst2 files3 show ?thesis
        by (simp add: voice_turn_def prod.case_eq_if py_remove_def truthy_opt_def voice_reply_out)
    qed
  qed
qed

text \<open>
  C2: a text turn refines the abstract pipeline on the typed line: it makes the chat
  request for the line and, when the reply is non-empty and the next line answers
  \<open>y\<close> in any letter case, the speech request for the reply, exactly the calls of
  \<open>spoken_turn\<close> (or of \<open>pipeline\<close> when the answer is anything else), in order.
\<close>

theorem text_turn_refines_pipeline:
  assumes "stdin w = c # cs"
  shows "calls_of (out (fst (text_turn P u w))) = calls_of (out w) @
           snd (if py_lower c = ''y'' then spoken_turn (stt_of P) (gen_of P) (TextUtt u)
                else pipeline (stt_of P) (gen_of P) (TextUtt u))"
proof -
  obtain r w1 where g: "generate_response P u (say Thinking w) = (r, w1)" by fastforce
  have s1: "stdin w1 = c # cs"
    using generate_response_io [of P u "say Thinking w"] g assms by (simp add: io_view_def)
  have o1: "calls_of (out w1) = calls_of (out w) @ [CallGenerate u]"
    using generate_response_out(1) [of P u "say Thinking w"] g by (simp add: say_def emit_def emit_all_def)
  show ?thesis
  proof (cases "gen_of P u")
    case None
    then have "\<not> truthy_opt r" using generate_response_fst [of P u "say Thinking w"] g by simp
    with None g o1 show ?thesis by (simp add: text_turn_def spoken_turn_def)
  next
    case (Some x)
    then have "truthy_opt r" "the r = x"
      using generate_response_fst [of P u "say Thinking w"] generate_response_the [of P u x "say Thinking w"] g
      by simp_all
    with Some g o1 s1 show ?thesis
      by (simp add: text_turn_def spoken_turn_def Let_def read_line_def text_to_speech_out say_def emit_def emit_all_def)
  qed
qed

lemma service_files [simp]:
  "files (snd (generate_response P u w)) = files w"
  "files (snd (transcribe_audio P f w)) = files w"
  "files (text_to_speech P t w) = files w"
  "files (voice_reply P t w) = files w"
  by (metis io_view_eqD generate_response_io transcribe_audio_io text_to_speech_io voice_reply_io)+

lemma run_loop_keep:
  assumes refl: "\<And>P w. R P w w" and trans: "\<And>P a b c. R P a b \<Longrightarrow> R P b c \<Longrightarrow> R P a c"
    and rd: "\<And>P w l w'. read_line w = (Inr l, w') \<Longrightarrow> R P w w'"
    and sy: "\<And>P m w. R P w (say m w)"
    and tm: "\<And>P w. R P w (fst (text_chat_mode P w))"
    and vm: "\<And>P w. R P w (fst (voice_chat_mode P w))"
  shows "R P w (fst (run_loop P w))"
proof (induction P w rule: run_loop.induct)
  case (1 P' w)
  obtain r w1 where rl: "read_line (say MenuShown w) = (r, w1)" by fastforce
  have r0: "R P' w (say MenuShown w)" by (rule sy)
  show ?case
  proof (cases r)
    case (Inl e)
    with rl have "w1 = say MenuShown w" by (auto simp: read_line_def split: list.splits)
    with rl Inl r0 show ?thesis by (simp add: run_loop.simps [of P' w])
  next
    case (Inr c)
    with rl r0 have r1: "R P' w w1" by (blast intro: rd trans)
    note IH = "1.IH" [OF rl [symmetric] Inr]
    consider "c = ''1''" | "c \<noteq> ''1''" "c = ''2''" | "c \<noteq> ''1''" "c \<noteq> ''2''" "c = ''3''"
      | "c \<noteq> ''1''" "c \<noteq> ''2''" "c \<noteq> ''3''" by blast
    then show ?thesis
    proof cases
      case 1
      obtain w2 e where m: "text_chat_mode P' w1 = (w2, e)" by fastforce
      from tm [of P' w1] m r1 have r2: "R P' w w2" by (auto intro: trans)
      show ?thesis
      proof (cases e)
        case None
        from IH(1) [OF 1 m [symmetric] None] r2 have "R P' w (fst (run_loop P' w2))" by (rule trans [rotated])
        with rl Inr 1 m None show ?thesis by (simp add: run_loop.simps [of P' w])
      next
        case (Some x)
        with rl Inr 1 m r2 show ?thesis by (simp add: run_loop.simps [of P' w])
      qed
    next
      case 2
      obtain w2 e where m: "voice_chat_mode P' w1 = (w2, e)" by fastforce
      from vm [of P' w1] m r1 have r2: "R P' w w2" by (auto intro: trans)
      show ?thesis
      proof (cases e)
        case None
        from IH(2) [OF 2 m [symmetric] None] r2 have "R P' w (fst (run_loop P' w2))" by (rule trans [rotated])
        with rl Inr 2 m None show ?thesis by (simp add: run_loop.simps [of P' w])
      next
        case (Some x)
        with rl Inr 2 m r2 show ?thesis by (simp add: run_loop.simps [of P' w])
      qed
    next
      case 3
      with rl Inr r1 sy show ?thesis by (auto simp: run_loop.simps [of P' w] intro: trans)
    next
      case 4
      from IH(3) [OF 4] r1 sy have "R P' w (fst (run_loop P' (say InvalidChoice w1)))"
        by (blast intro: trans)
      with rl Inr 4 show ?thesis by (simp add: run_loop.simps [of P' w])
    qed
  qed
qed

text \<open>The same for a whole session: the relation holds between a world and the world
  the menu loop ends with.\<close>

lemma session_keep:
  assumes refl: "\<And>P w. R P w w" and trans: "\<And>P a b c. R P a b \<Longrightarrow> R P b c \<Longrightarrow> R P a c"
    and rd: "\<And>P w l w'. read_line w = (Inr l, w') \<Longrightarrow> R P w w'"
    and sy: "\<And>P m w. R P w (say m w)"
    and tt: "\<And>P u w. R P w (fst (text_turn P u w))"
    and vt: "\<And>P w. R P w (fst (voice_turn P w))"
  shows "R P w (fst (run_loop P w))"
proof -
  note m = modes_keep [where R = R, OF refl trans rd sy tt vt]
  show ?thesis using run_loop_keep [where R = R, OF refl trans rd sy m(1) m(2)] .
qed

lemma record_audio_reqs: "chat_reqs (out (snd (record_audio P w))) = chat_reqs (out w)"
  by (simp add: record_audio_def Let_def prod.case_eq_if read_line_snd read_line_fst
      split: sum.split list.split)

lemma voice_reply_reqs: "chat_reqs (out (voice_reply P t w)) = chat_reqs (out w) @ [chat_request t]"
  by (simp add: voice_reply_def prod.case_eq_if generate_response_out text_to_speech_out)

lemma py_remove_reqs [simp]: "chat_reqs (out (snd (py_remove f w))) = chat_reqs (out w)"
  by (simp add: py_remove_def split: option.split)

lemma text_turn_reqs: "chat_reqs (out (fst (text_turn P u w))) = chat_reqs (out w) @ [chat_request u]"
  by (simp add: text_turn_def Let_def prod.case_eq_if read_line_snd read_line_fst
      generate_response_out text_to_speech_out split: sum.split list.split)

text \<open>The relation of two worlds in which every new chat request is a persona request.\<close>

definition persona_reqs :: "world \<Rightarrow> world \<Rightarrow> bool" where
  "persona_reqs a b \<longleftrightarrow> set (chat_reqs (out b)) \<subseteq> set (chat_reqs (out a)) \<union> range chat_request"

lemma voice_turn_reqs: "persona_reqs w (fst (voice_turn P w))"
  using record_audio_reqs [of P "w\<lparr>recording := True\<rparr>"]
  by (auto simp: persona_reqs_def voice_turn_def prod.case_eq_if transcribe_audio_out voice_reply_reqs
      split: sum.split)

lemma persona_reqs_steps:
  "persona_reqs w w" "persona_reqs a b \<Longrightarrow> persona_reqs b c \<Longrightarrow> persona_reqs a c"
  "read_line w = (Inr l, w') \<Longrightarrow> persona_reqs w w'" "persona_reqs w (say m w)"
  "persona_reqs w (fst (text_turn P u w))" "persona_reqs w (fst (voice_turn P w))"
  by (auto simp: persona_reqs_def text_turn_reqs voice_turn_reqs [unfolded persona_reqs_def]
      read_line_def split: list.splits)

text \<open>
  C3: the generation service never sees conversation history: every chat-completion
  request of a whole session of the terminal bot is \<open>chat_request u\<close> for some text
  \<open>u\<close>, the persona block followed by that one user message.
\<close>

theorem run_chat_requests_stateless:
  "set (chat_reqs (out (fst (run P (bot_init inp fs))))) \<subseteq> range chat_request"
proof -
  have "persona_reqs (say Welcome (bot_init inp fs)) (fst (run_loop P (say Welcome (bot_init inp fs))))"
    by (rule session_keep [where R = "\<lambda>_. persona_reqs"]; (rule persona_reqs_steps; assumption)?)
  then show ?thesis
    by (auto simp: run_def persona_reqs_def bot_init_def say_def emit_def emit_all_def
        split: prod.split option.split)
qed

lemma voice_turn_after_enter:
  assumes "mic_opens P" and "stdin w \<noteq> []"
  shows "\<exists>w1. record_audio P (w\<lparr>recording := True\<rparr>) = (Inr TEMP_FILE, w1)
           \<and> files w1 = (files w)(TEMP_FILE \<mapsto> recording_of P w) \<and> snd (voice_turn P w) = None"
proof -
  obtain l ls where "stdin w = l # ls" using assms(2) by (cases "stdin w") auto
  then have "stdin (w\<lparr>recording := True\<rparr>) = l # ls" by simp
  from record_audio_ok [OF assms(1) this] obtain w1 where
    ra: "record_audio P (w\<lparr>recording := True\<rparr>) = (Inr TEMP_FILE, w1)"
    and f1: "files w1 = (files w)(TEMP_FILE \<mapsto> recording_of P (w\<lparr>recording := True\<rparr>))"
    by auto
  have "recording_of P (w\<lparr>recording := True\<rparr>) = recording_of P w"
    by (simp add: recording_of_def)
  with ra f1 show ?thesis
    by (simp add: voice_turn_def prod.case_eq_if py_remove_def)
qed

text \<open>
  C5: a voice turn always cleans up: when the microphone opens and Enter is read, the
  turn ends without an exception and \<open>temp_recording.wav\<close> is gone afterwards,
  whether the transcription, the reply or the speech failed or not; no other file is
  touched.
\<close>

theorem voice_turn_removes_recording:
  assumes "mic_opens P" and "stdin w \<noteq> []"
  shows "snd (voice_turn P w) = None \<and> files (fst (voice_turn P w)) = (files w)(TEMP_FILE := None)"
proof -
  from voice_turn_after_enter [OF assms] obtain w1 where
    ra: "record_audio P (w\<lparr>recording := True\<rparr>) = (Inr TEMP_FILE, w1)"
    and f1: "files w1 = (files w)(TEMP_FILE \<mapsto> recording_of P w)"
    and ok: "snd (voice_turn P w) = None"
    by blast
  from ra f1 have "files (fst (voice_turn P w)) = (files w)(TEMP_FILE := None)"
    by (simp add: voice_turn_def prod.case_eq_if py_remove_def)
  with ok show ?thesis by simp
qed

text \<open>
  C6: service failures never end a session: a text turn raises only when the input
  ends at the offer to speak the reply, and a voice turn only when the microphone does
  not open or the input ends while recording.
\<close>

theorem turn_errors_only_from_input_or_device:
  "(text_turn P u w = (w1, Some e1) \<longrightarrow> e1 = EOFError \<and> stdin w = [])
   \<and> (voice_turn P w = (w2, Some e) \<longrightarrow>
        (e = DeviceError \<and> \<not> mic_opens P) \<or> (e = EOFError \<and> stdin w = []))"
proof (rule conjI; rule impI)
  assume "text_turn P u w = (w1, Some e1)"
  then show "e1 = EOFError \<and> stdin w = []"
    by (auto simp: text_turn_def Let_def prod.case_eq_if read_line_def split: if_splits list.splits)
next
  assume vt: "voice_turn P w = (w2, Some e)"
  show "(e = DeviceError \<and> \<not> mic_opens P) \<or> (e = EOFError \<and> stdin w = [])"
  proof (cases "mic_opens P")
    case False
    with vt show ?thesis by (auto simp: voice_turn_def record_audio_def)
  next
    case True
    show ?thesis
    proof (cases "stdin w")
      case Nil
      with True vt show ?thesis
        by (auto simp: voice_turn_def record_audio_def read_line_def)
    next
      case (Cons l ls)
      then have "stdin w \<noteq> []" by simp
      from voice_turn_after_enter [OF True this] vt show ?thesis by auto
    qed
  qed
qed

text \<open>
  C7: the \<open>quit\<close> token, in any letter case, ends either mode at once: the line is
  consumed and nothing is printed or requested.
\<close>

theorem mode_quit_token:
  assumes "stdin w = l # ls" and "py_lower l = ''quit''"
  shows "text_loop P w = (w\<lparr>stdin := ls\<rparr>, None) \<and> voice_loop P w = (w\<lparr>stdin := ls\<rparr>, None)"
  using assms by (simp add: text_loop.simps [of P w] voice_loop.simps [of P w] read_line_def)

text \<open>
  C8: the mode-switch tokens, in any letter case, hand control to the other mode:
  \<open>voice\<close> in text mode starts voice mode and \<open>text\<close> in voice mode starts text
  mode; the only effect before the other mode starts is the consumed line, and no
  service is called.
\<close>

theorem mode_switch_tokens:
  assumes "stdin w = l # ls"
  shows "(py_lower l = ''voice'' \<longrightarrow> text_loop P w = voice_chat_mode P (w\<lparr>stdin := ls\<rparr>))
    \<and> (py_lower l = ''text'' \<longrightarrow> voice_loop P w = text_chat_mode P (w\<lparr>stdin := ls\<rparr>))"
  using assms
  by (simp add: text_loop.simps [of P w] voice_loop.simps [of P w] read_line_def voice_chat_mode_def
      text_chat_mode_def)

section \<open>Witnesses\<close>

text \<open>Services that all answer, and a microphone that records two chunks of silence.\<close>

definition demo_services :: services where
  "demo_services =
     \<lparr>openai_key = Some ''sk-demo'', deepgram_key = Some ''dg-demo'', chat_api = (\<lambda>_. Inr (Some ''hey there'')),
      whisper_api = (\<lambda>_. Inr ''hello''),
      speak_api = (\<lambda>_. Inr \<lparr>status_code = 200, body_chunks = [[1, 2], []], resp_text = []\<rparr>),
      aplay_starts = True, aplay_accepts = 8, mic_opens = True, mic = (\<lambda>_. 0),
      chunks_recorded = (\<lambda>_. 2)\<rparr>"

theorem voice_turn_refines_pipeline_witness:
  "mic_opens demo_services \<and> stdin (bot_init [''''] Map.empty) \<noteq> []
   \<and> calls_of (out (fst (voice_turn demo_services (bot_init [''''] Map.empty))))
     = calls_of (out (bot_init [''''] Map.empty))
       @ snd (spoken_turn (stt_of demo_services) (gen_of demo_services)
                (AudioUtt (recording_of demo_services (bot_init [''''] Map.empty))))"
  using voice_turn_refines_pipeline [of demo_services "bot_init [''''] Map.empty"]
  by (simp add: demo_services_def bot_init_def)

theorem text_turn_refines_pipeline_witness:
  "stdin (bot_init [''Y''] Map.empty) = ''Y'' # []
   \<and> calls_of (out (fst (text_turn demo_services ''hi'' (bot_init [''Y''] Map.empty))))
     = calls_of (out (bot_init [''Y''] Map.empty))
       @ snd (if py_lower ''Y'' = ''y'' then spoken_turn (stt_of demo_services) (gen_of demo_services) (TextUtt ''hi'')
              else pipeline (stt_of demo_services) (gen_of demo_services) (TextUtt ''hi''))"
proof -
  have h: "stdin (bot_init [''Y''] Map.empty) = ''Y'' # []" by (simp add: bot_init_def)
  show ?thesis using h text_turn_refines_pipeline [OF h] by blast
qed

theorem voice_turn_removes_recording_witness:
  "mic_opens demo_services \<and> stdin (bot_init [''''] Map.empty) \<noteq> []
   \<and> snd (voice_turn demo_services (bot_init [''''] Map.empty)) = None
   \<and> files (fst (voice_turn demo_services (bot_init [''''] Map.empty))) = Map.empty(TEMP_FILE := None)"
  using voice_turn_removes_recording [of demo_services "bot_init [''''] Map.empty"]
  by (simp add: demo_services_def bot_init_def)

theorem turn_errors_only_from_input_or_device_witness:
  "text_turn (demo_services\<lparr>mic_opens := False\<rparr>) ''hi'' (bot_init [] Map.empty)
     = (fst (text_turn (demo_services\<lparr>mic_opens := False\<rparr>) ''hi'' (bot_init [] Map.empty)), Some EOFError)
   \<and> voice_turn (demo_services\<lparr>mic_opens := False\<rparr>) (bot_init [] Map.empty)
     = (fst (voice_turn (demo_services\<lparr>mic_opens := False\<rparr>) (bot_init [] Map.empty)), Some DeviceError)
   \<and> stdin (bot_init [] Map.empty) = [] \<and> \<not> mic_opens (demo_services\<lparr>mic_opens := False\<rparr>)"
proof -
  let ?P = "demo_services\<lparr>mic_opens := False\<rparr>"
  let ?w = "bot_init [] Map.empty"
  have t: "snd (text_turn ?P ''hi'' ?w) = Some EOFError"
    by (simp add: text_turn_def generate_response_def demo_services_def bot_init_def read_line_def
        truthy_opt_def Let_def)
  have v: "snd (voice_turn ?P ?w) = Some DeviceError"
    by (simp add: voice_turn_def record_audio_def demo_services_def)
  from t v turn_errors_only_from_input_or_device
    [of ?P "''hi''" ?w "fst (text_turn ?P ''hi'' ?w)" EOFError "fst (voice_turn ?P ?w)" DeviceError]
  show ?thesis by (simp add: prod_eq_iff bot_init_def)
qed

theorem mode_quit_token_witness:
  "stdin (bot_init [''QUIT''] Map.empty) = ''QUIT'' # [] \<and> py_lower ''QUIT'' = ''quit''
   \<and> text_loop demo_services (bot_init [''QUIT''] Map.empty) = (bot_init [] Map.empty, None)"
proof -
  have l: "py_lower ''QUIT'' = ''quit''" by code_simp
  have s: "stdin (bot_init [''QUIT''] Map.empty) = ''QUIT'' # []" by (simp add: bot_init_def)
  from mode_quit_token [OF s l, of demo_services] s l show ?thesis by (simp add: bot_init_def)
qed

theorem mode_switch_tokens_witness:
  "stdin (bot_init [''Voice''] Map.empty) = ''Voice'' # [] \<and> py_lower ''Voice'' = ''voice''
   \<and> text_loop demo_services (bot_init [''Voice''] Map.empty) = voice_chat_mode demo_services (bot_init [] Map.empty)
   \<and> stdin (bot_init [''TEXT''] Map.empty) = ''TEXT'' # [] \<and> py_lower ''TEXT'' = ''text''
   \<and> voice_loop demo_services (bot_init [''TEXT''] Map.empty) = text_chat_mode demo_services (bot_init [] Map.empty)"
proof -
  have l1: "py_lower ''Voice'' = ''voice''" and l2: "py_lower ''TEXT'' = ''text''" by code_simp+
  have s1: "stdin (bot_init [''Voice''] Map.empty) = ''Voice'' # []"
    and s2: "stdin (bot_init [''TEXT''] Map.empty) = ''TEXT'' # []" by (simp_all add: bot_init_def)
  from mode_switch_tokens [OF s1, of demo_services] mode_switch_tokens [OF s2, of demo_services] s1 s2 l1 l2
  show ?thesis by (simp add: bot_init_def)
qed

section \<open>Error paths of the service wrappers\<close>

text \<open>
  C17: when the chat request raises, \<open>generate_response\<close> returns \<open>None\<close> after
  printing the error and then the OpenAI API key itself to the console.
\<close>

theorem chat_error_prints_api_key:
  assumes "chat_api P (chat_request u) = Inl x"
  shows "generate_response P u w
       = (None, emit_all [ChatCall (chat_request u), Say ChatError, Say (ApiKeyShown (py_str_opt (openai_key P)))] w)"
  using assms by (simp add: generate_response_def say_def emit_def emit_all_def)

theorem chat_error_prints_api_key_witness:
  "chat_api (demo_services\<lparr>chat_api := \<lambda>_. Inl OtherError\<rparr>) (chat_request ''hi'') = Inl OtherError
   \<and> generate_response (demo_services\<lparr>chat_api := \<lambda>_. Inl OtherError\<rparr>) ''hi'' (bot_init [] Map.empty)
     = (None, emit_all [ChatCall (chat_request ''hi''), Say ChatError, Say (ApiKeyShown ''sk-demo'')]
                (bot_init [] Map.empty))"
  using chat_error_prints_api_key
          [of "demo_services\<lparr>chat_api := \<lambda>_. Inl OtherError\<rparr>" "''hi''" OtherError "bot_init [] Map.empty"]
  by (simp add: demo_services_def py_str_opt_def)

text \<open>
  C18: the two failures of the speech request. A response with a status other than
  200 is reported (the status, then the failure) and nothing is played; the handler
  returns with the spinner joined and \<open>self.loading\<close> cleared. When the request
  raises, \<open>text_to_speech\<close> clears \<open>self.loading\<close> and reports the error without
  joining the spinner thread: no \<open>SpinnerJoined\<close> event.
\<close>

theorem text_to_speech_failures:
  "(speak_api P (speak_request (deepgram_key P) t) = Inr r \<and> status_code r \<noteq> 200 \<longrightarrow>
      text_to_speech P t w
       = (emit_all [SpinnerStarted, SpeakCall (speak_request (deepgram_key P) t), SpinnerJoined,
                    Say (TtsStatus (status_code r)), Say TtsFailed] w)\<lparr>loading := False\<rparr>)
   \<and> (speak_api P (speak_request (deepgram_key P) t) = Inl x \<longrightarrow>
      text_to_speech P t w
       = (emit_all [SpinnerStarted, SpeakCall (speak_request (deepgram_key P) t), Say TtsError] w)\<lparr>loading := False\<rparr>)"
  by (simp add: text_to_speech_def Let_def say_def emit_def emit_all_def)

theorem text_to_speech_failures_witness:
  "speak_api (demo_services\<lparr>speak_api := \<lambda>_. Inr \<lparr>status_code = 500, body_chunks = [], resp_text = ''err''\<rparr>\<rparr>)
      (speak_request (Some ''dg-demo'') ''hey'') = Inr \<lparr>status_code = 500, body_chunks = [], resp_text = ''err''\<rparr>
   \<and> text_to_speech (demo_services\<lparr>speak_api := \<lambda>_. Inr \<lparr>status_code = 500, body_chunks = [], resp_text = ''err''\<rparr>\<rparr>)
       ''hey'' (bot_init [] Map.empty)
     = (emit_all [SpinnerStarted, SpeakCall (speak_request (Some ''dg-demo'') ''hey''), SpinnerJoined,
                  Say (TtsStatus 500), Say TtsFailed] (bot_init [] Map.empty))\<lparr>loading := False\<rparr>
   \<and> speak_api (demo_services\<lparr>speak_api := \<lambda>_. Inl Timeout\<rparr>) (speak_request (Some ''dg-demo'') ''hey'') = Inl Timeout
   \<and> text_to_speech (demo_services\<lparr>speak_api := \<lambda>_. Inl Timeout\<rparr>) ''hey'' (bot_init [] Map.empty)
     = (emit_all [SpinnerStarted, SpeakCall (speak_request (Some ''dg-demo'') ''hey''), Say TtsError]
          (bot_init [] Map.empty))\<lparr>loading := False\<rparr>"
  using text_to_speech_failures
          [of "demo_services\<lparr>speak_api := \<lambda>_. Inr \<lparr>status_code = 500, body_chunks = [], resp_text = ''err''\<rparr>\<rparr>"
              "''hey''" "\<lparr>status_code = 500, body_chunks = [], resp_text = ''err''\<rparr>" "bot_init [] Map.empty"]
        text_to_speech_failures
          [of "demo_services\<lparr>speak_api := \<lambda>_. Inl Timeout\<rparr>" "''hey''" _ "bot_init [] Map.empty" Timeout]
  by (simp add: demo_services_def)

section \<open>Recording at the end of the input, and the size of a recording\<close>

text \<open>
  C19: when the input ends while a recording waits for Enter, \<open>input()\<close> raises with
  \<open>self.recording\<close> still set: the capture thread is never told to stop, the stream
  is never closed and no file is written.
\<close>

theorem eof_while_recording_leaves_capture_running:
  assumes "mic_opens P" and "stdin w = []"
  shows "voice_turn P w
       = ((emit_all [MicOpened, Say RecordingStarted] w)\<lparr>recording := True, frames := []\<rparr>, Some EOFError)"
  using assms
  by (simp add: voice_turn_def record_audio_def read_line_def say_def emit_def emit_all_def)

theorem eof_while_recording_leaves_capture_running_witness:
  "mic_opens demo_services \<and> stdin (bot_init [] Map.empty) = []
   \<and> voice_turn demo_services (bot_init [] Map.empty)
     = ((emit_all [MicOpened, Say RecordingStarted] (bot_init [] Map.empty))
          \<lparr>recording := True, frames := []\<rparr>, Some EOFError)"
  using eof_while_recording_leaves_capture_running [of demo_services "bot_init [] Map.empty"]
  by (simp add: demo_services_def bot_init_def)

lemma two_seconds_not_whole_chunks: "k * (CHUNK * CHANNELS * SAMPLE_WIDTH) \<noteq> 2 * RATE * CHANNELS * SAMPLE_WIDTH"
proof
  assume h: "k * (CHUNK * CHANNELS * SAMPLE_WIDTH) = 2 * RATE * CHANNELS * SAMPLE_WIDTH"
  have a: "(2 * RATE * CHANNELS * SAMPLE_WIDTH) mod 2048 = 272" by (simp add: capture_params)
  have b: "(k * (CHUNK * CHANNELS * SAMPLE_WIDTH)) mod 2048 = 0" by (simp add: capture_params)
  from a b h show False by (metis zero_neq_numeral)
qed

text \<open>
  C15: a recording holds whole chunks: the file \<open>record_audio\<close> writes has
  \<open>k * 1024 * 1 * 2\<close> bytes of data for the \<open>k\<close> chunks captured, so it never holds
  exactly the 176400 bytes of two seconds of audio at 44100 Hz.
\<close>

theorem recorded_bytes_whole_chunks:
  assumes "mic_opens P" and "stdin w \<noteq> []"
  shows "files (snd (record_audio P w)) TEMP_FILE = Some (recording_of P w)
       \<and> length (wav_data (recording_of P w)) = chunks_recorded P (mic_pos w) * (CHUNK * CHANNELS * SAMPLE_WIDTH)
       \<and> length (wav_data (recording_of P w)) \<noteq> 2 * RATE * CHANNELS * SAMPLE_WIDTH"
proof -
  obtain l ls where "stdin w = l # ls" using assms(2) by (cases "stdin w") auto
  from record_audio_ok [OF assms(1) this] have f: "files (snd (record_audio P w)) TEMP_FILE = Some (recording_of P w)"
    by auto
  have n: "length (wav_data (recording_of P w)) = chunks_recorded P (mic_pos w) * (CHUNK * CHANNELS * SAMPLE_WIDTH)"
    using length_concat_chunks [of "mic P" "mic_pos w" "[0..<chunks_recorded P (mic_pos w)]"]
    by (simp add: recording_of_def write_wav_def captured_def)
  from f n two_seconds_not_whole_chunks show ?thesis by simp
qed

theorem recorded_bytes_whole_chunks_witness:
  "mic_opens demo_services \<and> stdin (bot_init [''''] Map.empty) \<noteq> []
   \<and> files (snd (record_audio demo_services (bot_init [''''] Map.empty))) TEMP_FILE
     = Some (recording_of demo_services (bot_init [''''] Map.empty))
   \<and> length (wav_data (recording_of demo_services (bot_init [''''] Map.empty))) = 4096
   \<and> length (wav_data (recording_of demo_services (bot_init [''''] Map.empty))) \<noteq> 176400"
  using recorded_bytes_whole_chunks [of demo_services "bot_init [''''] Map.empty"]
  by (simp add: demo_services_def bot_init_def capture_params)

text \<open>
  C16: the file \<open>record_audio\<close> writes holds exactly the microphone samples the
  recording consumed, in order: its data is the 16-bit little-endian encoding of the
  samples from where the recording started to where the next one starts, and decoding
  it gives them back. Consecutive recordings neither overlap nor skip samples.
\<close>

theorem recorded_audio_roundtrip:
  assumes "mic_opens P" and "stdin w \<noteq> []"
  shows "\<exists>a. files (snd (record_audio P w)) TEMP_FILE = Some a
     \<and> wav_data a = pcm_encode (map (mic P) [mic_pos w..<mic_pos (snd (record_audio P w))])
     \<and> pcm_decode (wav_data a) = map (mic P) [mic_pos w..<mic_pos (snd (record_audio P w))]
     \<and> mic_pos (snd (record_audio P w)) = mic_pos w + chunks_recorded P (mic_pos w) * CHUNK"
proof -
  obtain l ls where s: "stdin w = l # ls" using assms(2) by (cases "stdin w") auto
  have pos: "mic_pos (snd (record_audio P w)) = mic_pos w + chunks_recorded P (mic_pos w) * CHUNK"
    using assms(1) s by (simp add: record_audio_def Let_def read_line_def say_def emit_def emit_all_def)
  have d: "wav_data (recording_of P w)
      = pcm_encode (map (mic P) [mic_pos w..<mic_pos w + chunks_recorded P (mic_pos w) * CHUNK])"
    by (simp add: recording_of_def write_wav_def captured_def concat_chunks_pcm)
  from record_audio_ok [OF assms(1) s]
  have f: "files (snd (record_audio P w)) TEMP_FILE = Some (recording_of P w)" by auto
  from f d pos show ?thesis by (auto simp: pcm_roundtrip)
qed

theorem recorded_audio_roundtrip_witness:
  "mic_opens demo_services \<and> stdin (bot_init [''''] Map.empty) \<noteq> []
   \<and> (\<exists>a. files (snd (record_audio demo_services (bot_init [''''] Map.empty))) TEMP_FILE = Some a
     \<and> wav_data a = pcm_encode (map (mic demo_services)
         [mic_pos (bot_init [''''] Map.empty)..<mic_pos (snd (record_audio demo_services (bot_init [''''] Map.empty)))])
     \<and> pcm_decode (wav_data a) = map (mic demo_services)
         [mic_pos (bot_init [''''] Map.empty)..<mic_pos (snd (record_audio demo_services (bot_init [''''] Map.empty)))]
     \<and> mic_pos (snd (record_audio demo_services (bot_init [''''] Map.empty)))
       = mic_pos (bot_init [''''] Map.empty) + chunks_recorded demo_services (mic_pos (bot_init [''''] Map.empty)) * CHUNK)"
proof -
  have h1: "mic_opens demo_services" by (simp add: demo_services_def)
  have h2: "stdin (bot_init [''''] Map.empty) \<noteq> []" by (simp add: bot_init_def)
  from recorded_audio_roundtrip [OF h1 h2] h1 h2 show ?thesis by blast
qed

end
