(* ===== verification/TerminalFiles.thy ===== *)
theory TerminalFiles
  imports TerminalProps
begin

text \<open>
  The recordings of a terminal session: every container the program hands to the
  transcription service is in the fixed format of spec section 6 (mono, 16-bit,
  44100 Hz) and holds whole chunks.
\<close>

section \<open>Well-formed recordings\<close>

definition wav_ok :: "wav \<Rightarrow> bool" where
  "wav_ok a \<longleftrightarrow>
     wav_channels a = CHANNELS \<and> wav_sampwidth a = SAMPLE_WIDTH \<and> wav_rate a = RATE
     \<and> (CHUNK * CHANNELS * SAMPLE_WIDTH) dvd length (wav_data a)"

text \<open>
  Every container the transcription service receives by the later world was sent
  by the earlier one, or is well-formed.
\<close>

definition stt_ok :: "world \<Rightarrow> world \<Rightarrow> bool" where
  "stt_ok w w' \<longleftrightarrow>
     (\<forall>a. CallTranscribe a \<in> set (calls_of (out w')) \<longrightarrow> CallTranscribe a \<in> set (calls_of (out w)) \<or> wav_ok a)"

lemma wav_ok_recording: "wav_ok (recording_of P w)"
  by (simp add: wav_ok_def recording_of_def write_wav_def captured_def length_concat_chunks)

lemma calls_of_say [simp]: "calls_of (out (say m w)) = calls_of (out w)"
  by (simp add: say_def emit_def emit_all_def)

lemma record_audio_calls: "calls_of (out (snd (record_audio P w))) = calls_of (out w)"
  by (simp add: record_audio_def Let_def prod.case_eq_if read_line_snd read_line_fst emit_def emit_all_def
      split: sum.split list.split)

lemma record_audio_file:
  "record_audio P w = (Inr f, w1) \<Longrightarrow> f = TEMP_FILE \<and> files w1 f = Some (recording_of P w)"
  by (auto simp: record_audio_def Let_def read_line_def recording_of_def say_def emit_def emit_all_def
      split: if_splits list.splits)

lemma text_turn_no_transcribe:
  "CallTranscribe a \<in> set (calls_of (out (fst (text_turn P u w)))) \<Longrightarrow> CallTranscribe a \<in> set (calls_of (out w))"
  by (auto simp: text_turn_def Let_def prod.case_eq_if read_line_def generate_response_out text_to_speech_out
      split: list.splits sum.splits if_splits)

lemma voice_reply_no_transcribe:
  "CallTranscribe a \<in> set (calls_of (out (voice_reply P t w))) \<Longrightarrow> CallTranscribe a \<in> set (calls_of (out w))"
  by (auto simp: voice_reply_out spoken_turn_def split: option.splits)

lemma py_remove_calls [simp]: "calls_of (out (snd (py_remove f w))) = calls_of (out w)"
  by (simp add: py_remove_def emit_def emit_all_def split: option.split)

lemma voice_turn_stt: "stt_ok w (fst (voice_turn P w))"
proof -
  obtain r w1 where ra: "record_audio P (w\<lparr>recording := True\<rparr>) = (r, w1)" by fastforce
  have c1: "calls_of (out w1) = calls_of (out w)"
    using record_audio_calls [of P "w\<lparr>recording := True\<rparr>"] ra by simp
  show ?thesis
  proof (cases r)
    case (Inl e)
    with ra c1 show ?thesis by (simp add: stt_ok_def voice_turn_def)
  next
    case (Inr f)
    with ra have f: "f = TEMP_FILE" and fw: "files (say Transcribing w1) f = Some (recording_of P (w\<lparr>recording := True\<rparr>))"
      by (auto dest: record_audio_file)
    obtain t w2 where tr: "transcribe_audio P f (say Transcribing w1) = (t, w2)" by fastforce
    have c2: "calls_of (out w2) = calls_of (out w) @ [CallTranscribe (recording_of P (w\<lparr>recording := True\<rparr>))]"
      using transcribe_audio_out(1) [OF fw, of P] tr c1 by simp
    have h: "CallTranscribe a \<in> set (calls_of (out (if truthy_opt t then voice_reply P (the t) w2 else w2)))
          \<Longrightarrow> CallTranscribe a \<in> set (calls_of (out w)) \<or> wav_ok a" for a
      using c2 wav_ok_recording [of P "w\<lparr>recording := True\<rparr>"]
      by (auto dest: voice_reply_no_transcribe split: if_splits)
    have "calls_of (out (fst (voice_turn P w)))
          = calls_of (out (if truthy_opt t then voice_reply P (the t) w2 else w2))"
      using ra Inr tr by (simp add: voice_turn_def prod.case_eq_if split: sum.split)
    then show ?thesis unfolding stt_ok_def by (metis h)
  qed
qed

lemma stt_ok_steps:
  "stt_ok w w" "stt_ok a b \<Longrightarrow> stt_ok b c \<Longrightarrow> stt_ok a c"
  "read_line w = (Inr l, w') \<Longrightarrow> stt_ok w w'" "stt_ok w (say m w)"
  "stt_ok w (fst (text_turn P u w))" "stt_ok w (fst (voice_turn P w))"
  by (auto simp: stt_ok_def read_line_def voice_turn_stt [unfolded stt_ok_def] dest: text_turn_no_transcribe
      split: list.splits)

text \<open>
  C9: over a whole session, every container the program sends to the transcription
  service is a well-formed recording: one channel, two bytes per sample, 44100 Hz,
  and a data size that is a whole number of 1024-frame chunks.
\<close>

theorem run_transcribes_only_wav:
  "{a. CallTranscribe a \<in> set (calls_of (out (fst (run P (bot_init inp fs)))))} \<subseteq> Collect wav_ok"
proof -
  have "stt_ok (say Welcome (bot_init inp fs)) (fst (run_loop P (say Welcome (bot_init inp fs))))"
    by (rule session_keep [where R = "\<lambda>_. stt_ok"]; (rule stt_ok_steps; assumption)?)
  then show ?thesis
    by (auto simp: run_def stt_ok_def bot_init_def emit_def split: prod.splits option.splits)
qed

end
