(* ===== verification/TerminalMain.thy ===== *)
theory TerminalMain
  imports TerminalProps
begin

text \<open>
  The entry point of \<open>src/app.py\<close> (\<open>if __name__ == "__main__":\<close>): the check that
  PyAudio imports, then \<open>VoiceChatBot().run()\<close>; an exception that leaves \<open>run\<close> ends
  the process with status 1, as \<open>exit(1)\<close> does after a failed import.
\<close>

datatype main_msg = PyAudioNotFound | PipInstallHint

text \<open>
  The messages printed before the bot is built, the world the bot ends with (none
  when it is never built), and the exit status.
\<close>

definition main ::
  "bool \<Rightarrow> services \<Rightarrow> string list \<Rightarrow> (string \<Rightarrow> wav option) \<Rightarrow> main_msg list \<times> world option \<times> nat" where
  "main pyaudio_imports P inp fs =
     (if \<not> pyaudio_imports then ([PyAudioNotFound, PipInstallHint], None, 1)
      else (case run P (bot_init inp fs) of
              (w, None) \<Rightarrow> ([], Some w, 0)
            | (w, Some _) \<Rightarrow> ([], Some w, 1)))"

section \<open>The input only shrinks\<close>

definition rest_of :: "world \<Rightarrow> world \<Rightarrow> bool" where
  "rest_of w w' \<longleftrightarrow> suffix (stdin w') (stdin w)"

lemma rest_of_steps:
  "rest_of w w" "rest_of a b \<Longrightarrow> rest_of b c \<Longrightarrow> rest_of a c"
  "read_line w = (Inr l, w') \<Longrightarrow> rest_of w w'" "rest_of w (say m w)"
  "rest_of w (fst (text_turn P u w))"
  by (auto simp: rest_of_def read_line_def text_turn_def Let_def prod.case_eq_if read_line_snd
      intro: suffix_order.trans suffix_ConsI split: list.splits sum.split)

lemma record_audio_rest: "suffix (stdin (snd (record_audio P w))) (stdin w)"
  by (auto simp: record_audio_def Let_def prod.case_eq_if read_line_snd split: sum.split)

lemma voice_turn_rest: "rest_of w (fst (voice_turn P w))"
  using record_audio_rest [of P "w\<lparr>recording := True\<rparr>"]
  by (auto simp: rest_of_def voice_turn_def prod.case_eq_if service_frames split: sum.split)

lemma rest_of_modes:
  "rest_of w (fst (text_chat_mode P w))" "rest_of w (fst (voice_chat_mode P w))"
  by (rule modes_keep [where R = "\<lambda>_. rest_of"], (rule rest_of_steps voice_turn_rest; assumption)+)+

lemma rest_of_set: "rest_of w w' \<Longrightarrow> set (stdin w') \<subseteq> set (stdin w)"
  by (simp add: rest_of_def set_mono_suffix)

section \<open>Leaving the menu\<close>

text \<open>The menu loop returns without an exception only after reading the choice \<open>3\<close>.\<close>

lemma run_loop_exit: "snd (run_loop P w) = None \<Longrightarrow> ''3'' \<in> set (stdin w)"
proof (induction P w rule: run_loop.induct)
  case (1 P' w)
  obtain r w1 where rl: "read_line (say MenuShown w) = (r, w1)" by fastforce
  show ?case
  proof (cases r)
    case (Inl e)
    with rl "1.prems" show ?thesis by (simp add: run_loop.simps [of P' w])
  next
    case (Inr c)
    with rl have inp: "stdin w = c # stdin w1" by (auto simp: read_line_def split: list.splits)
    note IH = "1.IH" [OF rl [symmetric] Inr]
    have mode: "''3'' \<in> set (stdin w)"
      if m: "(w2, None) = M P' w1" and r2: "rest_of w1 w2" and h: "''3'' \<in> set (stdin w2)" for M w2
      using rest_of_set [OF r2] h inp by auto
    consider "c = ''1''" | "c \<noteq> ''1''" "c = ''2''" | "c \<noteq> ''1''" "c \<noteq> ''2''" "c = ''3''"
      | "c \<noteq> ''1''" "c \<noteq> ''2''" "c \<noteq> ''3''" by blast
    then show ?thesis
    proof cases
      case 1
      obtain w2 e where m: "text_chat_mode P' w1 = (w2, e)" by fastforce
      with "1.prems" rl Inr 1 have "e = None" "snd (run_loop P' w2) = None"
        by (simp_all add: run_loop.simps [of P' w] split: option.splits)
      with IH(1) [OF 1 m [symmetric]] rest_of_modes(1) [of w1 P'] m show ?thesis
        by (intro mode [of w2 text_chat_mode]) simp_all
    next
      case 2
      obtain w2 e where m: "voice_chat_mode P' w1 = (w2, e)" by fastforce
      with "1.prems" rl Inr 2 have "e = None" "snd (run_loop P' w2) = None"
        by (simp_all add: run_loop.simps [of P' w] split: option.splits)
      with IH(2) [OF 2 m [symmetric]] rest_of_modes(2) [of w1 P'] m show ?thesis
        by (intro mode [of w2 voice_chat_mode]) simp_all
    next
      case 3
      with inp show ?thesis by simp
    next
      case 4
      with "1.prems" rl Inr have "snd (run_loop P' (say InvalidChoice w1)) = None"
        by (simp add: run_loop.simps [of P' w])
      with IH(3) [OF 4] inp show ?thesis by simp
    qed
  qed
qed

text \<open>
  The \<open>__main__\<close> block exits with status 0 only when PyAudio imports and the user
  typed the menu choice \<open>3\<close>: a missing PyAudio, the end of the input, a microphone
  that does not open and a missing recording all end it with status 1.
\<close>

theorem main_exit_zero_needs_choice_3:
  assumes "snd (snd (main pyaudio_imports P inp fs)) = 0"
  shows "pyaudio_imports \<and> ''3'' \<in> set inp"
proof -
  from assms have imp: "pyaudio_imports" and ok: "snd (run P (bot_init inp fs)) = None"
    by (auto simp: main_def split: if_splits prod.splits option.splits)
  from ok have "snd (run_loop P (say Welcome (bot_init inp fs))) = None"
    by (simp add: run_def split: prod.splits option.splits)
  then have "''3'' \<in> set (stdin (say Welcome (bot_init inp fs)))" by (rule run_loop_exit)
  with imp show ?thesis by (simp add: bot_init_def)
qed

theorem main_exit_zero_needs_choice_3_witness:
  "snd (snd (main True demo_services [''3''] Map.empty)) = 0 \<and> True \<and> ''3'' \<in> set [''3'']"
proof -
  have h: "snd (snd (main True demo_services [''3''] Map.empty)) = 0"
    by (simp add: main_def run_def run_loop.simps [of demo_services] read_line_def bot_init_def
        say_def emit_def emit_all_def)
  from main_exit_zero_needs_choice_3 [OF h] h show ?thesis by simp
qed

end
