(* ===== verification/WebApp.thy ===== *)
theory WebApp
  imports Providers
begin

text \<open>
  The Streamlit front end \<open>src/app_elevenlabs.py\<close>. Streamlit runs the whole script
  again on every interaction; one run is the step \<open>rerun\<close>, from the session state
  (\<open>st.session_state.messages\<close> and \<open>st.session_state.voice_messages\<close>, absent
  until the first run creates them) and the values the widgets return on that run
  (the submitted chat text, the recorder's audio, the clear button) to the new session
  state, the ordered page output and service calls, and whether \<open>st.rerun()\<close> was
  called. The configuration read from the environment at import is a record
  \<open>web_config\<close>; the services are the record \<open>web_services\<close>.
\<close>

section \<open>Configuration, persona and requests\<close>

record web_config =
  openai_api_key :: string
  elevenlabs_api_key :: string
  voice_id :: string

definition EL_SYSTEM_PROMPT_lines :: "string list" where
  "EL_SYSTEM_PROMPT_lines = [
    ''You respond as MohammedAnas (mAsK) - someone who is naturally introspective, empathetic, and values authentic connection. You tend to:'',
    ''- Reflect thoughtfully before responding'',
    ''- Find humor in everyday situations  '',
    ''- Connect emotionally with others'',
    ''- Prefer meaningful conversations'',
    '''',
    ''Your tone is warm and genuine, with occasional touches of humor. You're human - sometimes confident, sometimes uncertain, always real.'',
    '''',
    ''Don't try to be profound or poetic in every response. Sometimes you're just having a normal conversation. Match the energy and depth the person brings.'']"

definition EL_SYSTEM_PROMPT :: string where
  "EL_SYSTEM_PROMPT = CHR 0x0A # py_unlines EL_SYSTEM_PROMPT_lines"

definition el_chat_request :: "string \<Rightarrow> chat_req" where
  "el_chat_request prompt =
     \<lparr>req_model = ''gpt-4.1-nano-2025-04-14'',
      req_messages = [\<lparr>msg_role = System, msg_content = EL_SYSTEM_PROMPT\<rparr>,
                      \<lparr>msg_role = User, msg_content = prompt\<rparr>],
      req_temperature = Some (2 / 5)\<rparr>"

text \<open>
  The ElevenLabs request: the voice in the URL, the headers (\<open>Accept\<close>,
  \<open>Content-Type\<close> and the \<open>xi-api-key\<close>, which is the empty string here when the
  key is unset, as \<open>web_config\<close> has it), the payload's text (the reply's
  \<open>content\<close>, which may be \<open>None\<close>), model and voice settings, and the timeout.
\<close>

record el_req =
  el_voice :: string
  el_accept :: string
  el_content_type :: string
  el_api_key :: string
  el_text :: "string option"
  el_model :: string
  el_stability :: rat
  el_similarity :: rat
  el_timeout :: nat

definition el_request :: "web_config \<Rightarrow> string option \<Rightarrow> el_req" where
  "el_request C t =
     \<lparr>el_voice = voice_id C, el_accept = ''audio/mpeg'', el_content_type = ''application/json'',
      el_api_key = elevenlabs_api_key C, el_text = t, el_model = ''eleven_flash_v2_5'',
      el_stability = 1 / 2, el_similarity = 1 / 2, el_timeout = 30\<rparr>"

definition SORRY_MSG :: string where
  "SORRY_MSG = ''Sorry, I couldn't generate a response.''"

section \<open>Page output and services\<close>

text \<open>One constructor per \<open>st.error\<close>, \<open>st.warning\<close>, \<open>st.success\<close> and rendered item.\<close>

datatype ui =
    ErrNoApiKey | WarnNoVoiceId
  | ChatBubble role "string option"
  | ErrTranscribe | ErrGenerate
  | ErrVoiceIdNotSet | ErrTimeout | ErrTts | ErrNoAudio | ErrStatus nat | ErrResponse string
  | AudioPlayer bytes
  | YouSaid string | BotSaid "string option" | SpeechPlaying | SpeechFailedWarning
  | ErrNoResponse | ErrNoTranscript | ErrSorry
  | HistoryHeader | HistoryEntry nat string "string option"
  | VoiceIdShown string | VoiceIdMissing | HistoryCleared

datatype wevent = Show ui | WChatCall chat_req | WWhisperCall bytes | WTtsCall el_req

record web_services =
  w_chat_api :: "chat_req \<Rightarrow> exc + string option"
  w_whisper_api :: "bytes \<Rightarrow> exc + string"
  w_tts_api :: "el_req \<Rightarrow> exc + http_resp"

record session =
  messages :: "(role \<times> string option) list option"
  voice_messages :: "(string \<times> string option) list option"

record page_input =
  chat_value :: "string option"
  audio_value :: "bytes option"
  clear_clicked :: bool

text \<open>
  \<open>if "messages" not in st.session_state: st.session_state.messages = []\<close>: the
  stored list, or a new empty one.
\<close>

definition init_list :: "'a list option \<Rightarrow> 'a list" where
  "init_list v = (case v of None \<Rightarrow> [] | Some m \<Rightarrow> m)"

section \<open>The service wrappers\<close>

definition w_transcribe :: "web_services \<Rightarrow> bytes \<Rightarrow> string option \<times> wevent list" where
  "w_transcribe S a =
     (case w_whisper_api S a of
        Inl _ \<Rightarrow> (None, [WWhisperCall a, Show ErrTranscribe])
      | Inr t \<Rightarrow> (Some t, [WWhisperCall a]))"

text \<open>
  \<open>generate_response\<close> returns the message object or \<open>None\<close>; the object is there
  exactly when the request did not raise, and its \<open>content\<close> may be \<open>None\<close> or empty.
\<close>

definition w_generate :: "web_services \<Rightarrow> string \<Rightarrow> string option option \<times> wevent list" where
  "w_generate S p =
     (let req = el_chat_request p in
      case w_chat_api S req of
        Inl _ \<Rightarrow> (None, [WChatCall req, Show ErrGenerate])
      | Inr c \<Rightarrow> (Some c, [WChatCall req]))"

definition tts_elevenlabs :: "web_config \<Rightarrow> web_services \<Rightarrow> string option \<Rightarrow> bool \<times> wevent list" where
  "tts_elevenlabs C S t =
     (if voice_id C = [] then (False, [Show ErrVoiceIdNotSet])
      else
        let req = el_request C t in
        case w_tts_api S req of
          Inl Timeout \<Rightarrow> (False, [WTtsCall req, Show ErrTimeout])
        | Inl OtherError \<Rightarrow> (False, [WTtsCall req, Show ErrTts])
        | Inr r \<Rightarrow>
            if status_code r = 200 then
              (if 0 < length (resp_content r) then (True, [WTtsCall req, Show (AudioPlayer (resp_content r))])
               else (False, [WTtsCall req, Show ErrNoAudio]))
            else (False, [WTtsCall req, Show (ErrStatus (status_code r)), Show (ErrResponse (resp_text r))]))"

section \<open>The two tabs and the sidebar\<close>

definition text_tab :: "web_services \<Rightarrow> page_input \<Rightarrow> session \<Rightarrow> session \<times> wevent list" where
  "text_tab S inp s =
     (let msgs = init_list (messages s);
          shown = map (\<lambda>(r, c). Show (ChatBubble r c)) msgs
      in case chat_value inp of
           Some p \<Rightarrow>
             if p \<noteq> [] then
               (case w_generate S p of
                  (Some c, es) \<Rightarrow>
                    (s\<lparr>messages := Some (msgs @ [(User, Some p), (Assistant, c)])\<rparr>,
                     shown @ [Show (ChatBubble User (Some p))] @ es @ [Show (ChatBubble Assistant c)])
                | (None, es) \<Rightarrow>
                    (s\<lparr>messages := Some (msgs @ [(User, Some p), (Assistant, Some SORRY_MSG)])\<rparr>,
                     shown @ [Show (ChatBubble User (Some p))] @ es @ [Show ErrSorry]))
             else (s\<lparr>messages := Some msgs\<rparr>, shown)
         | None \<Rightarrow> (s\<lparr>messages := Some msgs\<rparr>, shown))"

text \<open>
  The \<open>if audio_bytes:\<close> branch: transcribe, answer, speak, and record the exchange
  when both the transcript and the message object are there.
\<close>

definition voice_turn_web ::
  "web_config \<Rightarrow> web_services \<Rightarrow> bytes \<Rightarrow> (string \<times> string option) list
   \<Rightarrow> (string \<times> string option) list \<times> wevent list" where
  "voice_turn_web C S a vm =
     (case w_transcribe S a of
        (ut, es1) \<Rightarrow>
          if truthy_opt ut then
            (case w_generate S (the ut) of
               (Some c, es2) \<Rightarrow>
                 (case tts_elevenlabs C S c of
                    (ok, es3) \<Rightarrow>
                      (vm @ [(the ut, c)],
                       es1 @ [Show (YouSaid (the ut))] @ es2 @ [Show (BotSaid c)] @ es3
                       @ [Show (if ok then SpeechPlaying else SpeechFailedWarning)]))
             | (None, es2) \<Rightarrow> (vm, es1 @ [Show (YouSaid (the ut))] @ es2 @ [Show ErrNoResponse]))
          else (vm, es1 @ [Show ErrNoTranscript]))"

text \<open>\<open>xs[-3:]\<close>: the last three elements, or all of them when there are fewer.\<close>

definition py_last3 :: "'a list \<Rightarrow> 'a list" where
  "py_last3 xs = drop (length xs - 3) xs"

definition voice_history_view :: "(string \<times> string option) list \<Rightarrow> wevent list" where
  "voice_history_view vm =
     (if vm = [] then []
      else Show HistoryHeader #
        map (\<lambda>(i, (u, r)). Show (HistoryEntry (length vm - length (py_last3 vm) + i + 1) u r))
          (enumerate 0 (py_last3 vm)))"

definition voice_tab ::
  "web_config \<Rightarrow> web_services \<Rightarrow> page_input \<Rightarrow> session \<Rightarrow> session \<times> wevent list" where
  "voice_tab C S inp s =
     (let vm = init_list (voice_messages s) in
      case (case audio_value inp of
              Some a \<Rightarrow> if a \<noteq> [] then voice_turn_web C S a vm else (vm, [])
            | None \<Rightarrow> (vm, [])) of
        (vm', es) \<Rightarrow> (s\<lparr>voice_messages := Some vm'\<rparr>, es @ voice_history_view vm'))"

definition sidebar :: "web_config \<Rightarrow> page_input \<Rightarrow> session \<Rightarrow> session \<times> wevent list \<times> bool" where
  "sidebar C inp s =
     (let es = [Show (if voice_id C \<noteq> [] then VoiceIdShown (take 8 (voice_id C)) else VoiceIdMissing)] in
      if clear_clicked inp
      then (s\<lparr>messages := Some [], voice_messages := Some []\<rparr>, es @ [Show HistoryCleared], True)
      else (s, es, False))"

definition config_checks :: "web_config \<Rightarrow> wevent list" where
  "config_checks C =
     (if elevenlabs_api_key C = [] then [Show ErrNoApiKey] else [])
     @ (if voice_id C = [] then [Show WarnNoVoiceId] else [])"

text \<open>One run of the script, top to bottom.\<close>

definition rerun ::
  "web_config \<Rightarrow> web_services \<Rightarrow> page_input \<Rightarrow> session \<Rightarrow> session \<times> wevent list \<times> bool" where
  "rerun C S inp s =
     (case text_tab S inp s of
        (s1, es1) \<Rightarrow>
          (case voice_tab C S inp s1 of
             (s2, es2) \<Rightarrow>
               (case sidebar C inp s2 of
                  (s3, es3, rr) \<Rightarrow> (s3, config_checks C @ es1 @ es2 @ es3, rr))))"

text \<open>A sequence of runs, one per interaction (a requested \<open>st.rerun()\<close> is the next one).\<close>

fun reruns ::
  "web_config \<Rightarrow> web_services \<Rightarrow> page_input list \<Rightarrow> session \<Rightarrow> session \<times> wevent list" where
  "reruns C S [] s = (s, [])"
| "reruns C S (i # is) s =
     (case rerun C S i s of
        (s1, es1, _) \<Rightarrow> (case reruns C S is s1 of (s2, es2) \<Rightarrow> (s2, es1 @ es2)))"

end
