(* ===== verification/WebAppProps.thy ===== *)
theory WebAppProps
  imports WebApp "HOL-Library.Sublist"
begin

text \<open>
  Properties of the Streamlit page \<open>src/app_elevenlabs.py\<close>: its voice turn against the
  abstract pipeline of \<open>Providers\<close>, \<open>text_to_speech_elevenlabs\<close> on every branch, the
  session-state histories over a sequence of runs (appended in order, reset only by the
  clear button), the numbering of the last three voice exchanges, and the requests the
  page sends. The projection \<open>wcalls_of\<close> reads the service calls off a run's events,
  as \<open>calls_of\<close> does for the terminal program.
\<close>

section \<open>Projections and a concrete configuration\<close>

fun wcalls_of :: "wevent list \<Rightarrow> bytes call list" where
  "wcalls_of [] = []"
| "wcalls_of (WWhisperCall a # es) = CallTranscribe a # wcalls_of es"
| "wcalls_of (WChatCall q # es) = CallGenerate (msg_content (last (req_messages q))) # wcalls_of es"
| "wcalls_of (WTtsCall q # es) = CallSynthesize (case el_text q of Some t \<Rightarrow> t | None \<Rightarrow> []) # wcalls_of es"
| "wcalls_of (Show _ # es) = wcalls_of es"

text \<open>The services seen as the partial functions of the abstract pipeline.\<close>

definition wstt_of :: "web_services \<Rightarrow> bytes \<Rightarrow> string option" where
  "wstt_of S a = (case w_whisper_api S a of Inl _ \<Rightarrow> None | Inr t \<Rightarrow> Some t)"

definition wgen_of :: "web_services \<Rightarrow> string \<Rightarrow> string option" where
  "wgen_of S t = (case w_chat_api S (el_chat_request t) of Inr (Some r) \<Rightarrow> Some r | _ \<Rightarrow> None)"

definition demo_web_config :: web_config where
  "demo_web_config = \<lparr>openai_api_key = ''sk'', elevenlabs_api_key = ''el'', voice_id = ''voice-0123456789''\<rparr>"

definition demo_web_services :: web_services where
  "demo_web_services =
     \<lparr>w_chat_api = (\<lambda>_. Inr (Some ''hi'')), w_whisper_api = (\<lambda>_. Inr ''hello''),
      w_tts_api = (\<lambda>_. Inr \<lparr>status_code = 200, body_chunks = [[1, 2]], resp_text = ''''\<rparr>)\<rparr>"

definition demo_session :: session where
  "demo_session = \<lparr>messages = None, voice_messages = None\<rparr>"

definition demo_input :: page_input where
  "demo_input = \<lparr>chat_value = Some ''hey'', audio_value = Some [7], clear_clicked = False\<rparr>"

section \<open>Session state of one run\<close>

lemma init_list_Some [simp]: "init_list (Some m) = m" and init_list_None [simp]: "init_list None = []"
  by (simp_all add: init_list_def)

lemma voice_tab_messages [simp]: "messages (fst (voice_tab C S inp s)) = messages s"
  by (simp add: voice_tab_def Let_def prod.case_eq_if)

lemma text_tab_voice [simp]: "voice_messages (fst (text_tab S inp s)) = voice_messages s"
  by (simp add: text_tab_def Let_def prod.case_eq_if split: option.split)

lemma rerun_sessions:
  "init_list (messages (fst (rerun C S inp s))) =
     (if clear_clicked inp then [] else init_list (messages (fst (text_tab S inp s))))"
  "init_list (voice_messages (fst (rerun C S inp s))) =
     (if clear_clicked inp then [] else init_list (voice_messages (fst (voice_tab C S inp (fst (text_tab S inp s))))))"
  by (simp_all add: rerun_def sidebar_def Let_def prod.case_eq_if)

lemma text_tab_messages:
  "init_list (messages (fst (text_tab S inp s))) =
     init_list (messages s) @
       (case chat_value inp of
          Some p \<Rightarrow> if p \<noteq> [] then
              [(User, Some p), (Assistant, case w_chat_api S (el_chat_request p) of Inl _ \<Rightarrow> Some SORRY_MSG | Inr c \<Rightarrow> c)]
            else []
        | None \<Rightarrow> [])"
  by (simp add: text_tab_def w_generate_def Let_def split: option.split sum.split)

lemma voice_turn_web_vm:
  "fst (voice_turn_web C S a vm) =
     vm @ (case w_whisper_api S a of
             Inl _ \<Rightarrow> []
           | Inr t \<Rightarrow> if t = [] then [] else
               (case w_chat_api S (el_chat_request t) of Inl _ \<Rightarrow> [] | Inr c \<Rightarrow> [(t, c)]))"
  by (simp add: voice_turn_web_def w_transcribe_def w_generate_def truthy_opt_def Let_def prod.case_eq_if
      split: sum.split)

lemma voice_tab_vm:
  "init_list (voice_messages (fst (voice_tab C S inp s))) =
     (case audio_value inp of
        Some a \<Rightarrow> if a \<noteq> [] then fst (voice_turn_web C S a (init_list (voice_messages s)))
                  else init_list (voice_messages s)
      | None \<Rightarrow> init_list (voice_messages s))"
  by (simp add: voice_tab_def Let_def prod.case_eq_if split: option.split)

lemma rerun_prefix:
  assumes "\<not> clear_clicked inp"
  shows "prefix (init_list (messages s)) (init_list (messages (fst (rerun C S inp s))))
       \<and> prefix (init_list (voice_messages s)) (init_list (voice_messages (fst (rerun C S inp s))))"
  using assms
  by (simp add: rerun_sessions text_tab_messages voice_tab_vm voice_turn_web_vm split: option.split)

section \<open>Events of one run\<close>

lemma wcalls_of_append [simp]: "wcalls_of (xs @ ys) = wcalls_of xs @ wcalls_of ys"
  by (induction xs rule: wcalls_of.induct) simp_all

lemma el_chat_request_user [simp]: "msg_content (last (req_messages (el_chat_request p))) = p"
  by (simp add: el_chat_request_def)

lemma rerun_events:
  "fst (snd (rerun C S inp s)) =
     config_checks C @ snd (text_tab S inp s) @ snd (voice_tab C S inp (fst (text_tab S inp s)))
     @ fst (snd (sidebar C inp (fst (voice_tab C S inp (fst (text_tab S inp s))))))"
  by (simp add: rerun_def prod.case_eq_if)

lemma voice_tab_events:
  "snd (voice_tab C S inp s) =
     (case audio_value inp of
        Some a \<Rightarrow> if a \<noteq> [] then snd (voice_turn_web C S a (init_list (voice_messages s))) else []
      | None \<Rightarrow> []) @ voice_history_view (init_list (voice_messages (fst (voice_tab C S inp s))))"
  by (simp add: voice_tab_def Let_def prod.case_eq_if split: option.split)

lemma tts_elevenlabs_calls:
  "wcalls_of (snd (tts_elevenlabs C S t)) =
     (if voice_id C = [] then [] else [CallSynthesize (case t of Some x \<Rightarrow> x | None \<Rightarrow> [])])"
  by (simp add: tts_elevenlabs_def Let_def el_request_def split: sum.split exc.split)

lemma tts_elevenlabs_reqs:
  "WTtsCall q \<in> set (snd (tts_elevenlabs C S t)) \<Longrightarrow> voice_id C \<noteq> [] \<and> q = el_request C t"
  by (auto simp: tts_elevenlabs_def Let_def split: sum.splits exc.splits if_splits)

lemma no_tts_text_tab: "WTtsCall q \<notin> set (snd (text_tab S inp s))"
  by (auto simp: text_tab_def w_generate_def Let_def split: option.splits sum.splits)

lemma no_tts_page: "WTtsCall q \<notin> set (voice_history_view vm)" "WTtsCall q \<notin> set (config_checks C)"
  "WTtsCall q \<notin> set (fst (snd (sidebar C inp s)))"
  by (auto simp: voice_history_view_def config_checks_def sidebar_def Let_def)

lemma voice_turn_web_tts:
  "WTtsCall q \<in> set (snd (voice_turn_web C S a vm)) \<Longrightarrow>
     \<exists>p c. WChatCall (el_chat_request p) \<in> set (snd (voice_turn_web C S a vm))
       \<and> w_chat_api S (el_chat_request p) = Inr c \<and> q = el_request C c \<and> voice_id C \<noteq> []"
  by (auto simp: voice_turn_web_def w_transcribe_def w_generate_def Let_def prod.case_eq_if
      dest!: tts_elevenlabs_reqs split: sum.splits if_splits option.splits)

lemma no_chat_page: "WChatCall q \<notin> set (voice_history_view vm)" "WChatCall q \<notin> set (config_checks C)"
  "WChatCall q \<notin> set (fst (snd (sidebar C inp s)))" "WChatCall q \<notin> set (snd (tts_elevenlabs C S t))"
  by (auto simp: voice_history_view_def config_checks_def sidebar_def tts_elevenlabs_def Let_def
      split: sum.splits exc.splits)

lemma w_generate_reqs: "WChatCall q \<in> set (snd (w_generate S p)) \<Longrightarrow> q = el_chat_request p"
  by (auto simp: w_generate_def Let_def split: sum.splits)

lemma text_tab_chat_reqs: "WChatCall q \<in> set (snd (text_tab S inp s)) \<Longrightarrow> q \<in> range el_chat_request"
  by (auto simp: text_tab_def Let_def prod.case_eq_if dest!: w_generate_reqs split: option.splits if_splits)

lemma voice_turn_web_chat_reqs:
  "WChatCall q \<in> set (snd (voice_turn_web C S a vm)) \<Longrightarrow> q \<in> range el_chat_request"
  by (auto simp: voice_turn_web_def w_transcribe_def prod.case_eq_if no_chat_page dest!: w_generate_reqs
      split: sum.splits if_splits option.splits)

lemma rerun_chat_reqs:
  "WChatCall q \<in> set (fst (snd (rerun C S inp s))) \<Longrightarrow> q \<in> range el_chat_request"
  by (cases "audio_value inp")
    (auto simp: rerun_events voice_tab_events no_chat_page dest: text_tab_chat_reqs voice_turn_web_chat_reqs
      split: if_splits)

section \<open>The history view\<close>

lemma length_py_last3 [simp]: "length (py_last3 xs) = min 3 (length xs)"
  by (simp add: py_last3_def)

lemma nth_py_last3: "i < min 3 (length xs) \<Longrightarrow> py_last3 xs ! i = xs ! (length xs - min 3 (length xs) + i)"
  by (simp add: py_last3_def min_def)

section \<open>Properties\<close>

text \<open>
  C21: the page's voice turn refines the abstract spoken turn: when a voice id is set
  and the chat service always returns a message with content, the service calls of
  the \<open>if audio_bytes:\<close> branch are exactly those of \<open>spoken_turn\<close> on the recorded
  bytes, in order. A failed or empty transcript is followed by no chat request, a
  failed chat request by no speech request, and the speech request carries the reply.
\<close>

theorem web_voice_turn_refines_pipeline:
  assumes "voice_id C \<noteq> []" and "\<forall>q. w_chat_api S q \<noteq> Inr None"
  shows "wcalls_of (snd (voice_turn_web C S a vm)) = snd (spoken_turn (wstt_of S) (wgen_of S) (AudioUtt a))"
  using assms
  by (auto simp: voice_turn_web_def w_transcribe_def w_generate_def spoken_turn_def wstt_of_def wgen_of_def
      truthy_opt_def tts_elevenlabs_calls prod.case_eq_if split: sum.split option.split)

text \<open>
  C22: \<open>text_to_speech_elevenlabs\<close> returns \<open>True\<close> exactly when a voice id is set and
  the request returns status 200 with a non-empty body; a missing voice id, a timeout,
  any other exception, another status and an empty body all give \<open>False\<close>.
\<close>

theorem tts_elevenlabs_result:
  "fst (tts_elevenlabs C S t) \<longleftrightarrow>
     voice_id C \<noteq> [] \<and>
     (case w_tts_api S (el_request C t) of
        Inr r \<Rightarrow> status_code r = 200 \<and> resp_content r \<noteq> []
      | Inl _ \<Rightarrow> False)"
  by (simp add: tts_elevenlabs_def Let_def split: sum.split exc.split)

text \<open>
  C23: in a run of the page, every ElevenLabs request goes to the configured voice
  (so none is sent without a voice id) with the fixed model and settings, and speaks
  the content of a reply that a chat request of the same run returned.
\<close>

theorem rerun_tts_follows_reply:
  assumes "WTtsCall q \<in> set (fst (snd (rerun C S inp s)))"
  shows "voice_id C \<noteq> [] \<and> (\<exists>p c. WChatCall (el_chat_request p) \<in> set (fst (snd (rerun C S inp s)))
           \<and> w_chat_api S (el_chat_request p) = Inr c \<and> q = el_request C c)"
proof -
  obtain a where a: "audio_value inp = Some a" "a \<noteq> []"
    and q: "WTtsCall q \<in> set (snd (voice_turn_web C S a (init_list (voice_messages s))))"
    using assms by (cases "audio_value inp")
      (auto simp: rerun_events voice_tab_events no_tts_text_tab no_tts_page split: if_splits)
  from voice_turn_web_tts [OF q] a show ?thesis
    by (fastforce simp: rerun_events voice_tab_events)
qed

text \<open>
  C24: over any sequence of runs in which the clear button is not pressed, both
  session histories only grow at the end: the history before is a prefix of the
  history after.
\<close>

theorem reruns_histories_append_only:
  assumes "\<forall>i \<in> set ins. \<not> clear_clicked i"
  shows "prefix (init_list (messages s)) (init_list (messages (fst (reruns C S ins s))))
       \<and> prefix (init_list (voice_messages s)) (init_list (voice_messages (fst (reruns C S ins s))))"
  using assms
proof (induction ins arbitrary: s)
  case Nil
  then show ?case by simp
next
  case (Cons i ins)
  then have "prefix (init_list (messages (fst (rerun C S i s)))) (init_list (messages (fst (reruns C S ins (fst (rerun C S i s))))))
    \<and> prefix (init_list (voice_messages (fst (rerun C S i s)))) (init_list (voice_messages (fst (reruns C S ins (fst (rerun C S i s))))))"
    by simp
  with rerun_prefix [of i s C S] Cons.prems show ?case
    by (auto simp: prod.case_eq_if elim: prefix_order.trans)
qed

text \<open>
  C25: a run in which the clear button is pressed empties both histories, whatever the
  tabs appended earlier in the same run, reports it, and requests a new run.
\<close>

theorem rerun_clear_resets_history:
  assumes "clear_clicked inp"
  shows "messages (fst (rerun C S inp s)) = Some [] \<and> voice_messages (fst (rerun C S inp s)) = Some []
       \<and> snd (snd (rerun C S inp s)) \<and> Show HistoryCleared \<in> set (fst (snd (rerun C S inp s)))"
  using assms by (simp add: rerun_def sidebar_def Let_def prod.case_eq_if)

text \<open>
  C26: without the clear button, a run appends to the text history the user's
  non-empty message and then the assistant's entry (the reply's content, or the
  apology when the chat request raised), and nothing otherwise; and it appends one
  exchange to the voice history exactly when there is audio, its transcript is
  non-empty and the chat request returns, the exchange being the transcript and the
  reply's content whether or not the speech succeeded.
\<close>

theorem rerun_histories:
  assumes "\<not> clear_clicked inp"
  shows "init_list (messages (fst (rerun C S inp s))) =
     init_list (messages s) @
       (case chat_value inp of
          Some p \<Rightarrow> if p \<noteq> [] then
              [(User, Some p), (Assistant, case w_chat_api S (el_chat_request p) of Inl _ \<Rightarrow> Some SORRY_MSG | Inr c \<Rightarrow> c)]
            else []
        | None \<Rightarrow> [])
   \<and> init_list (voice_messages (fst (rerun C S inp s))) =
     init_list (voice_messages s) @
       (case audio_value inp of
          Some a \<Rightarrow>
            if a \<noteq> [] then
              (case w_whisper_api S a of
                 Inl _ \<Rightarrow> []
               | Inr t \<Rightarrow> if t = [] then [] else
                   (case w_chat_api S (el_chat_request t) of Inl _ \<Rightarrow> [] | Inr c \<Rightarrow> [(t, c)]))
            else []
        | None \<Rightarrow> [])"
  using assms
  by (simp add: rerun_sessions text_tab_messages voice_tab_vm voice_turn_web_vm split: option.split)

text \<open>
  C27: the voice history view shows the last three exchanges (all of them when there
  are fewer), each under its position in the whole history counted from 1, so
  "Conversation k" is the k-th recorded exchange.
\<close>

theorem voice_history_numbering:
  "voice_history_view vm =
     (if vm = [] then []
      else Show HistoryHeader #
        map (\<lambda>j. case vm ! j of (u, r) \<Rightarrow> Show (HistoryEntry (j + 1) u r))
          [length vm - min 3 (length vm)..<length vm])"
proof (cases "vm = []")
  case False
  have "map (\<lambda>(i, (u, r)). Show (HistoryEntry (length vm - length (py_last3 vm) + i + 1) u r))
          (enumerate 0 (py_last3 vm))
        = map (\<lambda>j. case vm ! j of (u, r) \<Rightarrow> Show (HistoryEntry (j + 1) u r))
          [length vm - min 3 (length vm)..<length vm]"
  proof (rule nth_equalityI)
    fix i
    assume "i < length (map (\<lambda>(i, (u, r)). Show (HistoryEntry (length vm - length (py_last3 vm) + i + 1) u r))
          (enumerate 0 (py_last3 vm)))"
    then have i: "i < min 3 (length vm)" by simp
    then have u: "[length vm - min 3 (length vm)..<length vm] ! i = length vm - min 3 (length vm) + i"
      by (subst nth_upt) auto
    then show "map (\<lambda>(i, (u, r)). Show (HistoryEntry (length vm - length (py_last3 vm) + i + 1) u r))
          (enumerate 0 (py_last3 vm)) ! i
        = map (\<lambda>j. case vm ! j of (u, r) \<Rightarrow> Show (HistoryEntry (j + 1) u r))
          [length vm - min 3 (length vm)..<length vm] ! i"
      using i by (simp add: enumerate_eq_zip nth_py_last3 u split: prod.split)
  qed simp
  with False show ?thesis by (simp add: voice_history_view_def)
qed (simp add: voice_history_view_def)

text \<open>
  C28: over any sequence of runs, every chat request the page sends is the persona
  block of \<open>app_elevenlabs.py\<close> and one user message, at temperature 0.4: the
  histories in session state are never sent to the model.
\<close>

theorem reruns_chat_requests_stateless:
  "{q. WChatCall q \<in> set (snd (reruns C S ins s))} \<subseteq> range el_chat_request"
proof (induction ins arbitrary: s)
  case (Cons i ins)
  then show ?case by (auto simp: prod.case_eq_if dest: rerun_chat_reqs)
qed simp

text \<open>
  C29: a reply whose content is empty is not treated as a failure: its empty text is
  sent to ElevenLabs and the exchange is recorded in the voice history.
\<close>

theorem web_empty_reply_synthesized:
  assumes "w_whisper_api S a = Inr t" and "t \<noteq> []"
    and "w_chat_api S (el_chat_request t) = Inr (Some [])" and "voice_id C \<noteq> []"
  shows "WTtsCall (el_request C (Some [])) \<in> set (snd (voice_turn_web C S a vm))
       \<and> fst (voice_turn_web C S a vm) = vm @ [(t, Some [])]"
  using assms
  by (simp add: voice_turn_web_def w_transcribe_def w_generate_def tts_elevenlabs_def truthy_opt_def Let_def
      split: sum.split exc.split)

text \<open>
  C30: the voice tab keeps no record of the audio it has answered: two runs that
  receive the same recording (a Streamlit component returns its last value on every
  later run) transcribe it, answer it and append the exchange twice.
\<close>

theorem reruns_same_audio_appended_twice:
  assumes "\<not> clear_clicked i" and "audio_value i = Some a" and "a \<noteq> []"
    and "w_whisper_api S a = Inr t" and "t \<noteq> []" and "w_chat_api S (el_chat_request t) = Inr c"
  shows "init_list (voice_messages (fst (reruns C S [i, i] s))) = init_list (voice_messages s) @ [(t, c), (t, c)]"
  using assms by (simp add: rerun_sessions voice_tab_vm voice_turn_web_vm prod.case_eq_if)

section \<open>The properties at concrete runs\<close>

theorem web_voice_turn_refines_pipeline_witness:
  "voice_id demo_web_config \<noteq> [] \<and> (\<forall>q. w_chat_api demo_web_services q \<noteq> Inr None)
   \<and> wcalls_of (snd (voice_turn_web demo_web_config demo_web_services [7] []))
     = snd (spoken_turn (wstt_of demo_web_services) (wgen_of demo_web_services) (AudioUtt [7]))"
proof -
  have h: "voice_id demo_web_config \<noteq> []" "\<forall>q. w_chat_api demo_web_services q \<noteq> Inr None"
    by (simp_all add: demo_web_config_def demo_web_services_def)
  show ?thesis using h web_voice_turn_refines_pipeline [OF h] by blast
qed

theorem rerun_tts_follows_reply_witness:
  "WTtsCall (el_request demo_web_config (Some ''hi''))
     \<in> set (fst (snd (rerun demo_web_config demo_web_services demo_input demo_session)))
   \<and> voice_id demo_web_config \<noteq> []
   \<and> (\<exists>p c. WChatCall (el_chat_request p)
         \<in> set (fst (snd (rerun demo_web_config demo_web_services demo_input demo_session)))
       \<and> w_chat_api demo_web_services (el_chat_request p) = Inr c
       \<and> el_request demo_web_config (Some ''hi'') = el_request demo_web_config c)"
proof -
  have h: "WTtsCall (el_request demo_web_config (Some ''hi''))
     \<in> set (fst (snd (rerun demo_web_config demo_web_services demo_input demo_session)))"
    by (simp add: rerun_events voice_tab_events voice_turn_web_def w_transcribe_def w_generate_def
        tts_elevenlabs_def demo_web_config_def demo_web_services_def demo_input_def truthy_opt_def Let_def)
  show ?thesis using h rerun_tts_follows_reply [OF h] by blast
qed

theorem reruns_histories_append_only_witness:
  "\<not> clear_clicked demo_input
   \<and> prefix (init_list (messages demo_session))
       (init_list (messages (fst (reruns demo_web_config demo_web_services [demo_input, demo_input] demo_session))))
   \<and> prefix (init_list (voice_messages demo_session))
       (init_list (voice_messages (fst (reruns demo_web_config demo_web_services [demo_input, demo_input] demo_session))))"
proof -
  have h: "\<forall>i \<in> set [demo_input, demo_input]. \<not> clear_clicked i" by (simp add: demo_input_def)
  show ?thesis using h reruns_histories_append_only [OF h] by (simp add: demo_input_def)
qed

theorem rerun_clear_resets_history_witness:
  "clear_clicked (demo_input\<lparr>clear_clicked := True\<rparr>)
   \<and> messages (fst (rerun demo_web_config demo_web_services (demo_input\<lparr>clear_clicked := True\<rparr>) demo_session)) = Some []
   \<and> voice_messages (fst (rerun demo_web_config demo_web_services (demo_input\<lparr>clear_clicked := True\<rparr>) demo_session)) = Some []
   \<and> snd (snd (rerun demo_web_config demo_web_services (demo_input\<lparr>clear_clicked := True\<rparr>) demo_session))
   \<and> Show HistoryCleared \<in> set (fst (snd (rerun demo_web_config demo_web_services (demo_input\<lparr>clear_clicked := True\<rparr>) demo_session)))"
proof -
  have h: "clear_clicked (demo_input\<lparr>clear_clicked := True\<rparr>)" by simp
  show ?thesis using h rerun_clear_resets_history [OF h] by blast
qed

theorem rerun_histories_witness:
  "\<not> clear_clicked demo_input
   \<and> init_list (messages (fst (rerun demo_web_config demo_web_services demo_input demo_session)))
     = [(User, Some ''hey''), (Assistant, Some ''hi'')]
   \<and> init_list (voice_messages (fst (rerun demo_web_config demo_web_services demo_input demo_session)))
     = [(''hello'', Some ''hi'')]"
proof -
  have h: "\<not> clear_clicked demo_input" by (simp add: demo_input_def)
  show ?thesis using h rerun_histories [OF h]
    by (simp add: demo_input_def demo_session_def demo_web_services_def)
qed

theorem web_empty_reply_synthesized_witness:
  "w_whisper_api (demo_web_services\<lparr>w_chat_api := \<lambda>_. Inr (Some [])\<rparr>) [7] = Inr ''hello''
   \<and> ''hello'' \<noteq> []
   \<and> w_chat_api (demo_web_services\<lparr>w_chat_api := \<lambda>_. Inr (Some [])\<rparr>) (el_chat_request ''hello'') = Inr (Some [])
   \<and> voice_id demo_web_config \<noteq> []
   \<and> WTtsCall (el_request demo_web_config (Some []))
       \<in> set (snd (voice_turn_web demo_web_config (demo_web_services\<lparr>w_chat_api := \<lambda>_. Inr (Some [])\<rparr>) [7] []))
   \<and> fst (voice_turn_web demo_web_config (demo_web_services\<lparr>w_chat_api := \<lambda>_. Inr (Some [])\<rparr>) [7] [])
     = [(''hello'', Some [])]"
proof -
  have h: "w_whisper_api (demo_web_services\<lparr>w_chat_api := \<lambda>_. Inr (Some [])\<rparr>) [7] = Inr ''hello''"
    "''hello'' \<noteq> []"
    "w_chat_api (demo_web_services\<lparr>w_chat_api := \<lambda>_. Inr (Some [])\<rparr>) (el_chat_request ''hello'') = Inr (Some [])"
    "voice_id demo_web_config \<noteq> []"
    by (simp_all add: demo_web_services_def demo_web_config_def)
  show ?thesis using h web_empty_reply_synthesized [OF h, of "[]"] by simp
qed

theorem reruns_same_audio_appended_twice_witness:
  "\<not> clear_clicked demo_input \<and> audio_value demo_input = Some [7] \<and> [7::byte] \<noteq> []
   \<and> w_whisper_api demo_web_services [7] = Inr ''hello'' \<and> ''hello'' \<noteq> []
   \<and> w_chat_api demo_web_services (el_chat_request ''hello'') = Inr (Some ''hi'')
   \<and> init_list (voice_messages (fst (reruns demo_web_config demo_web_services [demo_input, demo_input] demo_session)))
     = [(''hello'', Some ''hi''), (''hello'', Some ''hi'')]"
proof -
  have h: "\<not> clear_clicked demo_input" "audio_value demo_input = Some [7]" "[7::byte] \<noteq> []"
    "w_whisper_api demo_web_services [7] = Inr ''hello''" "''hello'' \<noteq> []"
    "w_chat_api demo_web_services (el_chat_request ''hello'') = Inr (Some ''hi'')"
    by (simp_all add: demo_input_def demo_web_services_def)
  show ?thesis using h reruns_same_audio_appended_twice [OF h, of demo_web_config demo_session]
    by (simp add: demo_session_def)
qed

end
