(* ===== verification/Spinner.thy ===== *)
theory Spinner
  imports Prelude
begin

text \<open>
  The progress spinner of \<open>VoiceChatBot.text_to_speech\<close> in \<open>src/app.py\<close>: the
  thread running \<open>loading_spinner\<close> and the foreground that sets \<open>self.loading\<close>,
  starts the thread, posts the speech request, clears the flag and joins the thread
  (or, when the request raises, clears the flag in the handler and prints the error
  without joining). The two run interleaved over the shared flag and the console.
  The state starts right after \<open>spinner_thread.start()\<close>; whether the request
  returns is the parameter \<open>ok\<close> of the relation. Only the order of what reaches the
  console is modelled, not the carriage-return layout of the line.
\<close>

section \<open>State and steps\<close>

text \<open>\<open>itertools.cycle(['|', '/', '-', '\\'])\<close>.\<close>

definition SPIN_CHARS :: "char list" where
  "SPIN_CHARS = [CHR ''|'', CHR ''/'', CHR ''-'', CHR 0x5C]"

text \<open>
  What reaches the console: a spinner frame with its character, the spinner's final
  \<open>'\r'\<close>, the foreground's output after the join (the playback or the status
  lines), and the \<open>TTS error\<close> line of the handler.
\<close>

datatype spin_out = SpinFrame char | SpinReturn | AfterJoin | TtsErrorShown

text \<open>
  The spinner thread: about to test the flag before its \<open>k\<close>-th frame, about to write
  that frame, about to write the final \<open>'\r'\<close>, or ended.
\<close>

datatype spin_pc = SCheck nat | SWrite nat | SFinal | SDone

text \<open>
  The foreground: waiting for \<open>requests.post\<close>, about to join, past the join, in the
  exception handler, or returned.
\<close>

datatype fg_pc = FPost | FJoin | FAfter | FExcept | FEnd

record spin_state =
  sp_loading :: bool
  sp_out :: "spin_out list"
  sp_pc :: spin_pc
  fg :: fg_pc

definition spin_init :: spin_state where
  "spin_init = \<lparr>sp_loading = True, sp_out = [], sp_pc = SCheck 0, fg = FPost\<rparr>"

text \<open>One statement of \<open>loading_spinner\<close> (the \<open>time.sleep\<close> is folded into the write).\<close>

inductive spinner_step :: "spin_state \<Rightarrow> spin_state \<Rightarrow> bool" where
  spin_on: "sp_pc s = SCheck k \<Longrightarrow> sp_loading s \<Longrightarrow> spinner_step s (s\<lparr>sp_pc := SWrite k\<rparr>)"
| spin_off: "sp_pc s = SCheck k \<Longrightarrow> \<not> sp_loading s \<Longrightarrow> spinner_step s (s\<lparr>sp_pc := SFinal\<rparr>)"
| spin_write: "sp_pc s = SWrite k \<Longrightarrow>
    spinner_step s (s\<lparr>sp_out := sp_out s @ [SpinFrame (SPIN_CHARS ! (k mod 4))], sp_pc := SCheck (Suc k)\<rparr>)"
| spin_final: "sp_pc s = SFinal \<Longrightarrow> spinner_step s (s\<lparr>sp_out := sp_out s @ [SpinReturn], sp_pc := SDone\<rparr>)"

text \<open>One statement of the foreground, from \<open>requests.post\<close> to the end of the method.\<close>

inductive tts_fg_step :: "bool \<Rightarrow> spin_state \<Rightarrow> spin_state \<Rightarrow> bool" for ok :: bool where
  post_ok: "fg s = FPost \<Longrightarrow> ok \<Longrightarrow> tts_fg_step ok s (s\<lparr>sp_loading := False, fg := FJoin\<rparr>)"
| post_raise: "fg s = FPost \<Longrightarrow> \<not> ok \<Longrightarrow> tts_fg_step ok s (s\<lparr>sp_loading := False, fg := FExcept\<rparr>)"
| join: "fg s = FJoin \<Longrightarrow> sp_pc s = SDone \<Longrightarrow> tts_fg_step ok s (s\<lparr>fg := FAfter\<rparr>)"
| after: "fg s = FAfter \<Longrightarrow> tts_fg_step ok s (s\<lparr>sp_out := sp_out s @ [AfterJoin], fg := FEnd\<rparr>)"
| report: "fg s = FExcept \<Longrightarrow> tts_fg_step ok s (s\<lparr>sp_out := sp_out s @ [TtsErrorShown], fg := FEnd\<rparr>)"

text \<open>The interleaving: one thread moves at a time.\<close>

inductive spin_step :: "bool \<Rightarrow> spin_state \<Rightarrow> spin_state \<Rightarrow> bool" for ok :: bool where
  thread: "spinner_step s t \<Longrightarrow> spin_step ok s t"
| foreground: "tts_fg_step ok s t \<Longrightarrow> spin_step ok s t"

inductive spin_reach :: "bool \<Rightarrow> spin_state \<Rightarrow> bool" for ok :: bool where
  start: "spin_reach ok spin_init"
| step: "spin_reach ok s \<Longrightarrow> spin_step ok s t \<Longrightarrow> spin_reach ok t"

inductive_cases spinner_stepE: "spinner_step s t"
inductive_cases tts_fg_stepE: "tts_fg_step ok s t"
inductive_cases spin_stepE: "spin_step ok s t"

section \<open>Invariant\<close>

text \<open>The spinner characters that reached the console, in order.\<close>

fun frames_of :: "spin_out list \<Rightarrow> char list" where
  "frames_of [] = []"
| "frames_of (SpinFrame c # os) = c # frames_of os"
| "frames_of (_ # os) = frames_of os"

definition spin_cycle :: "nat \<Rightarrow> char list" where
  "spin_cycle n = map (\<lambda>k. SPIN_CHARS ! (k mod 4)) [0..<n]"

text \<open>
  What the two threads keep true: the flag is up exactly while the request is in
  flight; the foreground's path matches \<open>ok\<close>; after the join the spinner has ended;
  the output after the join is the last line; the frames printed so far are the
  cycle's prefix, as many as the spinner has counted; the final \<open>'\r'\<close> is out
  exactly when the spinner has ended.
\<close>

definition spin_inv :: "bool \<Rightarrow> spin_state \<Rightarrow> bool" where
  "spin_inv ok s \<longleftrightarrow>
     (fg s = FPost \<longleftrightarrow> sp_loading s)
   \<and> (ok \<longrightarrow> fg s \<noteq> FExcept) \<and> (\<not> ok \<longrightarrow> fg s \<noteq> FJoin \<and> fg s \<noteq> FAfter)
   \<and> (fg s = FAfter \<or> fg s = FEnd \<and> ok \<longrightarrow> sp_pc s = SDone)
   \<and> (AfterJoin \<in> set (sp_out s) \<longleftrightarrow> ok \<and> fg s = FEnd)
   \<and> (ok \<and> fg s = FEnd \<longrightarrow> last (sp_out s) = AfterJoin)
   \<and> frames_of (sp_out s) = spin_cycle (length (frames_of (sp_out s)))
   \<and> (\<forall>k. sp_pc s = SCheck k \<or> sp_pc s = SWrite k \<longrightarrow> length (frames_of (sp_out s)) = k)
   \<and> (SpinReturn \<in> set (sp_out s) \<longleftrightarrow> sp_pc s = SDone)"

text \<open>
  A rank that every step lowers once the flag is cleared: the spinner's distance
  from its end plus the foreground's.
\<close>

fun spin_rank :: "spin_pc \<Rightarrow> nat" where
  "spin_rank (SWrite _) = 3" | "spin_rank (SCheck _) = 2" | "spin_rank SFinal = 1" | "spin_rank SDone = 0"

fun fg_rank :: "fg_pc \<Rightarrow> nat" where
  "fg_rank FPost = 3" | "fg_rank FJoin = 2" | "fg_rank FAfter = 1" | "fg_rank FExcept = 1" | "fg_rank FEnd = 0"

definition spin_state_rank :: "spin_state \<Rightarrow> nat" where
  "spin_state_rank s = spin_rank (sp_pc s) + fg_rank (fg s)"

section \<open>Lemmas\<close>

lemma frames_of_append [simp]: "frames_of (xs @ ys) = frames_of xs @ frames_of ys"
  by (induction xs rule: frames_of.induct) simp_all

lemma spin_cycle_Suc: "spin_cycle (Suc k) = spin_cycle k @ [SPIN_CHARS ! (k mod 4)]"
  by (simp add: spin_cycle_def)

lemma spin_inv_init: "spin_inv ok spin_init"
  by (simp add: spin_inv_def spin_init_def spin_cycle_def)

lemma spin_step_inv: "spin_step ok s t \<Longrightarrow> spin_inv ok s \<Longrightarrow> spin_inv ok t"
  by (elim spin_stepE spinner_stepE tts_fg_stepE) (auto simp: spin_inv_def spin_cycle_Suc)

lemma spin_reach_inv: "spin_reach ok s \<Longrightarrow> spin_inv ok s"
  by (induction rule: spin_reach.induct) (auto intro: spin_inv_init spin_step_inv)

lemma spin_step_cleared: "spin_step ok s t \<Longrightarrow> \<not> sp_loading s \<Longrightarrow> \<not> sp_loading t \<and> spin_state_rank t < spin_state_rank s"
  by (elim spin_stepE spinner_stepE tts_fg_stepE) (auto simp: spin_state_rank_def)

lemma spin_pow_cleared: "(spin_step ok ^^ n) s t \<Longrightarrow> \<not> sp_loading s \<Longrightarrow> n + spin_state_rank t \<le> spin_state_rank s"
proof (induction n arbitrary: s)
  case (Suc n)
  from Suc.prems(1) obtain u where su: "spin_step ok s u" and ut: "(spin_step ok ^^ n) u t"
    by (blast dest: relpowp_Suc_D2)
  with spin_step_cleared [OF su Suc.prems(2)] Suc.IH [OF ut] show ?case by simp
qed simp

lemma rank_cleared: "spin_inv ok s \<Longrightarrow> \<not> sp_loading s \<Longrightarrow> spin_state_rank s \<le> 5"
  by (cases "sp_pc s"; cases "fg s") (auto simp: spin_state_rank_def spin_inv_def)

lemma spin_progress:
  assumes "spin_inv ok s" and "\<not> (sp_pc s = SDone \<and> fg s = FEnd)"
  shows "\<exists>t. spin_step ok s t"
proof (cases "sp_pc s")
  case (SCheck k)
  then show ?thesis
    by (cases "sp_loading s") (blast intro: spin_step.thread spinner_step.spin_on spinner_step.spin_off)+
next
  case (SWrite k)
  then show ?thesis by (blast intro: spin_step.thread spinner_step.spin_write)
next
  case SFinal
  then show ?thesis by (blast intro: spin_step.thread spinner_step.spin_final)
next
  case SDone
  with assms show ?thesis
    by (cases "fg s"; cases ok)
      (auto simp: spin_inv_def intro: spin_step.foreground tts_fg_step.intros)
qed

lemma spin_finish:
  assumes "spin_reach ok s" and "\<not> sp_loading s"
  shows "\<exists>t. (spin_step ok)\<^sup>*\<^sup>* s t \<and> sp_pc t = SDone \<and> fg t = FEnd"
  using assms
proof (induction "spin_state_rank s" arbitrary: s rule: less_induct)
  case less
  show ?case
  proof (cases "sp_pc s = SDone \<and> fg s = FEnd")
    case False
    with spin_progress [OF spin_reach_inv [OF less.prems(1)]] obtain u where su: "spin_step ok s u" by blast
    with spin_step_cleared [OF su less.prems(2)] less.prems(1)
      less.hyps [of u] show ?thesis
      by (meson converse_rtranclp_into_rtranclp spin_reach.step)
  qed auto
qed

text \<open>
  The spinner's frames cycle through \<open>| / - \\\<close> in order: the k-th frame
  it prints shows the character at position k mod 4 of the cycle.
\<close>

theorem spinner_frames_cycle:
  assumes "spin_reach ok s"
  shows "frames_of (sp_out s) = map (\<lambda>k. SPIN_CHARS ! (k mod 4)) [0..<length (frames_of (sp_out s))]"
  using spin_reach_inv [OF assms] by (simp add: spin_inv_def spin_cycle_def)

text \<open>
  C32: when the speech request returns, the join orders the console: once the
  foreground prints what follows the join, the spinner has ended, its final
  \<open>'\r'\<close> is out, and nothing comes after the foreground's output.
\<close>

theorem spinner_done_before_playback:
  assumes "spin_reach True s" and "AfterJoin \<in> set (sp_out s)"
  shows "sp_pc s = SDone \<and> SpinReturn \<in> set (sp_out s) \<and> last (sp_out s) = AfterJoin"
  using spin_reach_inv [OF assms(1)] assms(2) by (auto simp: spin_inv_def)

text \<open>
  C33: when the speech request raises, the handler clears the flag but does not join
  the thread: a spinner frame and the spinner's \<open>'\r'\<close> can reach the console after
  the \<open>TTS error\<close> line.
\<close>

theorem spinner_output_after_error:
  "spin_reach False
     \<lparr>sp_loading = False, sp_out = [TtsErrorShown, SpinFrame CHR ''|'', SpinReturn], sp_pc = SDone, fg = FEnd\<rparr>"
proof -
  let ?s1 = "spin_init\<lparr>sp_pc := SWrite 0\<rparr>"
  let ?s2 = "?s1\<lparr>sp_loading := False, fg := FExcept\<rparr>"
  let ?s3 = "?s2\<lparr>sp_out := sp_out ?s2 @ [TtsErrorShown], fg := FEnd\<rparr>"
  let ?s4 = "?s3\<lparr>sp_out := sp_out ?s3 @ [SpinFrame (SPIN_CHARS ! (0 mod 4))], sp_pc := SCheck (Suc 0)\<rparr>"
  let ?s5 = "?s4\<lparr>sp_pc := SFinal\<rparr>"
  let ?s6 = "?s5\<lparr>sp_out := sp_out ?s5 @ [SpinReturn], sp_pc := SDone\<rparr>"
  have "spin_reach False ?s1"
    by (rule spin_reach.step [OF spin_reach.start spin_step.thread [OF spinner_step.spin_on]])
      (simp_all add: spin_init_def)
  then have "spin_reach False ?s2"
    by (rule spin_reach.step [OF _ spin_step.foreground [OF tts_fg_step.post_raise]]) (simp_all add: spin_init_def)
  then have "spin_reach False ?s3"
    by (rule spin_reach.step [OF _ spin_step.foreground [OF tts_fg_step.report]]) simp
  then have "spin_reach False ?s4"
    by (rule spin_reach.step [OF _ spin_step.thread [OF spinner_step.spin_write]]) simp
  then have "spin_reach False ?s5"
    by (rule spin_reach.step [OF _ spin_step.thread [OF spinner_step.spin_off]]) simp_all
  then have "spin_reach False ?s6"
    by (rule spin_reach.step [OF _ spin_step.thread [OF spinner_step.spin_final]]) simp
  then show ?thesis by (simp add: spin_init_def SPIN_CHARS_def)
qed

text \<open>
  C34: once the flag is cleared, every interleaving ends within five steps: the
  spinner notices the flag after at most one more frame, and the foreground's join
  cannot wait forever.
\<close>

theorem spinner_stops_within_five_steps:
  assumes "spin_reach ok s" and "\<not> sp_loading s" and "(spin_step ok ^^ n) s t"
  shows "n \<le> 5"
  using spin_pow_cleared [OF assms(3,2)] rank_cleared [OF spin_reach_inv [OF assms(1)] assms(2)] by linarith

text \<open>
  C35: whether the request returns or raises, from every reachable state some run
  ends with the spinner thread finished and \<open>text_to_speech\<close> returned.
\<close>

theorem spinner_always_finishes:
  assumes "spin_reach ok s"
  shows "\<exists>t. (spin_step ok)\<^sup>*\<^sup>* s t \<and> sp_pc t = SDone \<and> fg t = FEnd"
proof (cases "sp_loading s")
  case True
  with spin_reach_inv [OF assms] have post: "fg s = FPost" by (simp add: spin_inv_def)
  define u where "u = s\<lparr>sp_loading := False, fg := if ok then FJoin else FExcept\<rparr>"
  have su: "spin_step ok s u"
    using post by (cases ok) (auto simp: u_def intro: spin_step.foreground tts_fg_step.intros)
  have "spin_reach ok u" "\<not> sp_loading u" using assms su by (auto simp: u_def intro: spin_reach.step)
  from spin_finish [OF this] su show ?thesis by (meson converse_rtranclp_into_rtranclp)
qed (rule spin_finish [OF assms])

section \<open>The properties at a concrete run\<close>

text \<open>A run in which the request returns after the spinner printed two frames.\<close>

lemma spin_demo_reach:
  "spin_reach True \<lparr>sp_loading = False, sp_out = [SpinFrame CHR ''|'', SpinFrame CHR ''/''],
                    sp_pc = SCheck 2, fg = FJoin\<rparr>"
  "spin_reach True \<lparr>sp_loading = False, sp_out = [SpinFrame CHR ''|'', SpinFrame CHR ''/'', SpinReturn, AfterJoin],
                    sp_pc = SDone, fg = FEnd\<rparr>"
proof -
  let ?s1 = "spin_init\<lparr>sp_pc := SWrite 0\<rparr>"
  let ?s2 = "?s1\<lparr>sp_out := sp_out ?s1 @ [SpinFrame (SPIN_CHARS ! (0 mod 4))], sp_pc := SCheck (Suc 0)\<rparr>"
  let ?s3 = "?s2\<lparr>sp_pc := SWrite (Suc 0)\<rparr>"
  let ?s4 = "?s3\<lparr>sp_out := sp_out ?s3 @ [SpinFrame (SPIN_CHARS ! (Suc 0 mod 4))], sp_pc := SCheck (Suc (Suc 0))\<rparr>"
  let ?s5 = "?s4\<lparr>sp_loading := False, fg := FJoin\<rparr>"
  let ?s6 = "?s5\<lparr>sp_pc := SFinal\<rparr>"
  let ?s7 = "?s6\<lparr>sp_out := sp_out ?s6 @ [SpinReturn], sp_pc := SDone\<rparr>"
  let ?s8 = "?s7\<lparr>fg := FAfter\<rparr>"
  let ?s9 = "?s8\<lparr>sp_out := sp_out ?s8 @ [AfterJoin], fg := FEnd\<rparr>"
  have "spin_reach True ?s1"
    by (rule spin_reach.step [OF spin_reach.start spin_step.thread [OF spinner_step.spin_on]])
      (simp_all add: spin_init_def)
  then have "spin_reach True ?s2"
    by (rule spin_reach.step [OF _ spin_step.thread [OF spinner_step.spin_write]]) simp
  then have "spin_reach True ?s3"
    by (rule spin_reach.step [OF _ spin_step.thread [OF spinner_step.spin_on]]) (simp_all add: spin_init_def)
  then have "spin_reach True ?s4"
    by (rule spin_reach.step [OF _ spin_step.thread [OF spinner_step.spin_write]]) simp
  then have r5: "spin_reach True ?s5"
    by (rule spin_reach.step [OF _ spin_step.foreground [OF tts_fg_step.post_ok]]) (simp_all add: spin_init_def)
  then have "spin_reach True ?s6"
    by (rule spin_reach.step [OF _ spin_step.thread [OF spinner_step.spin_off]]) simp_all
  then have "spin_reach True ?s7"
    by (rule spin_reach.step [OF _ spin_step.thread [OF spinner_step.spin_final]]) simp
  then have "spin_reach True ?s8"
    by (rule spin_reach.step [OF _ spin_step.foreground [OF tts_fg_step.join]]) simp_all
  then have "spin_reach True ?s9"
    by (rule spin_reach.step [OF _ spin_step.foreground [OF tts_fg_step.after]]) simp
  with r5 show
    "spin_reach True \<lparr>sp_loading = False, sp_out = [SpinFrame CHR ''|'', SpinFrame CHR ''/''],
                      sp_pc = SCheck 2, fg = FJoin\<rparr>"
    "spin_reach True \<lparr>sp_loading = False, sp_out = [SpinFrame CHR ''|'', SpinFrame CHR ''/'', SpinReturn, AfterJoin],
                      sp_pc = SDone, fg = FEnd\<rparr>"
    by (simp_all add: spin_init_def SPIN_CHARS_def numeral_2_eq_2)
qed

theorem spinner_frames_cycle_witness:
  "spin_reach True \<lparr>sp_loading = False, sp_out = [SpinFrame CHR ''|'', SpinFrame CHR ''/''], sp_pc = SCheck 2, fg = FJoin\<rparr>
   \<and> [CHR ''|'', CHR ''/''] = map (\<lambda>k. SPIN_CHARS ! (k mod 4)) [0..<2]"
  using spinner_frames_cycle [OF spin_demo_reach(1)] spin_demo_reach(1) by (simp add: SPIN_CHARS_def numeral_2_eq_2)

theorem spinner_done_before_playback_witness:
  "spin_reach True \<lparr>sp_loading = False, sp_out = [SpinFrame CHR ''|'', SpinFrame CHR ''/'', SpinReturn, AfterJoin],
                    sp_pc = SDone, fg = FEnd\<rparr>
   \<and> AfterJoin \<in> set [SpinFrame CHR ''|'', SpinFrame CHR ''/'', SpinReturn, AfterJoin]
   \<and> SpinReturn \<in> set [SpinFrame CHR ''|'', SpinFrame CHR ''/'', SpinReturn, AfterJoin]"
  using spinner_done_before_playback [OF spin_demo_reach(2)] spin_demo_reach(2) by simp

theorem spinner_stops_within_five_steps_witness:
  "spin_reach True \<lparr>sp_loading = False, sp_out = [SpinFrame CHR ''|'', SpinFrame CHR ''/''], sp_pc = SCheck 2, fg = FJoin\<rparr>
   \<and> (spin_step True ^^ 1) \<lparr>sp_loading = False, sp_out = [SpinFrame CHR ''|'', SpinFrame CHR ''/''], sp_pc = SCheck 2, fg = FJoin\<rparr>
       \<lparr>sp_loading = False, sp_out = [SpinFrame CHR ''|'', SpinFrame CHR ''/''], sp_pc = SFinal, fg = FJoin\<rparr>
   \<and> (1::nat) \<le> 5"
proof -
  have st: "(spin_step True ^^ 1) \<lparr>sp_loading = False, sp_out = [SpinFrame CHR ''|'', SpinFrame CHR ''/''], sp_pc = SCheck 2, fg = FJoin\<rparr>
       \<lparr>sp_loading = False, sp_out = [SpinFrame CHR ''|'', SpinFrame CHR ''/''], sp_pc = SFinal, fg = FJoin\<rparr>"
    unfolding relpowp_1
    using spin_step.thread [OF spinner_step.spin_off [where s = "\<lparr>sp_loading = False, sp_out = [SpinFrame CHR ''|'', SpinFrame CHR ''/''], sp_pc = SCheck 2, fg = FJoin\<rparr>" and k = 2]]
    by simp
  show ?thesis using spinner_stops_within_five_steps [OF spin_demo_reach(1) _ st] spin_demo_reach(1) st by simp
qed

theorem spinner_always_finishes_witness:
  "spin_reach True spin_init
   \<and> (\<exists>t. (spin_step True)\<^sup>*\<^sup>* spin_init t \<and> sp_pc t = SDone \<and> fg t = FEnd)"
  using spinner_always_finishes [OF spin_reach.start [of True]] spin_reach.start [of True] by blast

end
