(* ===== verification/Configuration.thy ===== *)
theory Configuration
  imports TerminalProps WebAppProps
begin

text \<open>
  The configuration both programs read from the environment at import: \<open>load_dotenv()\<close>
  fills \<open>os.environ\<close> from the \<open>.env\<close> file, then \<open>os.getenv\<close> reads the keys.
  \<open>src/app.py\<close> keeps \<open>openai.api_key\<close> and \<open>DEEPGRAM_API_KEY\<close> (\<open>None\<close> when unset);
  \<open>src/app_elevenlabs.py\<close> keeps its two keys and \<open>ELEVENLABS_VOICE_ID\<close> (default
  \<open>""\<close>). An environment is a map from variable names to values.
\<close>

type_synonym env = "string \<Rightarrow> string option"

section \<open>Loading\<close>

text \<open>
  \<open>load_dotenv()\<close> with its default \<open>override=False\<close>: a variable already set in the
  process environment keeps its value, the others take the value of the \<open>.env\<close> file.
\<close>

definition load_dotenv :: "env \<Rightarrow> env \<Rightarrow> env" where
  "load_dotenv dotenv osenv k = (case osenv k of Some v \<Rightarrow> Some v | None \<Rightarrow> dotenv k)"

text \<open>\<open>os.getenv(k, default)\<close>.\<close>

definition py_getenv_default :: "env \<Rightarrow> string \<Rightarrow> string \<Rightarrow> string" where
  "py_getenv_default e k d = (case e k of Some v \<Rightarrow> v | None \<Rightarrow> d)"

text \<open>
  The module globals of \<open>src/app.py\<close>, set into the services the bot runs with:
  \<open>openai.api_key = os.getenv("OPENAI_API_KEY")\<close> and
  \<open>DEEPGRAM_API_KEY = os.getenv("DEEPGRAM_API_KEY")\<close>.
\<close>

definition configure_bot :: "env \<Rightarrow> services \<Rightarrow> services" where
  "configure_bot e P = P\<lparr>openai_key := e ''OPENAI_API_KEY'', deepgram_key := e ''DEEPGRAM_API_KEY''\<rparr>"

text \<open>
  The module globals of \<open>src/app_elevenlabs.py\<close>. The page only tests the two keys for
  truthiness (\<open>if not ELEVENLABS_API_KEY\<close>), for which an unset key and an empty one are
  alike, so an unset key is the empty string here.
\<close>

definition load_web_config :: "env \<Rightarrow> web_config" where
  "load_web_config e =
     \<lparr>openai_api_key = py_getenv_default e ''OPENAI_API_KEY'' [],
      elevenlabs_api_key = py_getenv_default e ''ELEVENLABS_API_KEY'' [],
      voice_id = py_getenv_default e ''ELEVENLABS_VOICE_ID'' []\<rparr>"

section \<open>The speech requests of a terminal session\<close>

text \<open>The Deepgram requests of a run.\<close>

fun speak_reqs :: "event list \<Rightarrow> speak_req list" where
  "speak_reqs [] = []"
| "speak_reqs (SpeakCall q # es) = q # speak_reqs es"
| "speak_reqs (_ # es) = speak_reqs es"

text \<open>Every new speech request of the later world is one the bot builds with key \<open>k\<close>.\<close>

definition auth_ok :: "string option \<Rightarrow> world \<Rightarrow> world \<Rightarrow> bool" where
  "auth_ok k w w' \<longleftrightarrow> set (speak_reqs (out w')) \<subseteq> set (speak_reqs (out w)) \<union> range (speak_request k)"

lemma speak_reqs_append [simp]: "speak_reqs (xs @ ys) = speak_reqs xs @ speak_reqs ys"
  by (induction xs rule: speak_reqs.induct) simp_all

lemma speak_reqs_writes [simp]: "speak_reqs (map PlayerWrite cs) = []"
  by (induction cs) simp_all

lemma speak_reqs_say [simp]: "speak_reqs (out (say m w)) = speak_reqs (out w)"
  by (simp add: say_def emit_def emit_all_def)

lemma speak_reqs_handlers [simp]:
  "speak_reqs (out (snd (generate_response P u w))) = speak_reqs (out w)"
  "speak_reqs (out (snd (transcribe_audio P f w))) = speak_reqs (out w)"
  "speak_reqs (out (snd (record_audio P w))) = speak_reqs (out w)"
  "speak_reqs (out (snd (py_remove f w))) = speak_reqs (out w)"
  "speak_reqs (out (snd (read_line w))) = speak_reqs (out w)"
  "speak_reqs (out (text_to_speech P t w)) = speak_reqs (out w) @ [speak_request (deepgram_key P) t]"
  by (simp_all add: generate_response_def transcribe_audio_def record_audio_def py_remove_def
      text_to_speech_def stream_and_play_def Let_def prod.case_eq_if read_line_snd read_line_fst
      emit_def emit_all_def split: sum.split option.split list.split)

lemma voice_reply_speak:
  "set (speak_reqs (out (voice_reply P t w))) \<subseteq> set (speak_reqs (out w)) \<union> range (speak_request (deepgram_key P))"
  by (auto simp: voice_reply_def prod.case_eq_if)

lemma auth_ok_steps:
  "auth_ok (deepgram_key P) w w"
  "auth_ok (deepgram_key P) a b \<Longrightarrow> auth_ok (deepgram_key P) b c \<Longrightarrow> auth_ok (deepgram_key P) a c"
  "read_line w = (Inr l, w') \<Longrightarrow> auth_ok (deepgram_key P) w w'"
  "auth_ok (deepgram_key P) w (say m w)"
  "auth_ok (deepgram_key P) w (fst (text_turn P u w))"
  "auth_ok (deepgram_key P) w (fst (voice_turn P w))"
proof -
  show "auth_ok (deepgram_key P) w (fst (text_turn P u w))"
    by (auto simp: auth_ok_def text_turn_def Let_def prod.case_eq_if split: sum.split)
  show "auth_ok (deepgram_key P) w (fst (voice_turn P w))"
    using voice_reply_speak
    by (fastforce simp: auth_ok_def voice_turn_def prod.case_eq_if split: sum.split)
qed (auto simp: auth_ok_def read_line_def split: list.splits)

section \<open>The page with its configuration\<close>

lemma no_warn_parts:
  "Show WarnNoVoiceId \<notin> set (snd (text_tab S inp s))"
  "Show WarnNoVoiceId \<notin> set (snd (voice_tab C S inp s))"
  "Show WarnNoVoiceId \<notin> set (fst (snd (sidebar C inp s)))"
proof -
  show "Show WarnNoVoiceId \<notin> set (snd (text_tab S inp s))"
    by (auto simp: text_tab_def w_generate_def Let_def split: option.splits sum.splits)
  have "Show WarnNoVoiceId \<notin> set (snd (voice_turn_web C S a vm))" for a vm
    by (auto simp: voice_turn_web_def w_transcribe_def w_generate_def tts_elevenlabs_def Let_def
        prod.case_eq_if split: sum.splits if_splits option.splits exc.splits)
  then show "Show WarnNoVoiceId \<notin> set (snd (voice_tab C S inp s))"
    by (auto simp: voice_tab_events voice_history_view_def split: option.splits)
  show "Show WarnNoVoiceId \<notin> set (fst (snd (sidebar C inp s)))"
    by (auto simp: sidebar_def Let_def)
qed

lemma rerun_warn_count:
  "count_list (fst (snd (rerun C S inp s))) (Show WarnNoVoiceId) = (if voice_id C = [] then 1 else 0)"
  by (simp add: rerun_events config_checks_def no_warn_parts)

lemma rerun_no_tts:
  "voice_id C = [] \<Longrightarrow> WTtsCall q \<notin> set (fst (snd (rerun C S inp s)))"
  by (cases "audio_value inp")
     (auto simp: rerun_events voice_tab_events no_tts_text_tab no_tts_page dest: voice_turn_web_tts
       split: if_splits)

section \<open>Properties\<close>

text \<open>
  C20: every speech request of a whole terminal session is the one \<open>text_to_speech\<close>
  builds with the \<open>DEEPGRAM_API_KEY\<close> that \<open>load_dotenv\<close> and \<open>os.getenv\<close> gave at
  start-up: its header is \<open>Token \<close> and that value, or \<open>Token None\<close> when the variable
  is set in neither the process environment nor the \<open>.env\<close> file.
\<close>

theorem run_speech_auth_from_env:
  "set (speak_reqs (out (fst (run (configure_bot (load_dotenv dotenv osenv) P) (bot_init inp fs)))))
     \<subseteq> range (speak_request (load_dotenv dotenv osenv ''DEEPGRAM_API_KEY''))"
proof -
  let ?P = "configure_bot (load_dotenv dotenv osenv) P" and ?w = "say Welcome (bot_init inp fs)"
  have "auth_ok (deepgram_key ?P) ?w (fst (run_loop ?P ?w))"
    by (rule session_keep [where R = "\<lambda>P. auth_ok (deepgram_key P)"]; (rule auth_ok_steps; assumption)?)
  then show ?thesis
    by (auto simp: run_def auth_ok_def configure_bot_def bot_init_def emit_def
        split: prod.splits option.splits)
qed

end
