(* ===== verification/Startup.thy ===== *)
theory Startup
  imports Configuration TerminalMain
begin

text \<open>
  The start-up of both programs and the composition with what they run afterwards.
  \<open>src/app.py\<close> imports \<open>pyaudio\<close> at the top of the module, loads the environment
  and builds the OpenAI client before its \<open>__main__\<close> block runs; an exception there
  is uncaught and ends the process with status 1. \<open>src/app_elevenlabs.py\<close> does the
  same at the top of every run of the script, in a server process whose
  \<open>os.environ\<close> persists from one run to the next.
\<close>

text \<open>The exceptions that can leave the top level of a module.\<close>

datatype startup_error = PyAudioImportError | OpenAIError

section \<open>The OpenAI client\<close>

text \<open>
  \<open>OpenAI(api_key=k)\<close>: when \<open>k\<close> is \<open>None\<close> the client falls back on the
  environment variable \<open>OPENAI_API_KEY\<close>, and raises \<open>OpenAIError\<close> when that is
  unset too. An empty string is a key.
\<close>

definition openai_client :: "string option \<Rightarrow> env \<Rightarrow> startup_error + string" where
  "openai_client api_key environ =
     (case api_key of
        Some k \<Rightarrow> Inr k
      | None \<Rightarrow> (case environ ''OPENAI_API_KEY'' of Some k \<Rightarrow> Inr k | None \<Rightarrow> Inl OpenAIError))"

section \<open>Importing and running the terminal program\<close>

text \<open>
  The top level of \<open>src/app.py\<close> up to the client: \<open>import pyaudio\<close> (line 6, outside
  any \<open>try\<close>), \<open>load_dotenv()\<close>, the two \<open>os.getenv\<close> calls and
  \<open>openai.OpenAI(api_key=openai.api_key)\<close>. It returns the services the bot runs
  with, its module globals set.
\<close>

definition app_module :: "bool \<Rightarrow> env \<Rightarrow> env \<Rightarrow> services \<Rightarrow> startup_error + services" where
  "app_module pyaudio_imports dotenv osenv P =
     (if \<not> pyaudio_imports then Inl PyAudioImportError
      else
        let environ = load_dotenv dotenv osenv in
        (case openai_client (environ ''OPENAI_API_KEY'') environ of
           Inl x \<Rightarrow> Inl x
         | Inr _ \<Rightarrow> Inr (configure_bot environ P)))"

text \<open>\<open>python src/app.py\<close>: the module's top level, then its \<open>__main__\<close> block.\<close>

definition app_process ::
  "bool \<Rightarrow> env \<Rightarrow> env \<Rightarrow> services \<Rightarrow> string list \<Rightarrow> (string \<Rightarrow> wav option)
   \<Rightarrow> startup_error + main_msg list \<times> world option \<times> nat" where
  "app_process pyaudio_imports dotenv osenv P inp fs =
     (case app_module pyaudio_imports dotenv osenv P of
        Inl x \<Rightarrow> Inl x
      | Inr P' \<Rightarrow> Inr (main pyaudio_imports P' inp fs))"

text \<open>The exit status of the process: 1 after an uncaught exception.\<close>

definition exit_status :: "startup_error + main_msg list \<times> world option \<times> nat \<Rightarrow> nat" where
  "exit_status r = (case r of Inl _ \<Rightarrow> 1 | Inr (_, _, n) \<Rightarrow> n)"

section \<open>Running the page\<close>

text \<open>
  One run of \<open>src/app_elevenlabs.py\<close> from its first line: \<open>load_dotenv()\<close> writes
  into \<open>os.environ\<close>, which the server process keeps for the next run; the module
  globals and the client follow; then the body that \<open>rerun\<close> models. The state is
  the process environment and the session; the result is the exception that ended
  the run, or its events.
\<close>

definition page_script ::
  "env \<Rightarrow> web_services \<Rightarrow> page_input \<Rightarrow> env \<times> session
   \<Rightarrow> (env \<times> session) \<times> (startup_error + wevent list)" where
  "page_script dotenv S inp st =
     (case st of
        (osenv, s) \<Rightarrow>
          let environ = load_dotenv dotenv osenv in
          (case openai_client (environ ''OPENAI_API_KEY'') environ of
             Inl x \<Rightarrow> ((environ, s), Inl x)
           | Inr _ \<Rightarrow>
               (case rerun (load_web_config environ) S inp s of
                  (s1, es, _) \<Rightarrow> ((environ, s1), Inr es))))"

text \<open>A sequence of runs, each with the contents of the \<open>.env\<close> file at that time.\<close>

fun page_reruns ::
  "web_services \<Rightarrow> (env \<times> page_input) list \<Rightarrow> env \<times> session
   \<Rightarrow> (env \<times> session) \<times> (startup_error + wevent list) list" where
  "page_reruns S [] st = (st, [])"
| "page_reruns S ((dotenv, inp) # runs) st =
     (case page_script dotenv S inp st of
        (st1, r) \<Rightarrow> (case page_reruns S runs st1 of (st2, rs) \<Rightarrow> (st2, r # rs)))"

text \<open>\<open>reruns\<close> with the events of each run kept apart.\<close>

fun reruns_each ::
  "web_config \<Rightarrow> web_services \<Rightarrow> page_input list \<Rightarrow> session \<Rightarrow> session \<times> wevent list list" where
  "reruns_each C S [] s = (s, [])"
| "reruns_each C S (i # ins) s =
     (case rerun C S i s of
        (s1, es1, _) \<Rightarrow> (case reruns_each C S ins s1 of (s2, ess) \<Rightarrow> (s2, es1 # ess)))"

lemma openai_client_same_key:
  "openai_client (environ ''OPENAI_API_KEY'') environ =
     (case environ ''OPENAI_API_KEY'' of Some k \<Rightarrow> Inr k | None \<Rightarrow> Inl OpenAIError)"
  by (simp add: openai_client_def split: option.split)

lemma app_process_cases:
  "app_process b dotenv osenv P inp fs =
     (if \<not> b then Inl PyAudioImportError
      else if load_dotenv dotenv osenv ''OPENAI_API_KEY'' = None then Inl OpenAIError
      else Inr (main True (configure_bot (load_dotenv dotenv osenv) P) inp fs))"
  by (auto simp: app_process_def app_module_def openai_client_same_key split: option.split)

lemma main_True_msgs: "fst (main True P inp fs) = []"
  by (simp add: main_def split: prod.split option.split)

lemma reruns_each_reruns:
  "reruns C S ins s = (fst (reruns_each C S ins s), concat (snd (reruns_each C S ins s)))"
  by (induction ins arbitrary: s) (simp_all add: prod.case_eq_if)

lemma load_dotenv_idem [simp]: "load_dotenv dotenv (load_dotenv dotenv osenv) = load_dotenv dotenv osenv"
  by (rule ext) (simp add: load_dotenv_def split: option.split)

lemma load_dotenv_map_le: "osenv \<subseteq>\<^sub>m load_dotenv dotenv osenv"
  by (auto simp: map_le_def load_dotenv_def)

lemma page_script_env: "fst (fst (page_script dotenv S inp (osenv, s))) = load_dotenv dotenv osenv"
  by (simp add: page_script_def Let_def prod.case_eq_if split: sum.split)

lemma page_reruns_env_grows: "osenv \<subseteq>\<^sub>m fst (fst (page_reruns S runs (osenv, s)))"
proof (induction runs arbitrary: osenv s)
  case Nil
  then show ?case by simp
next
  case (Cons r runs)
  obtain d i where r: "r = (d, i)" by fastforce
  obtain st1 x where ps: "page_script d S i (osenv, s) = (st1, x)" by fastforce
  have "osenv \<subseteq>\<^sub>m fst st1" using page_script_env [of d S i osenv s] ps by (simp add: load_dotenv_map_le)
  moreover have "fst st1 \<subseteq>\<^sub>m fst (fst (page_reruns S runs st1))" using Cons.IH [of "fst st1" "snd st1"] by simp
  ultimately show ?case using r ps by (auto simp: prod.case_eq_if intro: map_le_trans)
qed

lemma page_script_fixed:
  "page_script dotenv S inp (osenv, s) =
     (if load_dotenv dotenv osenv ''OPENAI_API_KEY'' = None
      then ((load_dotenv dotenv osenv, s), Inl OpenAIError)
      else ((load_dotenv dotenv osenv, fst (rerun (load_web_config (load_dotenv dotenv osenv)) S inp s)),
            Inr (fst (snd (rerun (load_web_config (load_dotenv dotenv osenv)) S inp s)))))"
  by (auto simp: page_script_def openai_client_same_key prod.case_eq_if Let_def split: option.split)

lemma page_reruns_no_voice:
  assumes "load_dotenv dotenv osenv ''OPENAI_API_KEY'' \<noteq> None"
    and "voice_id (load_web_config (load_dotenv dotenv osenv)) = []"
  shows "length (snd (page_reruns S (map (Pair dotenv) ins) (osenv, s))) = length ins
    \<and> list_all (\<lambda>r. case r of Inl _ \<Rightarrow> False
                  | Inr es \<Rightarrow> count_list es (Show WarnNoVoiceId) = 1 \<and> (\<forall>q. WTtsCall q \<notin> set es))
        (snd (page_reruns S (map (Pair dotenv) ins) (osenv, s)))"
  using assms
proof (induction ins arbitrary: osenv s)
  case Nil
  then show ?case by simp
next
  case (Cons i ins)
  have "load_dotenv dotenv (load_dotenv dotenv osenv) ''OPENAI_API_KEY'' \<noteq> None"
    "voice_id (load_web_config (load_dotenv dotenv (load_dotenv dotenv osenv))) = []"
    using Cons.prems by simp_all
  note IH = Cons.IH [OF this]
  let ?C = "load_web_config (load_dotenv dotenv osenv)"
  have p: "page_script dotenv S i (osenv, s)
      = ((load_dotenv dotenv osenv, fst (rerun ?C S i s)), Inr (fst (snd (rerun ?C S i s))))"
    using Cons.prems(1) by (simp add: page_script_fixed)
  have r: "count_list (fst (snd (rerun ?C S i s))) (Show WarnNoVoiceId) = 1
      \<and> (\<forall>q. WTtsCall q \<notin> set (fst (snd (rerun ?C S i s))))"
    using rerun_warn_count [of ?C S i s] rerun_no_tts [OF Cons.prems(2)] Cons.prems(2) by simp
  from IH [of "fst (rerun ?C S i s)"] p r show ?case by (simp add: prod.case_eq_if)
qed

text \<open>
  C36: the friendly message of the \<open>__main__\<close> block is never printed: without
  PyAudio the import at the top of the module raises first, so the process ends with
  an uncaught \<open>ImportError\<close>, and when the module does import, the block's own
  import succeeds and prints nothing.
\<close>

theorem app_process_pyaudio_hint_unreachable:
  "app_process False dotenv osenv P inp fs = Inl PyAudioImportError
   \<and> (case app_process b dotenv osenv P inp fs of Inl _ \<Rightarrow> True | Inr r \<Rightarrow> fst r = [])"
  by (simp add: app_process_cases main_True_msgs)

text \<open>
  C37: the process exits with status 0 only when PyAudio imports, \<open>OPENAI_API_KEY\<close> is
  set in the process environment or in the \<open>.env\<close> file, and the user typed the menu
  choice \<open>3\<close>. \<open>DEEPGRAM_API_KEY\<close> is not needed.
\<close>

theorem app_process_exit_zero:
  assumes "exit_status (app_process b dotenv osenv P inp fs) = 0"
  shows "b \<and> (osenv ''OPENAI_API_KEY'' \<noteq> None \<or> dotenv ''OPENAI_API_KEY'' \<noteq> None) \<and> ''3'' \<in> set inp"
proof -
  from assms have b: "b" and k: "load_dotenv dotenv osenv ''OPENAI_API_KEY'' \<noteq> None"
    and m: "snd (snd (main True (configure_bot (load_dotenv dotenv osenv) P) inp fs)) = 0"
    by (auto simp: exit_status_def app_process_cases split: if_splits prod.splits)
  from main_exit_zero_needs_choice_3 [OF m] b k show ?thesis
    by (auto simp: load_dotenv_def split: option.splits)
qed

theorem app_process_exit_zero_witness:
  "exit_status (app_process True [''OPENAI_API_KEY'' \<mapsto> ''sk''] Map.empty demo_services [''3''] Map.empty) = 0
   \<and> [''OPENAI_API_KEY'' \<mapsto> ''sk''] ''OPENAI_API_KEY'' = Some ''sk'' \<and> ''3'' \<in> set [''3'']"
proof -
  have h: "exit_status (app_process True [''OPENAI_API_KEY'' \<mapsto> ''sk''] Map.empty demo_services [''3''] Map.empty) = 0"
    by (simp add: exit_status_def app_process_cases load_dotenv_def main_def run_def
        run_loop.simps [of "configure_bot _ demo_services"] read_line_def bot_init_def say_def emit_def emit_all_def)
  from app_process_exit_zero [OF h] h show ?thesis by simp
qed


text \<open>
  C38: with the same \<open>.env\<close> file on every run, the page script refines the model of
  its body: when \<open>OPENAI_API_KEY\<close> is set in the environment or the file, every run
  has the session and the events of \<open>rerun\<close> under the configuration read at the
  first run; when it is set in neither, every run raises \<open>OpenAIError\<close> before
  showing anything, the key checks of the page included, and the session is never
  changed.
\<close>

theorem page_reruns_fixed_dotenv:
  "page_reruns S (map (Pair dotenv) ins) (osenv, s) =
     (let environ = load_dotenv dotenv osenv;
          osenv' = (if ins = [] then osenv else environ)
      in if environ ''OPENAI_API_KEY'' = None
         then ((osenv', s), replicate (length ins) (Inl OpenAIError))
         else ((osenv', fst (reruns_each (load_web_config environ) S ins s)),
               map Inr (snd (reruns_each (load_web_config environ) S ins s))))"
proof (induction ins arbitrary: osenv s)
  case Nil
  then show ?case by (simp add: Let_def)
next
  case (Cons i ins)
  show ?case
    using Cons.IH [of "load_dotenv dotenv osenv"]
    by (simp add: page_script_fixed Let_def prod.case_eq_if)
qed

text \<open>
  C39: the environment a run of the page reads is never taken back: every variable the
  first run saw keeps its value in all later runs, whatever the \<open>.env\<close> file says
  then, since \<open>load_dotenv\<close> does not override a variable the first run set.
\<close>

theorem page_reruns_first_env_persists:
  "load_dotenv dotenv osenv \<subseteq>\<^sub>m fst (fst (page_reruns S ((dotenv, inp) # runs) (osenv, s)))"
proof -
  obtain e1 s1 r where ps: "page_script dotenv S inp (osenv, s) = ((e1, s1), r)" by (metis prod.exhaust)
  from page_script_env [of dotenv S inp osenv s] ps have "e1 = load_dotenv dotenv osenv" by simp
  with ps page_reruns_env_grows [of e1 S runs s1] show ?thesis by (simp add: prod.case_eq_if)
qed


text \<open>
  C31: when \<open>ELEVENLABS_VOICE_ID\<close> is set neither in the process environment nor in
  the \<open>.env\<close> file, and \<open>OPENAI_API_KEY\<close> is set in one of them so that the script
  gets past the client at line 20, every run of the page completes, calls the
  ElevenLabs service never, and shows the missing-voice warning exactly once: the
  check is repeated on each rerun.
\<close>

theorem page_reruns_unset_voice_id:
  assumes "osenv ''ELEVENLABS_VOICE_ID'' = None" and "dotenv ''ELEVENLABS_VOICE_ID'' = None"
    and "osenv ''OPENAI_API_KEY'' \<noteq> None \<or> dotenv ''OPENAI_API_KEY'' \<noteq> None"
  shows "length (snd (page_reruns S (map (Pair dotenv) ins) (osenv, s))) = length ins
    \<and> list_all (\<lambda>r. case r of Inl _ \<Rightarrow> False
                  | Inr es \<Rightarrow> count_list es (Show WarnNoVoiceId) = 1 \<and> (\<forall>q. WTtsCall q \<notin> set es))
        (snd (page_reruns S (map (Pair dotenv) ins) (osenv, s)))"
proof -
  have k: "load_dotenv dotenv osenv ''OPENAI_API_KEY'' \<noteq> None"
    using assms(3) by (auto simp: load_dotenv_def split: option.split)
  have v: "voice_id (load_web_config (load_dotenv dotenv osenv)) = []"
    using assms(1,2) by (simp add: load_web_config_def load_dotenv_def py_getenv_default_def)
  show ?thesis using page_reruns_no_voice [OF k v] .
qed

theorem page_reruns_unset_voice_id_witness:
  "Map.empty ''ELEVENLABS_VOICE_ID'' = (None :: string option)
   \<and> [''OPENAI_API_KEY'' \<mapsto> ''sk''] ''ELEVENLABS_VOICE_ID'' = None
   \<and> [''OPENAI_API_KEY'' \<mapsto> ''sk''] ''OPENAI_API_KEY'' = Some ''sk''
   \<and> length (snd (page_reruns demo_web_services (map (Pair [''OPENAI_API_KEY'' \<mapsto> ''sk'']) [demo_input, demo_input])
         (Map.empty, demo_session))) = length [demo_input, demo_input]
   \<and> list_all (\<lambda>r. case r of Inl _ \<Rightarrow> False
                  | Inr es \<Rightarrow> count_list es (Show WarnNoVoiceId) = 1 \<and> (\<forall>q. WTtsCall q \<notin> set es))
       (snd (page_reruns demo_web_services (map (Pair [''OPENAI_API_KEY'' \<mapsto> ''sk'']) [demo_input, demo_input])
         (Map.empty, demo_session)))"
proof -
  have h1: "Map.empty ''ELEVENLABS_VOICE_ID'' = (None :: string option)" by simp
  have h2: "[''OPENAI_API_KEY'' \<mapsto> ''sk''] ''ELEVENLABS_VOICE_ID'' = None" by simp
  have h4: "[''OPENAI_API_KEY'' \<mapsto> ''sk''] ''OPENAI_API_KEY'' = Some ''sk''" by simp
  have h3: "Map.empty ''OPENAI_API_KEY'' \<noteq> (None :: string option) \<or> [''OPENAI_API_KEY'' \<mapsto> ''sk''] ''OPENAI_API_KEY'' \<noteq> None"
    by simp
  from page_reruns_unset_voice_id [OF h1 h2 h3, of demo_web_services "[demo_input, demo_input]" demo_session] h1 h2 h4
  show ?thesis by blast
qed

end
