(* ===== verification/Spec2Isabelle.thy ===== *)
theory Spec2Isabelle
  imports TerminalFiles TerminalMain WebAppProps Spinner Configuration Startup
begin

text \<open>
  \<^bold>\<open>A verification model of the voice chatbot of the ASRSpeech repository.\<close>

  The repository has two front ends for one conversation pipeline: \<open>src/app.py\<close>, a
  terminal program (class \<open>VoiceChatBot\<close>) with a text mode and a voice mode that call
  each other, and \<open>src/app_elevenlabs.py\<close>, a Streamlit page. Both send the user's
  words (typed, or recorded and transcribed by Whisper) with a fixed persona prompt to
  an OpenAI chat model and speak the reply (Deepgram in the terminal program,
  ElevenLabs in the page). The hosted services are outside the repository.

  \<^bold>\<open>Theories.\<close>
  \<^item> \<open>Prelude\<close>: byte and sample types (\<open>8 word\<close>, \<open>16 word\<close>), the Python string
    operations the code applies to input (\<open>str.lower\<close>, \<open>str.strip\<close>, truthiness,
    triple-quoted blocks) on the ASCII range, and the shared simp collections.
  \<^item> \<open>Providers\<close>: the requests and responses exchanged with the services
    (\<open>chat_req\<close>, \<open>http_resp\<close>, exceptions \<open>exc\<close>), and the contract of the
    conversation pipeline of spec section 4.4 as an abstract function \<open>pipeline\<close> /
    \<open>spoken_turn\<close> returning the result and the ordered list of service calls.
  \<^item> \<open>Audio\<close>: the capture parameters of \<open>VoiceChatBot.__init__\<close> (mono, 44100 Hz,
    16-bit, 1024-frame chunks), the bytes \<open>stream.read\<close> returns (\<open>read_chunk\<close>,
    little-endian PCM), and the container \<open>record_audio\<close> writes (\<open>write_wav\<close>).
  \<^item> \<open>Capture\<close>: the recording of \<open>record_audio\<close> as two threads, the capture loop
    and the foreground, interleaved over the shared flag \<open>self.recording\<close> and list
    \<open>self.frames\<close>: an inductive step relation \<open>cap_step\<close> with one rule per
    statement, reachable states \<open>cap_reach\<close>, an invariant \<open>cap_inv\<close> by rule
    induction, the steps \<open>cap_step_ok\<close> of runs in which \<open>stream.read\<close> returns,
    and the functional abstraction \<open>captured\<close> used by the terminal model.
  \<^item> \<open>Terminal\<close>: \<open>src/app.py\<close>. The state is the record \<open>world\<close> (the fields of the
    bot object, unread standard input, the working directory's files, the microphone's
    position and the ordered log of observable events); the services and devices are
    the record \<open>services\<close>. Each method is one definition taking and returning the
    world: \<open>generate_response\<close>, \<open>transcribe_audio\<close>, \<open>stream_and_play\<close>,
    \<open>text_to_speech\<close>, \<open>record_audio\<close>; the loop bodies \<open>text_turn\<close> and
    \<open>voice_turn\<close>; the mutually recursive \<open>text_loop\<close> / \<open>voice_loop\<close> (the
    \<open>while True\<close> loops of \<open>text_chat_mode\<close> and \<open>voice_chat_mode\<close>, which call
    each other); \<open>run_loop\<close> and \<open>run\<close>. Exceptions that leave \<open>run\<close> (end of input,
    a microphone that does not open, a missing file) are values of \<open>error\<close>.
  \<^item> \<open>TerminalProps\<close>: the properties of the terminal program.
  \<^item> \<open>TerminalFiles\<close>: the recordings over a whole session: the predicate
    \<open>wav_ok\<close> (the fixed container format of spec section 6) and the relation
    \<open>stt_ok\<close> between two worlds, carried through a session by \<open>session_keep\<close>
    (built from \<open>loops_keep\<close>, \<open>modes_keep\<close> and \<open>run_loop_keep\<close>: a reflexive,
    transitive relation, indexed by the services, that reading a line, printing and
    both turns keep is kept by the whole menu loop).
  \<^item> \<open>TerminalMain\<close>: the \<open>__main__\<close> block of \<open>src/app.py\<close> as \<open>main\<close> (the
    PyAudio import check, then \<open>run\<close>, with the process's exit status), and the
    relation \<open>rest_of\<close> (the unread input only loses lines at its front).
  \<^item> \<open>Spinner\<close>: the progress spinner of \<open>text_to_speech\<close> as a second concurrent
    component: \<open>spinner_step\<close> (one statement of \<open>loading_spinner\<close>),
    \<open>tts_fg_step\<close> (the foreground from \<open>requests.post\<close> on, with the exception
    handler), their interleaving \<open>spin_step\<close> over the shared flag
    \<open>self.loading\<close> and the console, reachable states \<open>spin_reach\<close> and the
    invariant \<open>spin_inv\<close>. The terminal model keeps only the start and join of the
    spinner as events; this theory refines that part.
  \<^item> \<open>WebApp\<close>: \<open>src/app_elevenlabs.py\<close>. Streamlit runs the script again on every
    interaction, so one run is the step \<open>rerun\<close> from the record \<open>session\<close> (the
    two histories of \<open>st.session_state\<close>, absent before the first run) and the widget
    values \<open>page_input\<close> (submitted chat text, the recorder's bytes, the clear button)
    to the new session, the ordered events (page output and service calls) and whether
    \<open>st.rerun()\<close> was called; \<open>reruns\<close> is a sequence of runs. Its parts, in the
    order of the script: \<open>config_checks\<close>, \<open>text_tab\<close> (\<open>with tab1\<close>),
    \<open>voice_tab\<close> with \<open>voice_turn_web\<close> (the \<open>if audio_bytes:\<close> branch) and
    \<open>voice_history_view\<close>, \<open>sidebar\<close>; the functions \<open>transcribe_audio\<close>,
    \<open>generate_response\<close> and \<open>text_to_speech_elevenlabs\<close> are \<open>w_transcribe\<close>,
    \<open>w_generate\<close> and \<open>tts_elevenlabs\<close>, each returning its result and events.
  \<^item> \<open>WebAppProps\<close>: the properties of the page, with the projection \<open>wcalls_of\<close> of
    its events onto the abstract service calls.
  \<^item> \<open>Configuration\<close>: the environment both programs read at import, a map from
    variable names to values: \<open>load_dotenv\<close> (the \<open>.env\<close> file fills only unset
    variables), \<open>os.getenv\<close> with a default (\<open>py_getenv_default\<close>), the module
    globals of \<open>src/app.py\<close> set into the bot's services (\<open>configure_bot\<close>: the
    OpenAI and Deepgram keys, \<open>None\<close> when unset) and those of
    \<open>src/app_elevenlabs.py\<close> (\<open>load_web_config\<close>), and the speech requests of a
    session (\<open>speak_reqs\<close>, the relation \<open>auth_ok\<close>).
  \<^item> \<open>Startup\<close>: the start-up of both programs. \<open>openai_client\<close> is the construction
    of the OpenAI client (a \<open>None\<close> key falls back on \<open>OPENAI_API_KEY\<close> in the
    environment, and \<open>OpenAIError\<close> is raised when that is unset too);
    \<open>app_module\<close> is the top level of \<open>src/app.py\<close> (\<open>import pyaudio\<close> on line 6,
    outside any \<open>try\<close>, then the environment and the client) and \<open>app_process\<close> is
    \<open>python src/app.py\<close>, the module then \<open>main\<close>, with \<open>exit_status\<close>;
    \<open>page_script\<close> is one run of \<open>src/app_elevenlabs.py\<close> from its first line over
    the state (process environment, session), and \<open>page_reruns\<close> a sequence of
    runs in one server process, each with the \<open>.env\<close> file of its time.

  \<^bold>\<open>Termination and bounds.\<close> The loops read one input line per iteration, so
  \<open>text_loop\<close>, \<open>voice_loop\<close> and \<open>run_loop\<close> are total functions with the length
  of the unread input as measure: no fuel is needed, and a session on a finite input
  always returns, normally or with \<open>EOFError\<close>. The capture thread's loop is
  unbounded while the flag is up; the relation leaves its length to the scheduler, and
  after the flag is cleared every run is at most five steps long; the same holds for the
  spinner thread, by a rank that every step lowers once \<open>self.loading\<close> is false. The functional model
  takes the number of captured chunks from \<open>chunks_recorded\<close>, and
  \<open>Capture.capture_refines_captured\<close> shows that exactly these buffers arise.

  \<^bold>\<open>What the properties show.\<close>
  \<^item> Refinement: a voice turn makes exactly the service calls of the abstract spoken
    turn on its recording, in order, so a failed or empty transcript is followed by no
    generation request and a failed or empty reply by no speech request
    (\<open>voice_turn_refines_pipeline\<close>); a text turn makes the calls of the pipeline on
    the typed line, followed by the speech request exactly when the reply is non-empty
    and the answer is \<open>y\<close> (\<open>text_turn_refines_pipeline\<close>); the interleaved capture has exactly the
    buffers of the functional model (\<open>capture_refines_captured\<close>).
  \<^item> Safety over a whole session: every chat request is the persona block plus one
    user message (\<open>run_chat_requests_stateless\<close>); the recording file is removed after
    every voice turn, whatever the services did (\<open>voice_turn_removes_recording\<close>).
  \<^item> Error paths: only the end of input or the microphone ends a session
    (\<open>turn_errors_only_from_input_or_device\<close>); what is printed and played on a
    failing chat request (including the API key), a non-200 or raising speech request,
    and the end of input during a recording.
  \<^item> Concurrency: frames are fixed after the join, at most one frame is appended after
    the stop and one can be, the loop stops within five steps, and the join is reachable by a run in which
    every \<open>stream.read\<close> returns, so through the flag alone
    (\<open>capture_join_reachable\<close>).
  \<^item> Data: the file \<open>record_audio\<close> writes is the little-endian encoding of exactly
    the microphone samples the recording consumed, and decodes back to them
    (\<open>recorded_audio_roundtrip\<close>); its size is a whole number of 2048-byte chunks.
  \<^item> Mode commands: \<open>quit\<close> (\<open>mode_quit_token\<close>), \<open>voice\<close> and \<open>text\<close>
    (\<open>mode_switch_tokens\<close>) in any letter case.
  \<^item> Start-up and exit status: \<open>python src/app.py\<close> exits with status 0 only when
    PyAudio imports, \<open>OPENAI_API_KEY\<close> is set somewhere and the menu choice \<open>3\<close>
    was typed (\<open>app_process_exit_zero\<close>, from \<open>main_exit_zero_needs_choice_3\<close>
    for the \<open>__main__\<close> block); the block's PyAudio message is dead code, since the
    module-level import raises first (\<open>app_process_pyaudio_hint_unreachable\<close>).
    For the page, with a fixed \<open>.env\<close> the whole script refines \<open>rerun\<close> under the
    configuration of the first run, or raises \<open>OpenAIError\<close> on every run with the
    session untouched (\<open>page_reruns_fixed_dotenv\<close>); what the first run loaded stays
    in the environment whatever \<open>.env\<close> says later
    (\<open>page_reruns_first_env_persists\<close>).
  \<^item> Type of the recordings: every container the session sends to Whisper is mono,
    16-bit, 44100 Hz with whole chunks (\<open>run_transcribes_only_wav\<close>).
  \<^item> Persona (this theory): both front ends send their persona verbatim as the system
    message, and only the terminal's contains the refusal rule the spec's scenario
    relies on (\<open>persona_refusal_rule_terminal_only\<close>).
  \<^item> Spinner: frames follow the cycle (\<open>spinner_frames_cycle\<close>); with a returning request the join puts all
    spinner output before what follows it; with a raising one a frame can follow the
    error line; after the flag is cleared every interleaving ends within five steps,
    and from every state some run ends with the thread finished.
  \<^item> The page: its voice turn makes the calls of the same abstract spoken turn when a
    voice id is set and replies have content (\<open>web_voice_turn_refines_pipeline\<close>);
    \<open>text_to_speech_elevenlabs\<close> succeeds exactly on a 200 response with a body;
    every ElevenLabs request speaks a reply of the same run to the configured voice;
    chat requests never carry the histories; without the clear button both histories
    only grow, one text pair and at most one voice exchange per run, and the view
    numbers the last three exchanges by their position; the clear button empties both.
    Two findings are theorems: an empty reply is spoken and recorded rather than an
    error, and a recording received on two runs is answered and recorded twice.
  \<^item> Configuration: every Deepgram request of a session carries the header built from
    the \<open>DEEPGRAM_API_KEY\<close> the environment gave at start-up, \<open>Token None\<close> when it
    is set nowhere, with no check at start-up (\<open>run_speech_auth_from_env\<close>); with
    no voice id, and an OpenAI key so that the client at line 20 is built, every run
    of the page completes, never calls ElevenLabs and warns once
    (\<open>page_reruns_unset_voice_id\<close>).

  \<^bold>\<open>Not modelled.\<close> The services themselves (any behaviour is allowed); the file
  parser of \<open>python-dotenv\<close> (the file is given as the map it yields) and the API
  clients beyond their construction (a client is its key, and what it sends is the
  request data of \<open>Providers\<close>); the other imports, which are assumed to succeed;
  the page's title and fixed texts (\<open>st.title\<close>, \<open>st.write\<close> of constant
  strings), which carry no state; the spinner's line layout (\<open>Spinner\<close> keeps the order and the
  characters of its output, not the carriage-return rendering) and the exact console
  strings (each \<open>print\<close> is a constructor of
  \<open>msg\<close>); \<open>input()\<close> prompts; the \<open>wave\<close> module's byte layout (the container is
  a record of its header fields and data); Python's recursion limit on long chains of
  mode switches; Unicode case mapping and whitespace beyond ASCII. In the page: the Streamlit
  rendering (titles, fixed texts, spinners, the layout of tabs and expanders; each
  message is a constructor of \<open>ui\<close>), the recorder component's own silence detection
  (its value on each run is an input of \<open>rerun\<close>), and the content of the audio,
  which the page passes through as bytes.
\<close>

section \<open>The persona of the two front ends\<close>

lemma persona_refusal_terminal: "sublist ''you MUST refuse and redirect'' SYSTEM_PROMPT"
proof -
  have "sublist ''you MUST refuse and redirect''
     (''- When someone asks factual questions (like \"What's the mass of the Sun?\" or \"What's the capital of France?\"), ''
      @ ''you MUST refuse and redirect'')"
    by (rule sublist_append_leftI)
  also have "sublist
     (''- When someone asks factual questions (like \"What's the mass of the Sun?\" or \"What's the capital of France?\"), ''
      @ ''you MUST refuse and redirect'') (py_unlines SYSTEM_PROMPT_lines)"
    by (rule sublist_py_unlines) (simp add: SYSTEM_PROMPT_lines_def)
  finally show ?thesis unfolding SYSTEM_PROMPT_def by (simp add: sublist_Cons_right)
qed

lemma persona_no_refusal_web: "\<not> sublist ''refuse'' EL_SYSTEM_PROMPT"
  unfolding EL_SYSTEM_PROMPT_def EL_SYSTEM_PROMPT_lines_def py_unlines_def by code_simp

text \<open>
  C4: both front ends send their persona block verbatim as the first, system,
  message of every chat request, followed by the user's text; the terminal program's
  block contains the rule of spec section 4.4 that factual questions are refused and
  redirected, while the page's block contains no refusal at all, so the spec's
  scenario ("What's the capital of France?" is redirected) holds for the terminal
  program only.
\<close>

theorem persona_refusal_rule_terminal_only:
  "map msg_role (req_messages (chat_request p)) = [System, User]
   \<and> msg_content (hd (req_messages (chat_request p))) = SYSTEM_PROMPT
   \<and> map msg_role (req_messages (el_chat_request p)) = [System, User]
   \<and> msg_content (hd (req_messages (el_chat_request p))) = EL_SYSTEM_PROMPT
   \<and> sublist ''you MUST refuse and redirect'' SYSTEM_PROMPT
   \<and> \<not> sublist ''refuse'' EL_SYSTEM_PROMPT"
  by (simp add: chat_request_def el_chat_request_def persona_refusal_terminal persona_no_refusal_web)

end
